(* ===== verification/Prelude.thy ===== *)
theory Prelude
  imports Complex_Main "HOL-Library.Multiset"
begin

text \<open>
  Shared vocabulary of the development: the named collections of evaluation
  rules that the component theories fill, and generic facts about lists used as
  insertion-ordered sets and maps, which is how JavaScript's \<open>Set\<close> and \<open>Map\<close>
  behave.
\<close>

named_theorems js_simps "evaluation rules of the JavaScript runtime model"
named_theorems clause_simps "unfolding rules of the lead filter clauses"

text \<open>A JavaScript \<open>Set\<close> or \<open>Map\<close> key list keeps insertion order and no duplicates.\<close>

definition list_insert :: "'a \<Rightarrow> 'a list \<Rightarrow> 'a list" where
  "list_insert x xs = (if x \<in> set xs then xs else xs @ [x])"

lemma set_list_insert [simp]: "set (list_insert x xs) = insert x (set xs)"
  by (auto simp: list_insert_def)

lemma distinct_list_insert [simp]: "distinct (list_insert x xs) = distinct xs"
  by (auto simp: list_insert_def)

lemma list_insert_mem [simp]: "x \<in> set xs \<Longrightarrow> list_insert x xs = xs"
  by (simp add: list_insert_def)

lemma list_insert_new [simp]: "x \<notin> set xs \<Longrightarrow> list_insert x xs = xs @ [x]"
  by (simp add: list_insert_def)

lemma fold_list_insert_set [simp]:
  "set (fold list_insert ys xs) = set xs \<union> set ys"
  by (induction ys arbitrary: xs) auto

lemma fold_list_insert_distinct [simp]:
  "distinct (fold list_insert ys xs) = distinct xs"
  by (induction ys arbitrary: xs) auto

end
