(* ===== verification/Unicode_Text.thy ===== *)
theory Unicode_Text
  imports Prelude
begin

text \<open>
  The text layer of the JavaScript runtime that \<open>getInitials\<close> works on. The
  model's strings are the UTF-8 bytes of the JSON payload; a JavaScript string is
  a list of UTF-16 code units. This theory holds the strict UTF-8 decoder
  (Unicode 15, table 3-7: no overlong forms, no surrogates, nothing above
  U+10FFFF), the UTF-16 encoding of a code point and its decoder (which keeps
  lone surrogates, as \<open>String.prototype.codePointAt\<close> does), the ECMAScript
  white space set (\<open>WhiteSpace\<close> and \<open>LineTerminator\<close>, matched by \<open>\s\<close> and
  stripped by \<open>trim\<close>), \<open>String.prototype.trim\<close>, \<open>split(/\s+/)\<close> and
  \<open>toUpperCase\<close> over a code-point case mapping. It proves that decoding inverts
  encoding at both layers, so a string read from valid UTF-8 is well-formed UTF-16,
  and that trimming code points is trimming their UTF-16 units.
\<close>

section \<open>UTF-8\<close>

definition is_cont :: "nat \<Rightarrow> bool" where
  "is_cont b \<longleftrightarrow> 128 \<le> b \<and> b < 192"

definition is_surrogate :: "nat \<Rightarrow> bool" where
  "is_surrogate c \<longleftrightarrow> 55296 \<le> c \<and> c < 57344"

definition valid_cp :: "nat \<Rightarrow> bool" where
  "valid_cp c \<longleftrightarrow> c < 1114112 \<and> \<not> is_surrogate c"

definition utf8_encode_cp :: "nat \<Rightarrow> nat list" where
  "utf8_encode_cp c =
     (if c < 128 then [c]
      else if c < 2048 then [192 + c div 64, 128 + c mod 64]
      else if c < 65536 then [224 + c div 4096, 128 + c div 64 mod 64, 128 + c mod 64]
      else [240 + c div 262144, 128 + c div 4096 mod 64, 128 + c div 64 mod 64, 128 + c mod 64])"

text \<open>One multi-byte sequence after its lead byte \<open>b\<close>: the code point and the rest.\<close>

definition utf8_seq :: "nat \<Rightarrow> nat list \<Rightarrow> (nat \<times> nat list) option" where
  "utf8_seq b bs =
     (if 194 \<le> b \<and> b < 224 then
        (case bs of
           b1 # r \<Rightarrow> if is_cont b1 then Some ((b - 192) * 64 + (b1 - 128), r) else None
         | _ \<Rightarrow> None)
      else if 224 \<le> b \<and> b < 240 then
        (case bs of
           b1 # b2 # r \<Rightarrow>
             let c = (b - 224) * 4096 + (b1 - 128) * 64 + (b2 - 128) in
             if is_cont b1 \<and> is_cont b2 \<and> 2048 \<le> c \<and> valid_cp c then Some (c, r) else None
         | _ \<Rightarrow> None)
      else if 240 \<le> b \<and> b < 245 then
        (case bs of
           b1 # b2 # b3 # r \<Rightarrow>
             let c = (b - 240) * 262144 + (b1 - 128) * 4096 + (b2 - 128) * 64 + (b3 - 128) in
             if is_cont b1 \<and> is_cont b2 \<and> is_cont b3 \<and> 65536 \<le> c \<and> valid_cp c then Some (c, r)
             else None
         | _ \<Rightarrow> None)
      else None)"

function utf8_decode :: "nat list \<Rightarrow> nat list option" where
  "utf8_decode [] = Some []"
| "utf8_decode (b # bs) =
     (if b < 128 then map_option (Cons b) (utf8_decode bs)
      else (case utf8_seq b bs of
              None \<Rightarrow> None
            | Some (c, r) \<Rightarrow> map_option (Cons c) (utf8_decode r)))"
  by pat_completeness auto
termination
  by (relation "measure length") (auto simp: utf8_seq_def Let_def split: if_splits list.splits)

section \<open>UTF-16\<close>

definition utf16_units :: "nat \<Rightarrow> nat list" where
  "utf16_units c =
     (if c < 65536 then [c] else [55296 + (c - 65536) div 1024, 56320 + (c - 65536) mod 1024])"

definition is_high :: "nat \<Rightarrow> bool" where
  "is_high u \<longleftrightarrow> 55296 \<le> u \<and> u < 56320"

definition is_low :: "nat \<Rightarrow> bool" where
  "is_low u \<longleftrightarrow> 56320 \<le> u \<and> u < 57344"

fun utf16_decode :: "nat list \<Rightarrow> nat list" where
  "utf16_decode (h # l # us) =
     (if is_high h \<and> is_low l then (65536 + (h - 55296) * 1024 + (l - 56320)) # utf16_decode us
      else h # utf16_decode (l # us))"
| "utf16_decode us = us"

text \<open>A string is well-formed when its code points contain no lone surrogate.\<close>

definition utf16_wf :: "nat list \<Rightarrow> bool" where
  "utf16_wf us \<longleftrightarrow> list_all (\<lambda>c. \<not> is_surrogate c) (utf16_decode us)"

text \<open>The JavaScript string a field of the payload holds, when its bytes are UTF-8.\<close>

definition js_units :: "string \<Rightarrow> nat list option" where
  "js_units s = map_option (\<lambda>cps. concat (map utf16_units cps)) (utf8_decode (map of_char s))"

section \<open>White space, trim, split and case mapping\<close>

definition is_es_space :: "nat \<Rightarrow> bool" where
  "is_es_space u \<longleftrightarrow>
     (9 \<le> u \<and> u \<le> 13) \<or> u = 32 \<or> u = 160 \<or> u = 5760 \<or> (8192 \<le> u \<and> u \<le> 8202)
     \<or> u = 8232 \<or> u = 8233 \<or> u = 8239 \<or> u = 8287 \<or> u = 12288 \<or> u = 65279"

text \<open>The same trim on code points.\<close>

definition cp_trim :: "nat list \<Rightarrow> nat list" where
  "cp_trim cps = rev (dropWhile is_es_space (rev (dropWhile is_es_space cps)))"

definition units_trim :: "nat list \<Rightarrow> nat list" where
  "units_trim us = rev (dropWhile is_es_space (rev (dropWhile is_es_space us)))"

text \<open>
  \<open>split(/\s+/)\<close> (ECMAScript RegExp.prototype[@@split]): the text up to the first
  white space, then the split of what follows the maximal white-space run.
\<close>

function split_ws :: "nat list \<Rightarrow> nat list list" where
  "split_ws us =
     (if dropWhile (\<lambda>u. \<not> is_es_space u) us = [] then [us]
      else takeWhile (\<lambda>u. \<not> is_es_space u) us
           # split_ws (dropWhile is_es_space (dropWhile (\<lambda>u. \<not> is_es_space u) us)))"
  by pat_completeness auto
termination
proof (relation "measure length")
  fix us :: "nat list"
  assume ne: "dropWhile (\<lambda>u. \<not> is_es_space u) us \<noteq> []"
  then obtain x xs where r: "dropWhile (\<lambda>u. \<not> is_es_space u) us = x # xs"
    by (cases "dropWhile (\<lambda>u. \<not> is_es_space u) us") auto
  then have "is_es_space x" using hd_dropWhile [OF ne] by simp
  then have "length (dropWhile is_es_space (dropWhile (\<lambda>u. \<not> is_es_space u) us)) \<le> length xs"
    using r by (simp add: length_dropWhile_le)
  also have "\<dots> < length us"
    using r length_dropWhile_le [of "\<lambda>u. \<not> is_es_space u" us] by simp
  finally show "(dropWhile is_es_space (dropWhile (\<lambda>u. \<not> is_es_space u) us), us) \<in> measure length"
    by simp
qed simp

declare split_ws.simps [simp del]

text \<open>
  \<open>String.prototype.toUpperCase\<close>: the string's code points, each mapped by the
  runtime's full case mapping \<open>cu\<close>; a lone surrogate has no mapping and stays.
\<close>

definition js_toUpperCase :: "(nat \<Rightarrow> nat list) \<Rightarrow> nat list \<Rightarrow> nat list" where
  "js_toUpperCase cu us =
     concat (map (\<lambda>c. if is_surrogate c then [c] else concat (map utf16_units (cu c))) (utf16_decode us))"

section \<open>Lemmas\<close>

lemma div64_split: "(n::nat) div (k * 64) * 64 + n div k mod 64 = n div k"
  by (simp add: div_mult2_eq)

lemma utf8_seq_encode:
  assumes "valid_cp c" and "128 \<le> c"
  shows "utf8_seq (hd (utf8_encode_cp c)) (tl (utf8_encode_cp c) @ rest) = Some (c, rest)"
proof -
  have d1: "c div 64 * 64 + c mod 64 = c"
    using div64_split [of c 1] by simp
  have d2: "c div 4096 * 64 + c div 64 mod 64 = c div 64"
    using div64_split [of c 64] by simp
  have d3: "c div 262144 * 64 + c div 4096 mod 64 = c div 4096"
    using div64_split [of c 4096] by simp
  consider "c < 2048" | "2048 \<le> c" "c < 65536" | "65536 \<le> c" by linarith
  then show ?thesis
  proof cases
    case 1
    then show ?thesis using assms d1
      by (simp add: utf8_encode_cp_def utf8_seq_def is_cont_def) (auto simp: algebra_simps)
  next
    case 2
    have "c div 4096 * 4096 + c div 64 mod 64 * 64 + c mod 64 = c" using d1 d2 by linarith
    moreover have "c div 4096 < 16" using 2 by simp
    ultimately show ?thesis using 2 assms
      by (simp add: utf8_encode_cp_def utf8_seq_def is_cont_def Let_def)
  next
    case 3
    have "c div 262144 * 262144 + c div 4096 mod 64 * 4096 + c div 64 mod 64 * 64 + c mod 64 = c"
      using d1 d2 d3 by linarith
    moreover have "c div 262144 < 5"
      using assms less_mult_imp_div_less [of c 5 262144] by (simp add: valid_cp_def)
    ultimately show ?thesis using 3 assms
      by (simp add: utf8_encode_cp_def utf8_seq_def is_cont_def Let_def)
  qed
qed

lemma utf8_encode_cp_ascii: "c < 128 \<Longrightarrow> utf8_encode_cp c = [c]"
  by (simp add: utf8_encode_cp_def)

lemma utf8_encode_cp_multi:
  "128 \<le> c \<Longrightarrow> utf8_encode_cp c = hd (utf8_encode_cp c) # tl (utf8_encode_cp c) \<and> 128 \<le> hd (utf8_encode_cp c)"
  by (simp add: utf8_encode_cp_def)

text \<open>Decoding inverts encoding, on any suffix.\<close>

lemma utf8_decode_encode_append:
  "list_all valid_cp cps \<Longrightarrow>
     utf8_decode (concat (map utf8_encode_cp cps) @ rest) = map_option ((@) cps) (utf8_decode rest)"
proof (induction cps)
  case (Cons c cps)
  show ?case
  proof (cases "c < 128")
    case True
    then show ?thesis using Cons by (simp add: utf8_encode_cp_ascii option.map_comp comp_def)
  next
    case False
    then have m: "utf8_encode_cp c = hd (utf8_encode_cp c) # tl (utf8_encode_cp c)"
      and h: "\<not> hd (utf8_encode_cp c) < 128" using utf8_encode_cp_multi [of c] by auto
    have "utf8_decode (utf8_encode_cp c @ concat (map utf8_encode_cp cps) @ rest)
        = map_option (Cons c) (utf8_decode (concat (map utf8_encode_cp cps) @ rest))"
      using Cons.prems False h utf8_seq_encode [of c "concat (map utf8_encode_cp cps) @ rest"]
      by (subst m) simp
    then show ?thesis using Cons by (simp add: option.map_comp comp_def)
  qed
qed (cases "utf8_decode rest", simp_all)

lemma utf8_decode_encode:
  "list_all valid_cp cps \<Longrightarrow> utf8_decode (concat (map utf8_encode_cp cps)) = Some cps"
  using utf8_decode_encode_append [of cps "[]"] by simp

lemma utf8_seq_valid: "utf8_seq b bs = Some (c, r) \<Longrightarrow> valid_cp c"
  by (auto simp: utf8_seq_def Let_def valid_cp_def is_surrogate_def is_cont_def
           split: if_splits list.splits)

lemma utf8_decode_valid: "utf8_decode bs = Some cps \<Longrightarrow> list_all valid_cp cps"
proof (induction bs arbitrary: cps rule: utf8_decode.induct)
  case (2 b bs)
  then show ?case
    by (auto simp: valid_cp_def is_surrogate_def dest: utf8_seq_valid split: if_splits option.splits)
qed simp

lemma utf16_decode_not_high: "\<not> is_high h \<Longrightarrow> utf16_decode (h # us) = h # utf16_decode us"
  by (cases us) simp_all

lemma utf16_high_bound: "c < 1114112 \<Longrightarrow> (c - 65536) div 1024 < (1024::nat)"
proof -
  assume "c < 1114112"
  then have "c - 65536 < 1024 * 1024" by linarith
  then show ?thesis by (rule less_mult_imp_div_less)
qed

lemma utf16_units_decode:
  assumes "valid_cp c"
  shows "utf16_decode (utf16_units c @ rest) = c # utf16_decode rest"
proof (cases "c < 65536")
  case True
  then have "\<not> is_high c" using assms by (auto simp: is_high_def valid_cp_def is_surrogate_def)
  then show ?thesis using True by (simp add: utf16_units_def utf16_decode_not_high)
next
  case False
  have "(c - 65536) div 1024 < 1024"
    using assms utf16_high_bound by (simp add: valid_cp_def)
  moreover have "(c - 65536) div 1024 * 1024 + (c - 65536) mod 1024 = c - 65536"
    by (rule div_mult_mod_eq)
  ultimately show ?thesis using False
    by (simp add: utf16_units_def is_high_def is_low_def algebra_simps)
qed

lemma utf16_decode_encode_append:
  "list_all valid_cp cps \<Longrightarrow> utf16_decode (concat (map utf16_units cps) @ rest) = cps @ utf16_decode rest"
  by (induction cps) (simp_all add: utf16_units_decode)

lemma utf16_decode_encode:
  "list_all valid_cp cps \<Longrightarrow> utf16_decode (concat (map utf16_units cps)) = cps"
  using utf16_decode_encode_append [of cps "[]"] by simp

lemma utf16_units_bounds: "c < 1114112 \<Longrightarrow> list_all (\<lambda>u. u < 65536) (utf16_units c) \<and> length (utf16_units c) \<le> 2"
proof -
  assume "c < 1114112"
  then have "(c - 65536) div 1024 < 10240" using utf16_high_bound [of c] by linarith
  moreover have "(c - 65536) mod 1024 < 9216"
    using mod_less_divisor [of 1024 "c - 65536"] by linarith
  ultimately show ?thesis by (simp add: utf16_units_def)
qed

text \<open>A string read from valid UTF-8 is well-formed UTF-16 of 16-bit units.\<close>

lemma js_units_wf:
  assumes "js_units s = Some us"
  shows "utf16_wf us \<and> list_all (\<lambda>u. u < 65536) us"
proof -
  obtain cps where d: "utf8_decode (map of_char s) = Some cps" and u: "us = concat (map utf16_units cps)"
    using assms by (auto simp: js_units_def)
  have v: "list_all valid_cp cps" using utf8_decode_valid [OF d] .
  have "utf16_wf us" using v by (simp add: u utf16_wf_def utf16_decode_encode list_all_iff valid_cp_def)
  moreover have "list_all (\<lambda>u. u < 65536) us"
    using v utf16_units_bounds by (auto simp: u list_all_iff valid_cp_def)
  ultimately show ?thesis ..
qed

subsection \<open>ASCII, bytes and trim\<close>

lemma utf8_decode_ascii: "list_all (\<lambda>b. b < 128) bs \<Longrightarrow> utf8_decode bs = Some bs"
  by (induction bs) simp_all

lemma dropWhile_map_cong:
  "list_all (\<lambda>x. P (f x) = Q x) xs \<Longrightarrow> dropWhile P (map f xs) = map f (dropWhile Q xs)"
  by (induction xs) auto

lemma utf8_encode_ascii:
  "list_all (\<lambda>c. of_char c < (128::nat)) t \<Longrightarrow> concat (map utf8_encode_cp (map of_char t)) = map of_char t"
  by (induction t) (simp_all add: utf8_encode_cp_ascii)

lemma dropWhile_concat_map:
  assumes "list_all P cps"
    and "\<And>c. P c \<Longrightarrow> is_es_space c \<Longrightarrow> f c = [c]"
    and "\<And>c. P c \<Longrightarrow> \<not> is_es_space c \<Longrightarrow> f c \<noteq> [] \<and> \<not> is_es_space (hd (f c))"
  shows "dropWhile is_es_space (concat (map f cps)) = concat (map f (dropWhile is_es_space cps))"
  using assms(1)
proof (induction cps)
  case (Cons c cps)
  show ?case
  proof (cases "is_es_space c")
    case True
    then show ?thesis using Cons assms(2) [of c] by simp
  next
    case False
    then obtain x xs where "f c = x # xs" and "\<not> is_es_space x"
      using Cons.prems assms(3) [of c] by (cases "f c") auto
    then show ?thesis using False by simp
  qed
qed simp

lemma es_space_bmp: "is_es_space c \<Longrightarrow> c < 65536 \<and> \<not> is_surrogate c"
  by (auto simp: is_es_space_def is_surrogate_def)

lemma utf16_units_es_space: "is_es_space c \<Longrightarrow> utf16_units c = [c]"
  using es_space_bmp [of c] by (simp add: utf16_units_def)

lemma utf16_units_ends:
  assumes "valid_cp c" and "\<not> is_es_space c"
  shows "utf16_units c \<noteq> [] \<and> \<not> is_es_space (hd (utf16_units c)) \<and> \<not> is_es_space (last (utf16_units c))"
proof (cases "c < 65536")
  case True
  then show ?thesis using assms by (simp add: utf16_units_def)
next
  case False
  have "(c - 65536) div 1024 < 1024" "(c - 65536) mod 1024 < 1024"
    using assms utf16_high_bound [of c] by (simp_all add: valid_cp_def)
  then show ?thesis using False by (simp add: utf16_units_def is_es_space_def)
qed

lemma units_trim_utf16:
  assumes "list_all valid_cp cps"
  shows "units_trim (concat (map utf16_units cps)) = concat (map utf16_units (cp_trim cps))"
proof -
  have front: "dropWhile is_es_space (concat (map utf16_units xs)) = concat (map utf16_units (dropWhile is_es_space xs))"
    if "list_all valid_cp xs" for xs
    using that by (rule dropWhile_concat_map) (simp_all add: utf16_units_es_space utf16_units_ends)
  have rear: "dropWhile is_es_space (concat (map (rev \<circ> utf16_units) xs))
      = concat (map (rev \<circ> utf16_units) (dropWhile is_es_space xs))"
    if "list_all valid_cp xs" for xs
    using that by (rule dropWhile_concat_map)
       (simp_all add: utf16_units_es_space utf16_units_ends hd_rev)
  have v1: "list_all valid_cp (dropWhile is_es_space cps)"
    using assms by (auto simp: list_all_iff dest: set_dropWhileD)
  have "rev (concat (map utf16_units (dropWhile is_es_space cps)))
      = concat (map (rev \<circ> utf16_units) (rev (dropWhile is_es_space cps)))"
    by (simp add: rev_concat rev_map)
  then show ?thesis using v1 front [OF assms] rear [of "rev (dropWhile is_es_space cps)"]
    by (simp add: units_trim_def cp_trim_def rev_concat rev_map comp_def)
qed

lemma utf8_encode_cp_bytes: "valid_cp c \<Longrightarrow> list_all (\<lambda>b. b < (256::nat)) (utf8_encode_cp c)"
proof -
  assume v: "valid_cp c"
  have m: "c mod 64 < 128" "c div 64 mod 64 < 128" "c div 4096 mod 64 < 128"
    using mod_less_divisor [of 64 c] mod_less_divisor [of 64 "c div 64"] mod_less_divisor [of 64 "c div 4096"]
    by linarith+
  have "c div 64 < 64" if "c < 2048" using that less_mult_imp_div_less [of c 32 64] by simp
  moreover have "c div 4096 < 32" if "c < 65536" using that less_mult_imp_div_less [of c 16 4096] by simp
  moreover have "c div 262144 < 16" using v less_mult_imp_div_less [of c 5 262144] by (simp add: valid_cp_def)
  ultimately show ?thesis using m by (simp add: utf8_encode_cp_def)
qed

lemma of_char_char_of_bytes:
  "list_all (\<lambda>b. b < (256::nat)) bs \<Longrightarrow> map of_char (map char_of bs :: string) = bs"
  by (induction bs) simp_all

lemma cp_trim_valid: "list_all valid_cp cps \<Longrightarrow> list_all valid_cp (cp_trim cps)"
  by (auto simp: cp_trim_def list_all_iff dest!: set_dropWhileD)

subsection \<open>Trim and split\<close>

lemma units_trim_ends:
  assumes "units_trim us \<noteq> []"
  shows "\<not> is_es_space (hd (units_trim us)) \<and> \<not> is_es_space (last (units_trim us))"
proof -
  define a where "a = dropWhile is_es_space us"
  have t: "units_trim us = rev (dropWhile is_es_space (rev a))" by (simp add: units_trim_def a_def)
  have "rev (takeWhile is_es_space (rev a) @ dropWhile is_es_space (rev a)) = a" by simp
  then have pre: "units_trim us @ rev (takeWhile is_es_space (rev a)) = a"
    by (simp only: rev_append t)
  have ne: "a \<noteq> []" and nd: "dropWhile is_es_space (rev a) \<noteq> []" using assms t pre by auto
  have "hd (units_trim us) = hd a"
    using hd_append2 [OF assms, of "rev (takeWhile is_es_space (rev a))"] pre by simp
  moreover have "\<not> is_es_space (hd a)" using hd_dropWhile [of is_es_space us] ne by (simp add: a_def)
  moreover have "last (units_trim us) = hd (dropWhile is_es_space (rev a))" using nd by (simp add: t last_rev)
  moreover have "\<not> is_es_space (hd (dropWhile is_es_space (rev a)))" using hd_dropWhile [OF nd] .
  ultimately show ?thesis by simp
qed

lemma split_ws_nonempty: "split_ws us \<noteq> []"
  by (subst split_ws.simps) simp

lemma split_ws_hd: "\<exists>ws. split_ws us = takeWhile (\<lambda>u. \<not> is_es_space u) us # ws"
proof (cases "dropWhile (\<lambda>u. \<not> is_es_space u) us = []")
  case True
  have "takeWhile (\<lambda>u. \<not> is_es_space u) us @ dropWhile (\<lambda>u. \<not> is_es_space u) us = us"
    by (rule takeWhile_dropWhile_id)
  then have tw: "takeWhile (\<lambda>u. \<not> is_es_space u) us = us" by (simp only: True append_Nil2)
  have "split_ws us = [us]" by (subst split_ws.simps [of us], simp only: True, simp)
  then have "split_ws us = takeWhile (\<lambda>u. \<not> is_es_space u) us # []" by (simp only: tw)
  then show ?thesis ..
next
  case False
  show ?thesis by (subst split_ws.simps [of us], simp only: if_not_P [OF False], simp)
qed

lemma split_ws_single:
  "\<not> list_ex is_es_space us \<Longrightarrow> split_ws us = [us]"
  by (subst split_ws.simps) (simp add: dropWhile_eq_Nil_conv list_ex_iff)

text \<open>
  On a trimmed string with white space, the first two words start with the
  string's first unit and with the first unit after the first white-space run.
\<close>

lemma split_ws_two:
  assumes "us \<noteq> []" and "\<not> is_es_space (hd us)" and "\<not> is_es_space (last us)"
    and "list_ex is_es_space us"
  shows "\<exists>w0 w1 ws. split_ws us = w0 # w1 # ws \<and> w0 \<noteq> [] \<and> hd w0 = hd us
           \<and> w1 \<noteq> [] \<and> hd w1 = hd (dropWhile is_es_space (dropWhile (\<lambda>u. \<not> is_es_space u) us))"
proof -
  define r where "r = dropWhile (\<lambda>u. \<not> is_es_space u) us"
  define rest where "rest = dropWhile is_es_space r"
  have rne: "r \<noteq> []" using assms(4) by (simp add: r_def dropWhile_eq_Nil_conv list_ex_iff)
  have "rest \<noteq> []"
  proof
    assume "rest = []"
    then have "list_all is_es_space r" unfolding rest_def by (simp add: dropWhile_eq_Nil_conv list_all_iff)
    moreover have "last r = last us"
      using last_appendR [OF rne, of "takeWhile (\<lambda>u. \<not> is_es_space u) us"] by (simp add: r_def)
    ultimately show False using rne assms(3) last_in_set [OF rne] by (simp add: list_all_iff)
  qed
  then have hr: "\<not> is_es_space (hd rest)"
    using hd_dropWhile [of is_es_space r] by (simp add: rest_def)
  have s: "split_ws us = takeWhile (\<lambda>u. \<not> is_es_space u) us # split_ws rest"
    unfolding rest_def r_def
    by (subst split_ws.simps [of us]) (simp only: if_not_P [OF rne [unfolded r_def]])
  from split_ws_hd [of rest] obtain ws where s1: "split_ws rest = takeWhile (\<lambda>u. \<not> is_es_space u) rest # ws" ..
  have "takeWhile (\<lambda>u. \<not> is_es_space u) us \<noteq> [] \<and> hd (takeWhile (\<lambda>u. \<not> is_es_space u) us) = hd us"
    using assms(1,2) by (cases us) simp_all
  moreover have "takeWhile (\<lambda>u. \<not> is_es_space u) rest \<noteq> [] \<and> hd (takeWhile (\<lambda>u. \<not> is_es_space u) rest) = hd rest"
    using \<open>rest \<noteq> []\<close> hr by (cases rest) simp_all
  ultimately show ?thesis unfolding s s1
    by (simp add: rest_def r_def)
qed

lemma js_units_Nil: "js_units t = Some [] \<Longrightarrow> t = []"
proof (cases t)
  case (Cons c cs)
  assume u: "js_units t = Some []"
  then obtain cps where d: "utf8_decode (map of_char t) = Some cps"
    and e: "concat (map utf16_units cps) = []" by (auto simp: js_units_def)
  have "cps \<noteq> []" using d Cons by (auto split: if_splits option.splits)
  moreover have "utf16_units c' \<noteq> []" for c' by (simp add: utf16_units_def)
  ultimately show ?thesis using e by (cases cps) auto
qed simp

end
