(* ===== verification/Js_Values.thy ===== *)
theory Js_Values
  imports Unicode_Text
begin

text \<open>
  The part of the JavaScript runtime the lead console relies on: JSON values as
  they arrive in \<open>crm_raw\<close>, the \<open>Number(\<dots>)\<close> coercion with its string grammar
  (ECMAScript StringToNumber), truthiness (\<open>Boolean(\<dots>)\<close>), \<open>String.prototype.trim\<close>,
  \<open>Number.prototype.toString\<close> for the numbers that occur, and
  \<open>Array.prototype.sort\<close> with a comparator. Numbers are modelled as exact
  rationals: every number that reaches the model is a decimal literal, so the
  finite doubles are the rationals below the overflow bound; rounding to 53
  bits is not modelled, overflow to \<open>Infinity\<close> is.
\<close>

section \<open>JSON values\<close>

datatype json =
    JNull
  | JBool bool
  | JNum rat
  | JStr string
  | JArr "json list"
  | JObj "(string \<times> json) list"

text \<open>
  A parsed JSON object (\<open>Record<string, unknown>\<close>) is an association list with
  distinct keys; a missing key reads as \<open>undefined\<close>, the \<open>None\<close> of
  \<open>json option\<close>.
\<close>

type_synonym js_object = "(string \<times> json) list"

definition obj_get :: "js_object \<Rightarrow> string \<Rightarrow> json option" where
  "obj_get obj k = map_of obj k"

section \<open>Whitespace and trim\<close>

text \<open>ASCII members of ECMAScript's WhiteSpace and LineTerminator sets.\<close>

definition is_js_space :: "char \<Rightarrow> bool" where
  "is_js_space c \<longleftrightarrow> of_char c \<in> {9, 10, 11, 12, 13, 32 :: nat}"

text \<open>
  \<open>String.prototype.trim\<close> on a string held as UTF-8 bytes: decode, trim the
  code points of the ECMAScript white space set (\<open>is_es_space\<close>), encode. Bytes
  that are not UTF-8 hold no JavaScript string; for them the ASCII white space is
  trimmed.
\<close>

definition js_trim :: "string \<Rightarrow> string" where
  "js_trim s =
     (case utf8_decode (map of_char s) of
        Some cps \<Rightarrow> map char_of (concat (map utf8_encode_cp (cp_trim cps)))
      | None \<Rightarrow> rev (dropWhile is_js_space (rev (dropWhile is_js_space s))))"

section \<open>Digits\<close>

definition digit_in_radix :: "nat \<Rightarrow> char \<Rightarrow> nat option" where
  "digit_in_radix r c =
     (let n = (of_char c :: nat);
          v = (if 48 \<le> n \<and> n \<le> 57 then n - 48
               else if 97 \<le> n \<and> n \<le> 122 then n - 87
               else if 65 \<le> n \<and> n \<le> 90 then n - 55
               else r)
      in if v < r then Some v else None)"

definition is_digit :: "char \<Rightarrow> bool" where
  "is_digit c \<longleftrightarrow> digit_in_radix 10 c \<noteq> None"

fun digits_value :: "nat \<Rightarrow> string \<Rightarrow> nat option" where
  "digits_value r [] = Some 0"
| "digits_value r (c # cs) =
     (case digit_in_radix r c of
        None \<Rightarrow> None
      | Some d \<Rightarrow> map_option (\<lambda>v. d * r ^ length cs + v) (digits_value r cs))"

section \<open>StringToNumber\<close>

text \<open>
  The largest finite double is \<open>2^1024 - 2^971\<close>; a literal at or above the
  midpoint \<open>2^1024 - 2^970\<close> to the next power rounds to \<open>Infinity\<close>.
  \<open>None\<close> stands for the non-finite results \<open>NaN\<close> and \<open>\<plusminus>Infinity\<close>.
\<close>

definition overflow_bound :: rat where
  "overflow_bound = 2 ^ 1024 - 2 ^ 970"

definition finite_number :: "rat \<Rightarrow> rat option" where
  "finite_number q = (if \<bar>q\<bar> < overflow_bound then Some q else None)"

definition exponent_part :: "string \<Rightarrow> int option" where
  "exponent_part s =
     (case s of
        [] \<Rightarrow> Some 0
      | e # t \<Rightarrow>
          if e \<notin> {CHR ''e'', CHR ''E''} then None
          else
            let (sg, ds) = (case t of
                               CHR ''+'' # u \<Rightarrow> (1, u)
                             | CHR ''-'' # u \<Rightarrow> (-1, u)
                             | _ \<Rightarrow> (1 :: int, t))
            in if ds = [] then None
               else map_option (\<lambda>v. sg * int v) (digits_value 10 ds))"

definition scale10 :: "int \<Rightarrow> rat" where
  "scale10 e = (if 0 \<le> e then 10 ^ nat e else 1 / 10 ^ nat (- e))"

text \<open>
  StrUnsignedDecimalLiteral: digits, an optional fraction, an optional exponent;
  at least one digit before or after the point. \<open>Infinity\<close> has no digits and so
  is rejected here, as it is non-finite anyway.
\<close>

definition unsigned_decimal :: "string \<Rightarrow> rat option" where
  "unsigned_decimal s =
     (let ip = takeWhile is_digit s;
          r1 = dropWhile is_digit s;
          (fp, r2) = (case r1 of
                        CHR ''.'' # t \<Rightarrow> (takeWhile is_digit t, dropWhile is_digit t)
                      | _ \<Rightarrow> ([], r1))
      in if ip = [] \<and> fp = [] then None
         else
           (case (digits_value 10 (ip @ fp), exponent_part r2) of
              (Some m, Some e) \<Rightarrow>
                finite_number (of_nat m / 10 ^ length fp * scale10 e)
            | _ \<Rightarrow> None))"

definition radix_literal :: "nat \<Rightarrow> string \<Rightarrow> rat option" where
  "radix_literal r ds =
     (if ds = [] then None
      else (case digits_value r ds of
              None \<Rightarrow> None
            | Some v \<Rightarrow> finite_number (of_nat v)))"

definition string_to_number :: "string \<Rightarrow> rat option" where
  "string_to_number s =
     (let t = js_trim s in
      if t = [] then Some 0
      else (case t of
              CHR ''0'' # c # ds \<Rightarrow>
                if c \<in> {CHR ''x'', CHR ''X''} then radix_literal 16 ds
                else if c \<in> {CHR ''o'', CHR ''O''} then radix_literal 8 ds
                else if c \<in> {CHR ''b'', CHR ''B''} then radix_literal 2 ds
                else unsigned_decimal t
            | CHR ''+'' # r \<Rightarrow> unsigned_decimal r
            | CHR ''-'' # r \<Rightarrow> map_option uminus (unsigned_decimal r)
            | _ \<Rightarrow> unsigned_decimal t))"

section \<open>Number(value)\<close>

text \<open>
  \<open>Number(v)\<close> for a JSON value, keeping only finite results (\<open>Number.isFinite\<close>).
  An array converts through its string form \<open>join(",")\<close>: the empty array is
  \<open>""\<close>, a one-element array is its element's string (\<open>null\<close> gives \<open>""\<close>,
  a boolean \<open>"true"\<close>/\<open>"false"\<close>), a longer one contains a comma. An object
  is \<open>"[object Object]"\<close>.
\<close>

fun js_to_number :: "json \<Rightarrow> rat option" where
  "js_to_number JNull = Some 0"
| "js_to_number (JBool b) = Some (if b then 1 else 0)"
| "js_to_number (JNum q) = finite_number q"
| "js_to_number (JStr s) = string_to_number s"
| "js_to_number (JArr []) = Some 0"
| "js_to_number (JArr [x]) = (case x of JBool _ \<Rightarrow> None | _ \<Rightarrow> js_to_number x)"
| "js_to_number (JArr (x # y # zs)) = None"
| "js_to_number (JObj _) = None"

section \<open>Truthiness\<close>

fun js_truthy :: "json option \<Rightarrow> bool" where
  "js_truthy None = False"
| "js_truthy (Some JNull) = False"
| "js_truthy (Some (JBool b)) = b"
| "js_truthy (Some (JNum q)) = (q \<noteq> 0)"
| "js_truthy (Some (JStr s)) = (s \<noteq> [])"
| "js_truthy (Some (JArr _)) = True"
| "js_truthy (Some (JObj _)) = True"

section \<open>Number.prototype.toString\<close>

fun nat_to_string :: "nat \<Rightarrow> string" where
  "nat_to_string n =
     (if n < 10 then [char_of (48 + n)]
      else nat_to_string (n div 10) @ [char_of (48 + n mod 10)])"

fun frac_digits :: "nat \<Rightarrow> rat \<Rightarrow> string" where
  "frac_digits 0 q = []"
| "frac_digits (Suc k) q =
     (if q = 0 then []
      else let q' = 10 * q; d = nat \<lfloor>q'\<rfloor> in char_of (48 + d) # frac_digits k (q' - of_nat d))"

text \<open>
  Decimal rendering; every double has at most 1074 fraction digits. Exponent
  notation, which JavaScript uses from \<open>1e21\<close> and below \<open>1e-6\<close>, is not modelled.
\<close>

definition js_number_to_string :: "rat \<Rightarrow> string" where
  "js_number_to_string q =
     (let a = \<bar>q\<bar>; i = nat \<lfloor>a\<rfloor>; f = a - of_nat i;
          s = nat_to_string i @ (if f = 0 then [] else CHR ''.'' # frac_digits 1074 f)
      in if q < 0 then CHR ''-'' # s else s)"

section \<open>Array.prototype.sort\<close>

text \<open>
  \<open>sort\<close> is stable (ES2019); the comparator's result is read as a number, a
  \<open>NaN\<close> result counting as \<open>0\<close> (SortCompare). The model is the stable
  insertion sort; for a consistent comparator every stable sort gives this result.
\<close>

fun js_insert :: "('a \<Rightarrow> 'a \<Rightarrow> int) \<Rightarrow> 'a \<Rightarrow> 'a list \<Rightarrow> 'a list" where
  "js_insert cmp x [] = [x]"
| "js_insert cmp x (y # ys) = (if cmp x y \<le> 0 then x # y # ys else y # js_insert cmp x ys)"

definition js_sort :: "('a \<Rightarrow> 'a \<Rightarrow> int) \<Rightarrow> 'a list \<Rightarrow> 'a list" where
  "js_sort cmp xs = foldr (js_insert cmp) xs []"

section \<open>Maps keyed by insertion\<close>

text \<open>\<open>if (!m.has(k)) m.set(k, v)\<close> on a JavaScript \<open>Map\<close>.\<close>

definition map_set_if_absent :: "'k \<Rightarrow> 'v \<Rightarrow> ('k \<times> 'v) list \<Rightarrow> ('k \<times> 'v) list" where
  "map_set_if_absent k v m = (if k \<in> fst ` set m then m else m @ [(k, v)])"

section \<open>Lemmas\<close>

lemma is_es_space_ascii: "of_char c < (128::nat) \<Longrightarrow> is_es_space (of_char c) = is_js_space c"
  by (auto simp: is_es_space_def is_js_space_def)

lemma js_trim_ascii:
  assumes a: "list_all (\<lambda>c. of_char c < (128::nat)) s"
  shows "js_trim s = rev (dropWhile is_js_space (rev (dropWhile is_js_space s)))"
proof -
  let ?t = "rev (dropWhile is_js_space (rev (dropWhile is_js_space s)))"
  have d: "utf8_decode (map of_char s) = Some (map of_char s)"
    using a by (intro utf8_decode_ascii) (simp add: list_all_iff)
  have e1: "dropWhile is_es_space (map of_char s) = map of_char (dropWhile is_js_space s)"
    using a by (intro dropWhile_map_cong) (simp add: list_all_iff is_es_space_ascii)
  have a2: "list_all (\<lambda>c. of_char c < (128::nat)) (rev (dropWhile is_js_space s))"
    using a by (auto simp: list_all_iff dest: set_dropWhileD)
  have e2: "dropWhile is_es_space (map of_char (rev (dropWhile is_js_space s)))
      = map of_char (dropWhile is_js_space (rev (dropWhile is_js_space s)))"
    using a2 by (intro dropWhile_map_cong) (simp add: list_all_iff is_es_space_ascii)
  have a3: "list_all (\<lambda>c. of_char c < (128::nat)) ?t"
    using a2 by (auto simp: list_all_iff dest: set_dropWhileD)
  have "cp_trim (map of_char s) = map of_char ?t"
    by (simp add: cp_trim_def e1 e2 rev_map)
  moreover have "concat (map utf8_encode_cp (map of_char ?t)) = map of_char ?t"
    using a3 by (rule utf8_encode_ascii)
  ultimately show ?thesis by (simp add: js_trim_def d)
qed

text \<open>On a string held as UTF-8, \<open>js_trim\<close> is \<open>String.prototype.trim\<close> on its code units.\<close>

lemma js_trim_units:
  assumes "js_units s = Some us"
  shows "js_units (js_trim s) = Some (units_trim us)"
proof -
  obtain cps where d: "utf8_decode (map of_char s) = Some cps" and u: "us = concat (map utf16_units cps)"
    using assms by (auto simp: js_units_def)
  have v: "list_all valid_cp cps" using utf8_decode_valid [OF d] .
  have vt: "list_all valid_cp (cp_trim cps)" using cp_trim_valid [OF v] .
  let ?e = "concat (map utf8_encode_cp (cp_trim cps))"
  have "list_all (\<lambda>b. b < 256) ?e"
    using vt utf8_encode_cp_bytes by (auto simp: list_all_iff)
  then have "map of_char (map char_of ?e :: string) = ?e"
    by (rule of_char_char_of_bytes)
  then have "utf8_decode (map of_char (js_trim s)) = Some (cp_trim cps)"
    using utf8_decode_encode [OF vt] by (simp add: js_trim_def d)
  then show ?thesis using units_trim_utf16 [OF v] by (simp add: js_units_def u)
qed


lemmas js_number_defs [js_simps] =
  finite_number_def overflow_bound_def obj_get_def

lemma mset_js_insert [simp]: "mset (js_insert cmp x xs) = add_mset x (mset xs)"
  by (induction xs) auto

lemma mset_js_sort [simp]: "mset (js_sort cmp xs) = mset xs"
  by (induction xs) (simp_all add: js_sort_def)

lemma set_js_sort [simp]: "set (js_sort cmp xs) = set xs"
  by (metis mset_js_sort set_mset_mset)

lemma length_js_sort [simp]: "length (js_sort cmp xs) = length xs"
  by (metis mset_js_sort size_mset)

text \<open>
  A comparator that orders by a key (\<open>cmp x y \<le> 0\<close> iff \<open>k x \<le> k y\<close>) makes the
  JavaScript sort the library's stable \<open>sort_key\<close>.
\<close>

definition key_comparator :: "('a \<Rightarrow> 'a \<Rightarrow> int) \<Rightarrow> ('a \<Rightarrow> 'k::linorder) \<Rightarrow> bool" where
  "key_comparator cmp k \<longleftrightarrow> (\<forall>x y. (cmp x y \<le> 0) = (k x \<le> k y))"

lemma js_insert_insort_key_on:
  "\<forall>y \<in> set ys. (cmp x y \<le> 0) = (k x \<le> k y) \<Longrightarrow> js_insert cmp x ys = insort_key k x ys"
  by (induction ys) simp_all

text \<open>It is enough that the comparator orders the elements of the list by the key.\<close>

lemma js_sort_sort_key_on:
  "\<forall>x \<in> set xs. \<forall>y \<in> set xs. (cmp x y \<le> 0) = (k x \<le> k y) \<Longrightarrow> js_sort cmp xs = sort_key k xs"
proof (induction xs)
  case Nil
  then show ?case by (simp add: js_sort_def)
next
  case (Cons x xs)
  then have IH: "js_sort cmp xs = sort_key k xs" by simp
  have "\<forall>y \<in> set (sort_key k xs). (cmp x y \<le> 0) = (k x \<le> k y)"
    using Cons.prems by simp
  then have "js_insert cmp x (sort_key k xs) = insort_key k x (sort_key k xs)"
    by (rule js_insert_insort_key_on)
  then show ?case using IH by (simp add: js_sort_def)
qed

lemma js_sort_sort_key:
  "key_comparator cmp k \<Longrightarrow> js_sort cmp xs = sort_key k xs"
  by (rule js_sort_sort_key_on) (simp add: key_comparator_def)

lemma map_of_map_set_if_absent:
  "map_of (map_set_if_absent k v m) =
     (if k \<in> fst ` set m then map_of m else (map_of m)(k \<mapsto> v))"
proof (cases "k \<in> fst ` set m")
  case False
  then have "map_of m k = None" by (simp add: map_of_eq_None_iff)
  with False show ?thesis
    by (auto simp: map_set_if_absent_def map_of_append map_add_def fun_eq_iff split: option.split)
qed (simp add: map_set_if_absent_def)

lemma keys_map_set_if_absent [simp]:
  "fst ` set (map_set_if_absent k v m) = insert k (fst ` set m)"
  by (auto simp: map_set_if_absent_def)

lemma distinct_keys_map_set_if_absent [simp]:
  "distinct (map fst (map_set_if_absent k v m)) = distinct (map fst m)"
  by (auto simp: map_set_if_absent_def)


section \<open>Printing and parsing integers\<close>

lemma digit_in_radix_digit:
  "d < 10 \<Longrightarrow> digit_in_radix 10 (char_of (48 + d)) = Some d"
  by (simp add: digit_in_radix_def Let_def of_char_of)

lemma digits_value_snoc:
  "digits_value r (xs @ [c]) =
     (case digit_in_radix r c of
        None \<Rightarrow> None
      | Some d \<Rightarrow> map_option (\<lambda>v. v * r + d) (digits_value r xs))"
  by (induction xs) (auto simp: algebra_simps option.map_comp o_def split: option.split)

lemma nat_to_string_unfold:
  "nat_to_string n =
     (if n < 10 then [char_of (48 + n)] else nat_to_string (n div 10) @ [char_of (48 + n mod 10)])"
  by (rule nat_to_string.simps)


lemma nat_to_string_digits:
  "digits_value 10 (nat_to_string n) = Some n \<and> nat_to_string n \<noteq> []
   \<and> list_all is_digit (nat_to_string n)"
proof (induction n rule: nat_to_string.induct)
  case (1 n)
  show ?case
  proof (cases "n < 10")
    case True
    then show ?thesis
      by (subst (1 2 3) nat_to_string_unfold) (simp add: digit_in_radix_digit is_digit_def del: nat_to_string.simps)
  next
    case False
    then have IH: "digits_value 10 (nat_to_string (n div 10)) = Some (n div 10)"
      "list_all is_digit (nat_to_string (n div 10))"
      using "1.IH" by (simp_all del: nat_to_string.simps)
    have d: "digit_in_radix 10 (char_of (48 + n mod 10)) = Some (n mod 10)"
      by (simp add: digit_in_radix_digit)
    show ?thesis using False IH d
      by (subst (1 2 3) nat_to_string_unfold) (simp add: digits_value_snoc is_digit_def del: nat_to_string.simps)
  qed
qed

lemma is_digit_not_space: "is_digit c \<Longrightarrow> \<not> is_js_space c"
  by (auto simp: is_digit_def digit_in_radix_def is_js_space_def Let_def split: if_splits)

lemma is_digit_not_sign: "is_digit c \<Longrightarrow> c \<notin> {CHR ''+'', CHR ''-'', CHR ''.'', CHR ''x'', CHR ''X'', CHR ''o'', CHR ''O'', CHR ''b'', CHR ''B''}"
  by (auto simp: is_digit_def digit_in_radix_def Let_def split: if_splits)

lemma is_digit_ascii: "is_digit c \<Longrightarrow> of_char c < (128::nat)"
  by (auto simp: is_digit_def digit_in_radix_def Let_def split: if_splits)

lemma js_trim_digits:
  "list_all is_digit s \<Longrightarrow> js_trim s = s"
proof -
  assume d: "list_all is_digit s"
  then have "dropWhile is_js_space s = s"
    by (cases s) (simp_all add: is_digit_not_space)
  moreover have "dropWhile is_js_space (rev s) = rev s"
    using d by (cases "rev s") (auto simp: is_digit_not_space list_all_iff dest: arg_cong [of _ _ set])
  moreover have "list_all (\<lambda>c. of_char c < (128::nat)) s"
    using d by (auto simp: list_all_iff is_digit_ascii)
  ultimately show ?thesis by (simp add: js_trim_ascii)
qed

lemma is_digit_iff: "is_digit c \<longleftrightarrow> c \<in> set ''0123456789''"
proof
  assume "is_digit c"
  then have "48 \<le> (of_char c :: nat) \<and> (of_char c :: nat) \<le> 57"
    by (auto simp: is_digit_def digit_in_radix_def Let_def split: if_splits)
  then have "(of_char c :: nat) \<in> {48, 49, 50, 51, 52, 53, 54, 55, 56, 57}" by simp arith
  also have "{48, 49, 50, 51, 52, 53, 54, 55, 56, 57} = (of_char ` set ''0123456789'' :: nat set)"
    by simp
  finally obtain d where "d \<in> set ''0123456789''" "(of_char c :: nat) = of_char d" by blast
  then show "c \<in> set ''0123456789''" by (simp only: of_char_eq_iff)
next
  assume "c \<in> set ''0123456789''"
  then show "is_digit c" by (auto simp: is_digit_def digit_in_radix_def)
qed

lemma unsigned_decimal_digits:
  "s \<noteq> [] \<Longrightarrow> list_all is_digit s \<Longrightarrow> digits_value 10 s = Some m \<Longrightarrow>
     unsigned_decimal s = finite_number (of_nat m)"
proof -
  assume "s \<noteq> []" and d: "list_all is_digit s" and m: "digits_value 10 s = Some m"
  have tw: "takeWhile is_digit s = s" and dw: "dropWhile is_digit s = []"
    using d by (simp_all add: list_all_iff)
  show ?thesis
    unfolding unsigned_decimal_def Let_def tw dw
    using \<open>s \<noteq> []\<close> m by (simp add: exponent_part_def scale10_def)
qed

lemma string_to_number_digits:
  "s \<noteq> [] \<Longrightarrow> list_all is_digit s \<Longrightarrow> digits_value 10 s = Some m \<Longrightarrow>
     string_to_number s = finite_number (of_nat m)"
proof -
  assume ne: "s \<noteq> []" and d: "list_all is_digit s" and m: "digits_value 10 s = Some m"
  have u: "unsigned_decimal s = finite_number (of_nat m)" using unsigned_decimal_digits [OF ne d m] .
  have t: "js_trim s = s" using js_trim_digits [OF d] .
  obtain c cs where s: "s = c # cs" using ne by (cases s) auto
  have "c \<in> set ''0123456789''" using d s is_digit_iff by simp
  then consider "c = CHR ''0''" | "c \<in> set ''123456789''" by auto
  then show ?thesis
  proof cases
    case 1
    show ?thesis
    proof (cases cs)
      case Nil
      then show ?thesis using 1 s t u by (simp add: string_to_number_def)
    next
      case (Cons c' ds)
      then have "c' \<in> set ''0123456789''" using d s is_digit_iff by simp
      then show ?thesis using 1 Cons s t u by (auto simp: string_to_number_def)
    qed
  next
    case 2
    then show ?thesis using s t u by (auto simp: string_to_number_def)
  qed
qed

lemma string_to_number_nat_to_string:
  "string_to_number (nat_to_string n) = finite_number (of_nat n)"
  using nat_to_string_digits [of n] by (simp add: string_to_number_digits del: nat_to_string.simps)

lemma js_trim_minus_digits:
  "s \<noteq> [] \<Longrightarrow> list_all is_digit s \<Longrightarrow> js_trim (CHR ''-'' # s) = CHR ''-'' # s"
proof -
  assume ne: "s \<noteq> []" and d: "list_all is_digit s"
  obtain x xs where r: "rev s = x # xs" using ne by (cases "rev s") auto
  then have "x \<in> set s" by (metis list.set_intros(1) set_rev)
  then have "\<not> is_js_space x" using d by (simp add: list_all_iff is_digit_not_space)
  moreover have "list_all (\<lambda>c. of_char c < (128::nat)) (CHR ''-'' # s)"
    using d by (auto simp: list_all_iff is_digit_ascii)
  ultimately show ?thesis using r by (simp add: js_trim_ascii is_js_space_def)
qed

lemma string_to_number_int:
  "\<bar>rat_of_int k\<bar> < overflow_bound \<Longrightarrow>
     string_to_number (js_number_to_string (rat_of_int k)) = Some (rat_of_int k)"
proof -
  assume b: "\<bar>rat_of_int k\<bar> < overflow_bound"
  let ?s = "nat_to_string (nat \<bar>k\<bar>)"
  have facts: "digits_value 10 ?s = Some (nat \<bar>k\<bar>)" "?s \<noteq> []" "list_all is_digit ?s"
    using nat_to_string_digits [of "nat \<bar>k\<bar>"] by simp_all
  have str: "js_number_to_string (rat_of_int k) = (if k < 0 then CHR ''-'' # ?s else ?s)"
    by (simp add: js_number_to_string_def Let_def del: nat_to_string.simps)
  have fin: "finite_number (of_nat (nat \<bar>k\<bar>)) = Some (rat_of_int \<bar>k\<bar>)"
    using b by (simp add: finite_number_def)
  show ?thesis
  proof (cases "k < 0")
    case True
    have "unsigned_decimal ?s = Some (rat_of_int \<bar>k\<bar>)"
      using unsigned_decimal_digits [OF facts(2,3,1)] fin by simp
    then show ?thesis using True str js_trim_minus_digits [OF facts(2,3)]
      by (simp add: string_to_number_def del: nat_to_string.simps)
  next
    case False
    then show ?thesis using str fin string_to_number_digits [OF facts(2,3,1)]
      by (simp del: nat_to_string.simps)
  qed
qed


section \<open>Parsed numbers are finite\<close>

text \<open>
  Every number the conversions produce is finite (\<open>Number.isFinite\<close>): the
  parsers end in \<open>finite_number\<close>, which rejects the magnitudes a double
  rounds to \<open>Infinity\<close>.
\<close>

lemma pred_finite_number [simp]: "pred_option (\<lambda>q. \<bar>q\<bar> < overflow_bound) (finite_number x)"
  by (simp add: finite_number_def)

lemma pred_unsigned_decimal [simp]: "pred_option (\<lambda>q. \<bar>q\<bar> < overflow_bound) (unsigned_decimal s)"
  unfolding unsigned_decimal_def Let_def split_def
  by (simp split: option.split)

lemma pred_radix_literal [simp]: "pred_option (\<lambda>q. \<bar>q\<bar> < overflow_bound) (radix_literal r ds)"
  by (simp add: radix_literal_def split: option.split)

lemma pred_uminus_unsigned_decimal [simp]:
  "pred_option (\<lambda>q. \<bar>q\<bar> < overflow_bound) (map_option uminus (unsigned_decimal s))"
  using pred_unsigned_decimal [of s] by (cases "unsigned_decimal s") simp_all

lemma overflow_bound_pos [simp]: "0 < overflow_bound"
  by (simp add: overflow_bound_def)

lemma pred_string_to_number: "pred_option (\<lambda>q. \<bar>q\<bar> < overflow_bound) (string_to_number s)"
  unfolding string_to_number_def Let_def
  by (simp split: list.split char.split bool.split)

lemma one_lt_overflow_bound [simp]: "1 < overflow_bound"
  by (simp add: overflow_bound_def)

lemma pred_js_to_number: "pred_option (\<lambda>q. \<bar>q\<bar> < overflow_bound) (js_to_number v)"
  by (induction v rule: js_to_number.induct)
     (simp_all add: pred_string_to_number split: json.split)


lemma js_trim_Nil [simp]: "js_trim [] = []"
  by (simp add: js_trim_def cp_trim_def)

lemma set_map_set_if_absent: "set (map_set_if_absent k v m) \<subseteq> insert (k, v) (set m)"
  by (auto simp: map_set_if_absent_def)

lemma nat_to_string_zero: "nat_to_string 0 = ''0''"
  by code_simp

end
