(* ===== verification/Lead_Model.thy ===== *)
theory Lead_Model
  imports Js_Values
begin

text \<open>
  The data model of \<open>src/frontend/src/types/leads.ts\<close> and the value-level helpers
  of \<open>src/frontend/src/lib/leads.ts\<close>: leads with their open \<open>crm_raw\<close> payload,
  conversation messages, the filter specification \<open>LeadFilters\<close> with its default,
  the static property-type catalog, and the tolerant accessors \<open>toNumber\<close> and
  \<open>extractLabel\<close>. Also the interface of the host environment (date-fns parsing
  and formatting, the clock, \<open>localeCompare\<close>), which the repository consumes
  and does not implement.
\<close>

section \<open>Leads and messages\<close>

datatype lead_status = LEAD | REACHED_OUT | ERROR

record outreach_entry =
  entry_date :: "string option"
  entry_success :: bool
  entry_note :: "string option"

record lead =
  property_id :: string
  display_id :: string
  title :: string
  date_added :: string
  lister_name :: string
  lister_phone :: "string option"
  status :: lead_status
  outreach_history :: "outreach_entry list"
  crm_raw :: js_object
  last_message_excerpt :: "string option"
  last_message_at :: "string option"
  unread_count :: "rat option"

datatype direction = Inbound | Outbound

record conversation_message =
  message_id :: "string option"
  msg_direction :: direction
  message :: string
  message_type :: string
  timestamp :: string
  msg_status :: "string option"

section \<open>Filters\<close>

datatype rooms_choice = RoomsAll | Rooms1 | Rooms2 | Rooms3 | Rooms4 | Rooms5Plus

text \<open>\<open>Number(filters.rooms)\<close> for the four exact choices.\<close>

fun rooms_number :: "rooms_choice \<Rightarrow> rat" where
  "rooms_number Rooms1 = 1"
| "rooms_number Rooms2 = 2"
| "rooms_number Rooms3 = 3"
| "rooms_number Rooms4 = 4"
| "rooms_number _ = 0"

record transaction_filter =
  sale :: bool
  rent :: bool

record lead_filters =
  propertyTypes :: "rat list"
  regionId :: "rat option"
  zoneId :: "rat option"
  transaction :: transaction_filter
  rooms :: rooms_choice
  minBudget :: "rat option"
  maxBudget :: "rat option"
  dateFrom :: "string option"
  dateTo :: "string option"

definition DEFAULT_LEAD_FILTERS :: lead_filters where
  "DEFAULT_LEAD_FILTERS =
     \<lparr>propertyTypes = [], regionId = None, zoneId = None,
      transaction = \<lparr>sale = False, rent = False\<rparr>, rooms = RoomsAll,
      minBudget = None, maxBudget = None, dateFrom = None, dateTo = None\<rparr>"

section \<open>The property-type catalog\<close>

record option_item =
  opt_value :: rat
  opt_label :: string

text \<open>UTF-8 bytes of the Romanian letters in the catalog's labels.\<close>

definition utf8 :: "nat list \<Rightarrow> string" where
  "utf8 bs = map char_of bs"

definition PROPERTY_TYPE_OPTIONS :: "option_item list" where
  "PROPERTY_TYPE_OPTIONS =
     [\<lparr>opt_value = 1, opt_label = ''Apartament''\<rparr>,
      \<lparr>opt_value = 2, opt_label = ''Cas'' @ utf8 [196, 131] @ '' / Vil'' @ utf8 [196, 131]\<rparr>,
      \<lparr>opt_value = 3, opt_label = ''Teren''\<rparr>,
      \<lparr>opt_value = 4, opt_label = ''Spa'' @ utf8 [200, 155] @ ''iu de birouri''\<rparr>,
      \<lparr>opt_value = 5, opt_label = ''Spa'' @ utf8 [200, 155] @ ''iu comercial''\<rparr>,
      \<lparr>opt_value = 6, opt_label = ''Spa'' @ utf8 [200, 155] @ ''iu industrial''\<rparr>,
      \<lparr>opt_value = 7, opt_label = ''Hotel / Pensiune''\<rparr>,
      \<lparr>opt_value = 8, opt_label = ''Proprietate special'' @ utf8 [196, 131]\<rparr>]"

record filter_options =
  fo_propertyTypes :: "option_item list"
  fo_regions :: "option_item list"
  fo_zones :: "option_item list"

section \<open>Tolerant accessors\<close>

text \<open>
  \<open>toNumber\<close>: \<open>null\<close>, \<open>undefined\<close> and \<open>""\<close> are absent; anything else is
  \<open>Number(value)\<close> if that is finite.
\<close>

fun toNumber :: "json option \<Rightarrow> rat option" where
  "toNumber None = None"
| "toNumber (Some JNull) = None"
| "toNumber (Some (JStr [])) = None"
| "toNumber (Some v) = js_to_number v"

text \<open>\<open>(lead.crm_raw ?? {})[field]\<close>.\<close>

definition getFromRaw :: "lead \<Rightarrow> string \<Rightarrow> json option" where
  "getFromRaw l field = obj_get (crm_raw l) field"

text \<open>The first key whose value is a string that is not blank after trimming.\<close>

fun extractLabel :: "js_object \<Rightarrow> string list \<Rightarrow> string option" where
  "extractLabel raw [] = None"
| "extractLabel raw (k # ks) =
     (case obj_get raw k of
        Some (JStr s) \<Rightarrow> if js_trim s \<noteq> [] then Some s else extractLabel raw ks
      | _ \<Rightarrow> extractLabel raw ks)"

section \<open>The host environment\<close>

text \<open>
  The functions of the date library and the runtime that the code calls, as an
  interface record. Instants are milliseconds since the epoch; \<open>None\<close> is an
  \<open>Invalid Date\<close> (\<open>getTime()\<close> is \<open>NaN\<close>).
  \<^item> \<open>parse_iso\<close>: date-fns \<open>parseISO\<close>;
  \<^item> \<open>parse_date\<close>: \<open>new Date(string)\<close>;
  \<^item> \<open>calendar_day\<close>: the local calendar day of an instant, so that
    \<open>differenceInCalendarDays(a, b) = calendar_day a - calendar_day b\<close>;
  \<^item> \<open>same_year\<close>: date-fns \<open>isSameYear\<close>;
  \<^item> \<open>format_day\<close>: \<open>format(date, "d MMM")\<close> (\<open>False\<close>) or \<open>"d MMM yyyy"\<close> (\<open>True\<close>);
  \<^item> \<open>today\<close>: the instant \<open>TODAY\<close> taken when \<open>dates.ts\<close> is loaded;
  \<^item> \<open>locale_compare\<close>: \<open>String.prototype.localeCompare\<close>.
\<close>

record host =
  parse_iso :: "string \<Rightarrow> int option"
  parse_date :: "string \<Rightarrow> int option"
  calendar_day :: "int \<Rightarrow> int"
  same_year :: "int \<Rightarrow> int \<Rightarrow> bool"
  format_day :: "int \<Rightarrow> bool \<Rightarrow> string"
  today :: int
  locale_compare :: "string \<Rightarrow> string \<Rightarrow> int"

text \<open>
  A host in which no string parses as a date, used where the witnesses do not
  depend on dates.
\<close>

definition ex_host :: host where
  "ex_host =
     \<lparr>parse_iso = (\<lambda>_. None), parse_date = (\<lambda>_. None), calendar_day = id,
      same_year = (\<lambda>_ _. True), format_day = (\<lambda>_ _. ''''), today = 0,
      locale_compare = (\<lambda>_ _. 0)\<rparr>"


section \<open>Example inputs\<close>

text \<open>
  The lead and the filters of the spec's scenario (section 8), used by the
  witnesses: \<open>p1\<close> is an apartment for sale at 100000, the filters ask for
  apartments for sale between 50000 and 150000.
\<close>

definition ex_lead_p1 :: lead where
  "ex_lead_p1 =
     \<lparr>property_id = ''p1'', display_id = ''P1'', title = ''Apartament'',
      date_added = ''2024-01-01'', lister_name = ''Ana'', lister_phone = None, status = LEAD,
      outreach_history = [],
      crm_raw = [(''property_type'', JNum 1), (''for_sale'', JBool True), (''price_sale'', JNum 100000)],
      last_message_excerpt = None, last_message_at = None, unread_count = None\<rparr>"

definition ex_filters_p1 :: lead_filters where
  "ex_filters_p1 =
     DEFAULT_LEAD_FILTERS\<lparr>propertyTypes := [1], transaction := \<lparr>sale = True, rent = False\<rparr>,
                          minBudget := Some 50000, maxBudget := Some 150000\<rparr>"


section \<open>Lemmas\<close>

lemma pred_toNumber: "pred_option (\<lambda>q. \<bar>q\<bar> < overflow_bound) (toNumber v)"
  by (cases v rule: toNumber.cases) (simp_all add: pred_js_to_number pred_string_to_number)

lemma toNumber_finite: "toNumber v = Some q \<Longrightarrow> \<bar>q\<bar> < overflow_bound"
  using pred_toNumber [of v] by simp

lemma extractLabel_nonempty: "extractLabel raw ks = Some s \<Longrightarrow> s \<noteq> []"
proof (induction raw ks rule: extractLabel.induct)
  case (2 raw k ks)
  then show ?case by (auto split: option.splits json.splits if_splits)
qed simp

end
