(* ===== verification/Filter_Predicate.thy ===== *)
theory Filter_Predicate
  imports Lead_Model
begin

text \<open>
  FilterPredicateEngine: \<open>applyLeadFilters\<close> of \<open>src/frontend/src/lib/leads.ts\<close>.
  The arrow function passed to \<open>leads.filter\<close> is a sequence of clauses, each
  returning \<open>false\<close> early; as the clauses have no side effects, the predicate
  is their conjunction, one definition per clause, in the source's order.
\<close>

section \<open>The clauses\<close>

text \<open>A string filter value is active when it is truthy (present and non-empty).\<close>

fun truthy_str :: "string option \<Rightarrow> bool" where
  "truthy_str None = False"
| "truthy_str (Some s) = (s \<noteq> [])"

definition propertyTypeClause :: "lead_filters \<Rightarrow> js_object \<Rightarrow> bool" where
  "propertyTypeClause f raw =
     (if propertyTypes f \<noteq> [] then
        (case toNumber (obj_get raw ''property_type'') of
           None \<Rightarrow> False
         | Some p \<Rightarrow> p \<noteq> 0 \<and> p \<in> set (propertyTypes f))
      else True)"

definition regionClause :: "lead_filters \<Rightarrow> js_object \<Rightarrow> bool" where
  "regionClause f raw =
     (case regionId f of
        None \<Rightarrow> True
      | Some r \<Rightarrow>
          (case toNumber (obj_get raw ''region_obj_id'') of
             None \<Rightarrow> False
           | Some x \<Rightarrow> x \<noteq> 0 \<and> x = r))"

definition zoneClause :: "lead_filters \<Rightarrow> js_object \<Rightarrow> bool" where
  "zoneClause f raw =
     (case zoneId f of
        None \<Rightarrow> True
      | Some z \<Rightarrow>
          (case toNumber (obj_get raw ''zone_id'') of
             None \<Rightarrow> False
           | Some x \<Rightarrow> x \<noteq> 0 \<and> x = z))"

definition transactionClause :: "lead_filters \<Rightarrow> js_object \<Rightarrow> bool" where
  "transactionClause f raw =
     (let saleSelected = sale (transaction f);
          rentSelected = rent (transaction f)
      in if saleSelected \<or> rentSelected then
           (let isSale = js_truthy (obj_get raw ''for_sale'');
                isRent = js_truthy (obj_get raw ''for_rent'')
            in \<not> (saleSelected \<and> \<not> rentSelected \<and> \<not> isSale)
             \<and> \<not> (\<not> saleSelected \<and> rentSelected \<and> \<not> isRent)
             \<and> \<not> (saleSelected \<and> rentSelected \<and> \<not> isSale \<and> \<not> isRent))
         else True)"

definition roomsClause :: "lead_filters \<Rightarrow> js_object \<Rightarrow> bool" where
  "roomsClause f raw =
     (if rooms f \<noteq> RoomsAll then
        (case toNumber (obj_get raw ''rooms'') of
           None \<Rightarrow> False
         | Some n \<Rightarrow> if rooms f = Rooms5Plus then \<not> n < 5 else n = rooms_number (rooms f))
      else True)"

definition withinRange :: "lead_filters \<Rightarrow> rat option \<Rightarrow> bool" where
  "withinRange f price =
     (case price of
        None \<Rightarrow> False
      | Some p \<Rightarrow>
          (case minBudget f of Some m \<Rightarrow> \<not> p < m | None \<Rightarrow> True)
        \<and> (case maxBudget f of Some m \<Rightarrow> \<not> m < p | None \<Rightarrow> True))"

definition budgetClause :: "lead_filters \<Rightarrow> js_object \<Rightarrow> bool" where
  "budgetClause f raw =
     (if minBudget f \<noteq> None \<or> maxBudget f \<noteq> None then
        (let priceSale = toNumber (obj_get raw ''price_sale'');
             priceRent = toNumber (obj_get raw ''price_rent'');
             saleSelected = sale (transaction f);
             rentSelected = rent (transaction f)
         in if saleSelected \<and> \<not> rentSelected then withinRange f priceSale
            else if \<not> saleSelected \<and> rentSelected then withinRange f priceRent
            else if saleSelected \<and> rentSelected then
              withinRange f priceSale \<or> withinRange f priceRent
            else withinRange f priceSale \<or> withinRange f priceRent)
      else True)"

definition dateClause :: "host \<Rightarrow> lead_filters \<Rightarrow> lead \<Rightarrow> bool" where
  "dateClause h f l =
     (if truthy_str (dateFrom f) \<or> truthy_str (dateTo f) then
        (case parse_date h (date_added l) of
           None \<Rightarrow> False
         | Some added \<Rightarrow>
             (case dateFrom f of
                Some d \<Rightarrow>
                  if d \<noteq> [] then
                    (case parse_date h (d @ ''T00:00:00'') of
                       Some fromDate \<Rightarrow> \<not> added < fromDate
                     | None \<Rightarrow> True)
                  else True
              | None \<Rightarrow> True)
           \<and> (case dateTo f of
                Some d \<Rightarrow>
                  if d \<noteq> [] then
                    (case parse_date h (d @ ''T23:59:59'') of
                       Some toDate \<Rightarrow> \<not> toDate < added
                     | None \<Rightarrow> True)
                  else True
              | None \<Rightarrow> True))
      else True)"

section \<open>The predicate and the filter\<close>

definition lead_matches :: "host \<Rightarrow> lead_filters \<Rightarrow> lead \<Rightarrow> bool" where
  "lead_matches h f l =
     (let raw = crm_raw l
      in propertyTypeClause f raw \<and> regionClause f raw \<and> zoneClause f raw
       \<and> transactionClause f raw \<and> roomsClause f raw \<and> budgetClause f raw
       \<and> dateClause h f l)"

definition applyLeadFilters :: "host \<Rightarrow> lead list \<Rightarrow> lead_filters \<Rightarrow> lead list" where
  "applyLeadFilters h leads f = (if leads = [] then leads else filter (lead_matches h f) leads)"

section \<open>The specification of the predicate\<close>

text \<open>
  Spec section 4.2 clause by clause, over the same accessors: a lead passes iff
  every active clause holds. These definitions are the abstract contract that
  the clauses above implement.
\<close>

definition spec_numeric_match :: "js_object \<Rightarrow> string \<Rightarrow> rat option \<Rightarrow> bool" where
  "spec_numeric_match raw k sel =
     (case sel of None \<Rightarrow> True | Some v \<Rightarrow> toNumber (obj_get raw k) = Some v)"

definition spec_property_type :: "lead_filters \<Rightarrow> js_object \<Rightarrow> bool" where
  "spec_property_type f raw =
     (propertyTypes f \<noteq> [] \<longrightarrow>
        (case toNumber (obj_get raw ''property_type'') of
           None \<Rightarrow> False
         | Some p \<Rightarrow> p \<in> set (propertyTypes f)))"

definition spec_transaction :: "lead_filters \<Rightarrow> js_object \<Rightarrow> bool" where
  "spec_transaction f raw =
     (let s = sale (transaction f); r = rent (transaction f);
          isSale = js_truthy (obj_get raw ''for_sale'');
          isRent = js_truthy (obj_get raw ''for_rent'')
      in (s \<and> r \<longrightarrow> isSale \<or> isRent) \<and> (s \<and> \<not> r \<longrightarrow> isSale) \<and> (r \<and> \<not> s \<longrightarrow> isRent))"

definition spec_rooms :: "lead_filters \<Rightarrow> js_object \<Rightarrow> bool" where
  "spec_rooms f raw =
     (rooms f \<noteq> RoomsAll \<longrightarrow>
        (case toNumber (obj_get raw ''rooms'') of
           None \<Rightarrow> False
         | Some n \<Rightarrow> if rooms f = Rooms5Plus then 5 \<le> n else n = rooms_number (rooms f)))"

definition spec_budget :: "lead_filters \<Rightarrow> js_object \<Rightarrow> bool" where
  "spec_budget f raw =
     (let inRange = withinRange f;
          ps = toNumber (obj_get raw ''price_sale'');
          pr = toNumber (obj_get raw ''price_rent'');
          s = sale (transaction f); r = rent (transaction f)
      in minBudget f \<noteq> None \<or> maxBudget f \<noteq> None \<longrightarrow>
           (if s \<and> \<not> r then inRange ps
            else if r \<and> \<not> s then inRange pr
            else inRange ps \<or> inRange pr))"

definition spec_matches :: "host \<Rightarrow> lead_filters \<Rightarrow> lead \<Rightarrow> bool" where
  "spec_matches h f l =
     (let raw = crm_raw l
      in spec_property_type f raw
       \<and> spec_numeric_match raw ''region_obj_id'' (regionId f)
       \<and> spec_numeric_match raw ''zone_id'' (zoneId f)
       \<and> spec_transaction f raw \<and> spec_rooms f raw \<and> spec_budget f raw
       \<and> dateClause h f l)"

text \<open>
  What the code adds to the contract: the facet values it reads with a
  falsiness test (\<open>!propType\<close>, \<open>!regionId\<close>, \<open>!zoneId\<close>) must not be \<open>0\<close>
  when the corresponding clause is active.
\<close>

definition nonzero_ids :: "lead_filters \<Rightarrow> js_object \<Rightarrow> bool" where
  "nonzero_ids f raw =
     ((propertyTypes f \<noteq> [] \<longrightarrow> toNumber (obj_get raw ''property_type'') \<noteq> Some 0)
    \<and> (regionId f \<noteq> None \<longrightarrow> toNumber (obj_get raw ''region_obj_id'') \<noteq> Some 0)
    \<and> (zoneId f \<noteq> None \<longrightarrow> toNumber (obj_get raw ''zone_id'') \<noteq> Some 0))"

section \<open>Clause lemmas\<close>

lemmas clause_defs [clause_simps] =
  propertyTypeClause_def regionClause_def zoneClause_def transactionClause_def
  roomsClause_def withinRange_def budgetClause_def dateClause_def


lemma propertyTypeClause_spec:
  "propertyTypeClause f raw =
     (spec_property_type f raw
      \<and> (propertyTypes f \<noteq> [] \<longrightarrow> toNumber (obj_get raw ''property_type'') \<noteq> Some 0))"
  by (auto simp: propertyTypeClause_def spec_property_type_def split: option.splits)

lemma regionClause_spec:
  "regionClause f raw =
     (spec_numeric_match raw ''region_obj_id'' (regionId f)
      \<and> (regionId f \<noteq> None \<longrightarrow> toNumber (obj_get raw ''region_obj_id'') \<noteq> Some 0))"
  by (auto simp: regionClause_def spec_numeric_match_def split: option.splits)

lemma zoneClause_spec:
  "zoneClause f raw =
     (spec_numeric_match raw ''zone_id'' (zoneId f)
      \<and> (zoneId f \<noteq> None \<longrightarrow> toNumber (obj_get raw ''zone_id'') \<noteq> Some 0))"
  by (auto simp: zoneClause_def spec_numeric_match_def split: option.splits)

lemma transactionClause_spec: "transactionClause f raw = spec_transaction f raw"
  by (auto simp: transactionClause_def spec_transaction_def Let_def)

lemma roomsClause_spec: "roomsClause f raw = spec_rooms f raw"
  by (auto simp: roomsClause_def spec_rooms_def not_less split: option.splits)

lemma budgetClause_spec: "budgetClause f raw = spec_budget f raw"
  by (auto simp: budgetClause_def spec_budget_def Let_def)

lemmas clause_spec_simps =
  propertyTypeClause_spec regionClause_spec zoneClause_spec
  transactionClause_spec roomsClause_spec budgetClause_spec

lemma lead_matches_spec_nonzero:
  "lead_matches h f l = (spec_matches h f l \<and> nonzero_ids f (crm_raw l))"
  unfolding lead_matches_def spec_matches_def nonzero_ids_def clause_spec_simps Let_def
  by blast

lemma applyLeadFilters_filter_eq:
  "applyLeadFilters h leads f = filter (lead_matches h f) leads"
  by (simp add: applyLeadFilters_def)

lemmas example_defs =
  ex_lead_p1_def ex_filters_p1_def DEFAULT_LEAD_FILTERS_def ex_host_def

section \<open>Properties of the predicate\<close>

text \<open>
  Claim C1 (refinement). As long as the filters do not ask for the facet value
  \<open>0\<close> (no property type \<open>0\<close>, no region or zone \<open>0\<close>), the predicate of
  \<open>applyLeadFilters\<close> is exactly the contract of spec section 4.2: a lead passes iff
  every active clause holds.
\<close>

theorem lead_matches_refines_spec:
  assumes "0 \<notin> set (propertyTypes f)" and "regionId f \<noteq> Some 0" and "zoneId f \<noteq> Some 0"
  shows "lead_matches h f l = spec_matches h f l"
proof -
  have "spec_matches h f l \<Longrightarrow> nonzero_ids f (crm_raw l)"
    using assms
    by (auto simp: spec_matches_def nonzero_ids_def spec_property_type_def
                   spec_numeric_match_def Let_def split: option.splits)
  then show ?thesis by (auto simp: lead_matches_spec_nonzero)
qed

theorem lead_matches_refines_spec_witness:
  "0 \<notin> set (propertyTypes ex_filters_p1) \<and> regionId ex_filters_p1 \<noteq> Some 0
   \<and> zoneId ex_filters_p1 \<noteq> Some 0
   \<and> lead_matches ex_host ex_filters_p1 ex_lead_p1 = spec_matches ex_host ex_filters_p1 ex_lead_p1"
proof -
  have h: "0 \<notin> set (propertyTypes ex_filters_p1)" "regionId ex_filters_p1 \<noteq> Some 0"
    "zoneId ex_filters_p1 \<noteq> Some 0"
    by (simp_all add: example_defs)
  show ?thesis using h lead_matches_refines_spec [OF h] by simp
qed

text \<open>
  Claim C2 (functional). The default filters \<open>DEFAULT_LEAD_FILTERS\<close> keep every lead:
  no clause is active.
\<close>

theorem applyLeadFilters_default:
  "applyLeadFilters h leads DEFAULT_LEAD_FILTERS = leads"
  by (simp add: applyLeadFilters_def lead_matches_def DEFAULT_LEAD_FILTERS_def clause_defs)

text \<open>
  With both transaction kinds selected, the transaction
  clause is the inclusive or of the lead's \<open>for_sale\<close> and \<open>for_rent\<close> flags.
\<close>

theorem transaction_both_is_or:
  assumes "sale (transaction f)" and "rent (transaction f)"
  shows "transactionClause f raw =
           (js_truthy (obj_get raw ''for_sale'') \<or> js_truthy (obj_get raw ''for_rent''))"
  using assms by (simp add: transactionClause_def)

theorem transaction_both_is_or_witness:
  "sale \<lparr>sale = True, rent = True\<rparr> \<and> rent \<lparr>sale = True, rent = True\<rparr>
   \<and> transactionClause (ex_filters_p1\<lparr>transaction := \<lparr>sale = True, rent = True\<rparr>\<rparr>)
       [(''for_sale'', JBool True), (''for_rent'', JBool False)]
   \<and> \<not> transactionClause (ex_filters_p1\<lparr>transaction := \<lparr>sale = True, rent = True\<rparr>\<rparr>)
       [(''for_sale'', JBool False), (''for_rent'', JBool False)]"
  using transaction_both_is_or [of "ex_filters_p1\<lparr>transaction := \<lparr>sale = True, rent = True\<rparr>\<rparr>"]
  by (simp add: obj_get_def)

text \<open>
  Claim C4 (functional). The rooms choice \<open>"5+"\<close> accepts exactly the leads whose
  \<open>rooms\<close> value is numeric and at least 5: 5 passes, 4 does not.
\<close>

theorem rooms_five_plus:
  assumes "rooms f = Rooms5Plus"
  shows "roomsClause f raw =
           (case toNumber (obj_get raw ''rooms'') of None \<Rightarrow> False | Some n \<Rightarrow> 5 \<le> n)"
  using assms by (simp add: roomsClause_def not_less split: option.split)

theorem rooms_five_plus_witness:
  "rooms (ex_filters_p1\<lparr>rooms := Rooms5Plus\<rparr>) = Rooms5Plus
   \<and> roomsClause (ex_filters_p1\<lparr>rooms := Rooms5Plus\<rparr>) [(''rooms'', JNum 5)]
   \<and> \<not> roomsClause (ex_filters_p1\<lparr>rooms := Rooms5Plus\<rparr>) [(''rooms'', JNum 4)]"
  using rooms_five_plus [of "ex_filters_p1\<lparr>rooms := Rooms5Plus\<rparr>"]
  by (simp add: obj_get_def finite_number_def overflow_bound_def)

end
