(* ===== verification/Filter_Facets.thy ===== *)
theory Filter_Facets
  imports Lead_Model "HOL-Library.List_Lexorder" "HOL-Library.Char_ord"
begin

text \<open>
  FilterFacetDeriver: \<open>deriveFilterOptions\<close> of \<open>src/frontend/src/lib/leads.ts\<close>.
  The \<open>forEach\<close> over the leads accumulates a \<open>Set\<close> of property types and two
  \<open>Map\<close>s from region and zone ids to labels; the accumulator is a record and
  the loop a left fold of \<open>facet_step\<close>. JavaScript's \<open>Set\<close>/\<open>Map\<close> keep
  insertion order, so they are lists without duplicate keys.
\<close>

section \<open>Definitions\<close>

record facet_acc =
  propertyTypeSet :: "rat list"
  regionMap :: "(rat \<times> string) list"
  zoneMap :: "(rat \<times> string) list"

definition facet_acc_empty :: facet_acc where
  "facet_acc_empty = \<lparr>propertyTypeSet = [], regionMap = [], zoneMap = []\<rparr>"

definition region_label :: "js_object \<Rightarrow> rat \<Rightarrow> string" where
  "region_label raw rid =
     (case extractLabel raw [''region_name'', ''region'', ''county''] of
        Some s \<Rightarrow> s
      | None \<Rightarrow> ''Jude'' @ utf8 [200, 155] @ '' #'' @ js_number_to_string rid)"

definition zone_label :: "js_object \<Rightarrow> rat \<Rightarrow> string" where
  "zone_label raw zid =
     (case extractLabel raw [''zone_name'', ''zone''] of
        Some s \<Rightarrow> s
      | None \<Rightarrow> ''Zon'' @ utf8 [196, 131] @ '' #'' @ js_number_to_string zid)"

definition facet_step :: "facet_acc \<Rightarrow> lead \<Rightarrow> facet_acc" where
  "facet_step acc l =
     (let raw = crm_raw l;
          acc1 = (case toNumber (obj_get raw ''property_type'') of
                    None \<Rightarrow> acc
                  | Some p \<Rightarrow> acc\<lparr>propertyTypeSet := list_insert p (propertyTypeSet acc)\<rparr>);
          acc2 = (case toNumber (obj_get raw ''region_obj_id'') of
                    None \<Rightarrow> acc1
                  | Some r \<Rightarrow>
                      acc1\<lparr>regionMap := map_set_if_absent r (region_label raw r) (regionMap acc1)\<rparr>)
      in (case toNumber (obj_get raw ''zone_id'') of
            None \<Rightarrow> acc2
          | Some z \<Rightarrow> acc2\<lparr>zoneMap := map_set_if_absent z (zone_label raw z) (zoneMap acc2)\<rparr>))"

definition mapToOptions :: "(string \<Rightarrow> string \<Rightarrow> int) \<Rightarrow> (rat \<times> string) list \<Rightarrow> option_item list" where
  "mapToOptions localeCompare m =
     map (\<lambda>(v, lbl). \<lparr>opt_value = v, opt_label = lbl\<rparr>)
       (js_sort (\<lambda>a b. localeCompare (snd a) (snd b)) m)"

definition deriveFilterOptions :: "host \<Rightarrow> lead list \<Rightarrow> filter_options" where
  "deriveFilterOptions h leads =
     (let acc = foldl facet_step facet_acc_empty leads;
          propertyTypes =
            (if propertyTypeSet acc = [] then PROPERTY_TYPE_OPTIONS
             else filter (\<lambda>opt. opt_value opt \<in> set (propertyTypeSet acc)) PROPERTY_TYPE_OPTIONS)
      in \<lparr>fo_propertyTypes = propertyTypes,
          fo_regions = mapToOptions (locale_compare h) (regionMap acc),
          fo_zones = mapToOptions (locale_compare h) (zoneMap acc)\<rparr>)"

text \<open>A map entry that becomes a well-typed option: a finite value and a label.\<close>

abbreviation entry_ok :: "rat \<times> string \<Rightarrow> bool" where
  "entry_ok e \<equiv> \<bar>fst e\<bar> < overflow_bound \<and> snd e \<noteq> []"

section \<open>Example inputs\<close>

text \<open>
  A byte-wise lexicographic \<open>localeCompare\<close> and two leads in the regions
  "Cluj" (id 12) and "Alba" (id 1), the second without a label of its own for
  its zone.
\<close>

definition lex_compare :: "string \<Rightarrow> string \<Rightarrow> int" where
  "lex_compare a b = (if a < b then -1 else if a = b then 0 else 1)"

definition ex_host_lex :: host where
  "ex_host_lex = ex_host\<lparr>locale_compare := lex_compare\<rparr>"

definition ex_leads_regions :: "lead list" where
  "ex_leads_regions =
     [ex_lead_p1\<lparr>property_id := ''c1'',
                 crm_raw := [(''region_obj_id'', JNum 12), (''region_name'', JStr ''Cluj'')]\<rparr>,
      ex_lead_p1\<lparr>property_id := ''a1'',
                 crm_raw := [(''region_obj_id'', JStr ''1''), (''county'', JStr ''Alba''),
                             (''zone_id'', JNum 7)]\<rparr>,
      ex_lead_p1\<lparr>property_id := ''c2'',
                 crm_raw := [(''region_obj_id'', JNum 12), (''region_name'', JStr ''Cluj-Napoca'')]\<rparr>]"

section \<open>The accumulation\<close>

text \<open>Each map of the accumulator changes only through its own key.\<close>

lemma facet_step_propertyTypeSet:
  "propertyTypeSet (facet_step acc l) =
     (case toNumber (getFromRaw l ''property_type'') of
        None \<Rightarrow> propertyTypeSet acc
      | Some p \<Rightarrow> list_insert p (propertyTypeSet acc))"
  by (simp add: facet_step_def getFromRaw_def Let_def split: option.split)

lemma facet_step_regionMap:
  "regionMap (facet_step acc l) =
     (case toNumber (getFromRaw l ''region_obj_id'') of
        None \<Rightarrow> regionMap acc
      | Some r \<Rightarrow> map_set_if_absent r (region_label (crm_raw l) r) (regionMap acc))"
  by (simp add: facet_step_def getFromRaw_def Let_def split: option.split)

lemma facet_step_zoneMap:
  "zoneMap (facet_step acc l) =
     (case toNumber (getFromRaw l ''zone_id'') of
        None \<Rightarrow> zoneMap acc
      | Some z \<Rightarrow> map_set_if_absent z (zone_label (crm_raw l) z) (zoneMap acc))"
  by (simp add: facet_step_def getFromRaw_def Let_def split: option.split)

lemmas facet_step_fields = facet_step_propertyTypeSet facet_step_regionMap facet_step_zoneMap

lemma fold_propertyTypeSet:
  "set (propertyTypeSet (foldl facet_step acc ls)) =
     set (propertyTypeSet acc) \<union> {p. \<exists>l \<in> set ls. toNumber (getFromRaw l ''property_type'') = Some p}"
  by (induction ls arbitrary: acc) (auto simp: facet_step_propertyTypeSet split: option.splits)

lemma fold_regionMap_keys:
  "fst ` set (regionMap (foldl facet_step acc ls)) =
     fst ` set (regionMap acc) \<union> {r. \<exists>l \<in> set ls. toNumber (getFromRaw l ''region_obj_id'') = Some r}"
  by (induction ls arbitrary: acc) (auto simp: facet_step_regionMap split: option.splits)

lemma fold_regionMap_distinct:
  "distinct (map fst (regionMap (foldl facet_step acc ls))) = distinct (map fst (regionMap acc))"
  by (induction ls arbitrary: acc) (simp_all add: facet_step_regionMap split: option.split)

text \<open>The first lead that carries a region id fixes its label.\<close>

lemma facet_step_region_lookup:
  "map_of (regionMap (facet_step acc l)) r =
     (case map_of (regionMap acc) r of
        Some s \<Rightarrow> Some s
      | None \<Rightarrow> if toNumber (getFromRaw l ''region_obj_id'') = Some r
                then Some (region_label (crm_raw l) r) else None)"
proof (cases "map_of (regionMap acc) r")
  case None
  then have "r \<notin> fst ` set (regionMap acc)" by (simp add: map_of_eq_None_iff)
  with None show ?thesis
    by (simp add: facet_step_regionMap map_of_map_set_if_absent split: option.split)
next
  case (Some s)
  then have "r \<in> fst ` set (regionMap acc)" by (metis map_of_eq_None_iff option.distinct(1))
  with Some show ?thesis
    by (auto simp: facet_step_regionMap map_of_map_set_if_absent split: option.split)
qed

lemma fold_regionMap_first:
  "map_of (regionMap (foldl facet_step acc ls)) r =
     (case map_of (regionMap acc) r of
        Some s \<Rightarrow> Some s
      | None \<Rightarrow> map_option (\<lambda>l. region_label (crm_raw l) r)
                  (find (\<lambda>l. toNumber (getFromRaw l ''region_obj_id'') = Some r) ls))"
  by (induction ls arbitrary: acc) (auto simp: facet_step_region_lookup split: option.split)

section \<open>Properties of deriveFilterOptions\<close>

lemma mapToOptions_pairs:
  "map (\<lambda>opt. (opt_value opt, opt_label opt)) (mapToOptions cmp m)
     = js_sort (\<lambda>a b. cmp (snd a) (snd b)) m"
  by (simp add: mapToOptions_def comp_def split_def)

lemma mapToOptions_values:
  "map opt_value (mapToOptions cmp m) = map fst (js_sort (\<lambda>a b. cmp (snd a) (snd b)) m)"
proof -
  have "map opt_value (mapToOptions cmp m)
        = map fst (map (\<lambda>opt. (opt_value opt, opt_label opt)) (mapToOptions cmp m))"
    by simp
  then show ?thesis by (simp only: mapToOptions_pairs)
qed

lemma distinct_map_fst_js_sort [simp]:
  "distinct (map fst (js_sort cmp m)) = distinct (map fst m)"
  by (rule mset_eq_imp_distinct_iff) (metis mset_js_sort mset_map)

lemma regionMap_derived_distinct:
  "distinct (map fst (regionMap (foldl facet_step facet_acc_empty leads)))"
  by (simp add: fold_regionMap_distinct facet_acc_empty_def)

text \<open>
  Claim C6 (functional). The region options are exactly the numeric
  \<open>region_obj_id\<close> values present in the leads, each once: a missing or
  non-numeric value never becomes an option.
\<close>

theorem derive_regions_exact:
  "set (map opt_value (fo_regions (deriveFilterOptions h leads)))
     = {r. \<exists>l \<in> set leads. toNumber (getFromRaw l ''region_obj_id'') = Some r}
   \<and> distinct (map opt_value (fo_regions (deriveFilterOptions h leads)))"
proof
  show "set (map opt_value (fo_regions (deriveFilterOptions h leads)))
     = {r. \<exists>l \<in> set leads. toNumber (getFromRaw l ''region_obj_id'') = Some r}"
    by (simp add: deriveFilterOptions_def Let_def mapToOptions_values fold_regionMap_keys
                  facet_acc_empty_def)
  show "distinct (map opt_value (fo_regions (deriveFilterOptions h leads)))"
    using regionMap_derived_distinct
    by (simp add: deriveFilterOptions_def Let_def mapToOptions_values)
qed

text \<open>
  Claim C7 (functional). The label of a region option is the one derived from the
  first lead that carries that region id (its \<open>region_name\<close>, \<open>region\<close> or
  \<open>county\<close>, else the placeholder \<open>Judet #id\<close>); later leads never overwrite it.
\<close>

theorem derive_region_label_first:
  "map_of (map (\<lambda>opt. (opt_value opt, opt_label opt)) (fo_regions (deriveFilterOptions h leads))) r
     = map_option (\<lambda>l. region_label (crm_raw l) r)
         (find (\<lambda>l. toNumber (getFromRaw l ''region_obj_id'') = Some r) leads)"
proof -
  let ?m = "regionMap (foldl facet_step facet_acc_empty leads)"
  let ?s = "js_sort (\<lambda>a b. locale_compare h (snd a) (snd b)) ?m"
  have "distinct (map fst ?s)"
    using regionMap_derived_distinct by simp
  then have "map_of ?s = map_of ?m"
    using regionMap_derived_distinct by (simp add: map_of_inject_set)
  then show ?thesis
    by (simp add: deriveFilterOptions_def Let_def mapToOptions_pairs fold_regionMap_first
                  facet_acc_empty_def)
qed

text \<open>
  When \<open>localeCompare\<close> orders labels by a key, the region
  options come out sorted by that key.
\<close>

theorem derive_regions_sorted:
  assumes "key_comparator (locale_compare h) k"
  shows "sorted (map (\<lambda>opt. k (opt_label opt)) (fo_regions (deriveFilterOptions h leads)))"
proof -
  let ?m = "regionMap (foldl facet_step facet_acc_empty leads)"
  have kc: "key_comparator (\<lambda>a b. locale_compare h (snd a) (snd b)) (\<lambda>a. k (snd a))"
    using assms by (simp add: key_comparator_def)
  have "map (\<lambda>opt. k (opt_label opt)) (fo_regions (deriveFilterOptions h leads))
        = map (\<lambda>a. k (snd a)) (map (\<lambda>opt. (opt_value opt, opt_label opt))
                                   (fo_regions (deriveFilterOptions h leads)))"
    by simp
  also have "\<dots> = map (\<lambda>a. k (snd a)) (sort_key (\<lambda>a. k (snd a)) ?m)"
    by (simp add: deriveFilterOptions_def Let_def mapToOptions_pairs js_sort_sort_key [OF kc])
  finally show ?thesis by simp
qed

lemma key_comparator_lex_compare: "key_comparator lex_compare id"
  by (auto simp: key_comparator_def lex_compare_def)

theorem derive_regions_sorted_witness:
  "key_comparator (locale_compare ex_host_lex) id
   \<and> sorted (map (\<lambda>opt. id (opt_label opt)) (fo_regions (deriveFilterOptions ex_host_lex ex_leads_regions)))"
proof -
  have h: "key_comparator (locale_compare ex_host_lex) id"
    by (simp add: ex_host_lex_def key_comparator_lex_compare)
  show ?thesis using h derive_regions_sorted [OF h] by simp
qed

text \<open>
  Claim C9 (functional). The property-type options are the catalog entries whose
  value occurs as a numeric \<open>property_type\<close>, in the catalog's order; when no
  lead carries one, the whole catalog.
\<close>

theorem derive_property_types:
  "fo_propertyTypes (deriveFilterOptions h leads) =
     (let present = {p. \<exists>l \<in> set leads. toNumber (getFromRaw l ''property_type'') = Some p}
      in if present = {} then PROPERTY_TYPE_OPTIONS
         else filter (\<lambda>opt. opt_value opt \<in> present) PROPERTY_TYPE_OPTIONS)"
  using fold_propertyTypeSet [of facet_acc_empty leads]
  by (simp add: deriveFilterOptions_def Let_def facet_acc_empty_def flip: set_empty)


section \<open>Typing of the options\<close>

lemma region_label_nonempty: "region_label raw r \<noteq> []"
  by (simp add: region_label_def extractLabel_nonempty del: extractLabel.simps split: option.split)

lemma zone_label_nonempty: "zone_label raw z \<noteq> []"
  by (simp add: zone_label_def extractLabel_nonempty del: extractLabel.simps split: option.split)

lemma list_all_map_set_if_absent:
  "list_all entry_ok m \<Longrightarrow> entry_ok (k, v) \<Longrightarrow> list_all entry_ok (map_set_if_absent k v m)"
  using set_map_set_if_absent [of k v m] by (auto simp: list_all_iff)

lemma facet_step_entries_ok:
  assumes "list_all entry_ok (regionMap acc)" and "list_all entry_ok (zoneMap acc)"
  shows "list_all entry_ok (regionMap (facet_step acc l)) \<and> list_all entry_ok (zoneMap (facet_step acc l))"
proof
  show "list_all entry_ok (regionMap (facet_step acc l))"
    using assms(1) unfolding facet_step_regionMap
    by (cases "toNumber (getFromRaw l ''region_obj_id'')")
       (simp_all add: list_all_map_set_if_absent toNumber_finite region_label_nonempty)
  show "list_all entry_ok (zoneMap (facet_step acc l))"
    using assms(2) unfolding facet_step_zoneMap
    by (cases "toNumber (getFromRaw l ''zone_id'')")
       (simp_all add: list_all_map_set_if_absent toNumber_finite zone_label_nonempty)
qed

lemma fold_facet_entries_ok:
  "list_all entry_ok (regionMap acc) \<Longrightarrow> list_all entry_ok (zoneMap acc) \<Longrightarrow>
     list_all entry_ok (regionMap (foldl facet_step acc ls)) \<and> list_all entry_ok (zoneMap (foldl facet_step acc ls))"
proof (induction ls arbitrary: acc)
  case (Cons l ls)
  from facet_step_entries_ok [OF Cons.prems] show ?case using Cons.IH by simp
qed simp

lemma mapToOptions_ok:
  "list_all entry_ok m \<Longrightarrow>
     list_all (\<lambda>opt. \<bar>opt_value opt\<bar> < overflow_bound \<and> opt_label opt \<noteq> []) (mapToOptions cmp m)"
  by (auto simp: mapToOptions_def list_all_iff)

text \<open>
  Claim C33 (type). Every option \<open>deriveFilterOptions\<close> returns is a
  well-formed \<open>OptionItem\<close>: its value is a finite number (the
  \<open>Number.isFinite\<close> guard of \<open>toNumber\<close> keeps \<open>NaN\<close> and
  \<open>Infinity\<close> out of the region and zone maps) and its label is a non-empty
  string (a blank label falls back to the id).
\<close>

theorem filter_options_typed:
  "list_all (\<lambda>opt. \<bar>opt_value opt\<bar> < overflow_bound \<and> opt_label opt \<noteq> [])
     (fo_propertyTypes (deriveFilterOptions h leads) @ fo_regions (deriveFilterOptions h leads)
      @ fo_zones (deriveFilterOptions h leads))"
proof -
  have pt: "list_all (\<lambda>opt. \<bar>opt_value opt\<bar> < overflow_bound \<and> opt_label opt \<noteq> []) PROPERTY_TYPE_OPTIONS"
    by (simp add: PROPERTY_TYPE_OPTIONS_def overflow_bound_def)
  have acc: "list_all entry_ok (regionMap (foldl facet_step facet_acc_empty leads))"
    "list_all entry_ok (zoneMap (foldl facet_step facet_acc_empty leads))"
    using fold_facet_entries_ok [of facet_acc_empty leads] by (simp_all add: facet_acc_empty_def)
  have "list_all (\<lambda>opt. \<bar>opt_value opt\<bar> < overflow_bound \<and> opt_label opt \<noteq> [])
          (fo_propertyTypes (deriveFilterOptions h leads))"
    using pt by (simp add: deriveFilterOptions_def Let_def list_all_iff)
  then show ?thesis
    using mapToOptions_ok [OF acc(1)] mapToOptions_ok [OF acc(2)]
    by (simp add: deriveFilterOptions_def Let_def)
qed

end
