(* ===== verification/Grouping.thy ===== *)
theory Grouping
  imports Lead_Model
begin

text \<open>
  GroupingEngine: \<open>groupByDateAdded\<close> and \<open>groupByLastOutreach\<close> of
  \<open>src/frontend/src/lib/leads.ts\<close> with the day labels of \<open>formatDayHeader\<close>
  (\<open>src/frontend/src/lib/dates.ts\<close>). Both functions sort a copy of the leads
  with \<open>Array.prototype.sort\<close>, newest first, and push each lead into the bucket
  of its day label in a \<open>Map\<close>, whose insertion order gives the bucket order.
  \<open>format\<close> of date-fns throws a \<open>RangeError\<close> on an invalid date, so the
  functions return \<open>js_error + _\<close>.
\<close>

section \<open>Definitions\<close>

datatype js_error = RangeError string | TypeError string

record lead_group =
  group_label :: string
  group_leads :: "lead list"

text \<open>\<open>ensureDate\<close>: \<open>null\<close> for the empty string, else \<open>parseISO\<close>, which does not throw but may give an \<open>Invalid Date\<close>.\<close>

definition ensureDate :: "host \<Rightarrow> string \<Rightarrow> int option option" where
  "ensureDate h value = (if value = [] then None else Some (parse_iso h value))"

definition formatDayHeader :: "host \<Rightarrow> string \<Rightarrow> js_error + string" where
  "formatDayHeader h value =
     (case ensureDate h value of
        None \<Rightarrow> Inr ''Unknown date''
      | Some None \<Rightarrow> Inl (RangeError ''Invalid time value'')
      | Some (Some date) \<Rightarrow>
          (let diff = calendar_day h (today h) - calendar_day h date
           in if diff = 0 then Inr ''Today''
              else if diff = 1 then Inr ''Yesterday''
              else Inr (format_day h date (\<not> same_year h date (today h)))))"

text \<open>
  The comparator \<open>bTime - aTime\<close> of two \<open>getTime()\<close> values; a \<open>NaN\<close>
  difference is read as \<open>0\<close> by the sort.
\<close>

definition time_desc :: "(string \<Rightarrow> int option) \<Rightarrow> string \<Rightarrow> string \<Rightarrow> int" where
  "time_desc parse a b = (case (parse a, parse b) of (Some x, Some y) \<Rightarrow> y - x | _ \<Rightarrow> 0)"

text \<open>\<open>map.get(label)\<close>, then \<open>bucket.push(lead)\<close> or \<open>map.set(label, [lead])\<close>.\<close>

definition bucket_push :: "'k \<Rightarrow> 'a \<Rightarrow> ('k \<times> 'a list) list \<Rightarrow> ('k \<times> 'a list) list" where
  "bucket_push k x m =
     (if k \<in> fst ` set m then map (\<lambda>(k', b). if k' = k then (k', b @ [x]) else (k', b)) m
      else m @ [(k, [x])])"

fun bucket_into ::
  "('a \<Rightarrow> js_error + 'k) \<Rightarrow> ('k \<times> 'a list) list \<Rightarrow> 'a list \<Rightarrow> js_error + ('k \<times> 'a list) list" where
  "bucket_into lbl m [] = Inr m"
| "bucket_into lbl m (x # xs) =
     (case lbl x of Inl e \<Rightarrow> Inl e | Inr k \<Rightarrow> bucket_into lbl (bucket_push k x m) xs)"

definition to_groups :: "(string \<times> lead list) list \<Rightarrow> lead_group list" where
  "to_groups m = map (\<lambda>(lbl, ls). \<lparr>group_label = lbl, group_leads = ls\<rparr>) m"

definition groupByDateAdded :: "host \<Rightarrow> lead list \<Rightarrow> js_error + lead_group list" where
  "groupByDateAdded h leads =
     (let sorted = js_sort (\<lambda>a b. time_desc (parse_iso h) (date_added a) (date_added b)) leads
      in case bucket_into (\<lambda>l. formatDayHeader h (date_added l)) [] sorted of
           Inl e \<Rightarrow> Inl e
         | Inr m \<Rightarrow> Inr (to_groups m))"

text \<open>\<open>entries[entries.length - 1].date ?? lead.date_added\<close>, or \<open>date_added\<close> without entries.\<close>

definition last_outreach_date :: "lead \<Rightarrow> string" where
  "last_outreach_date l =
     (case outreach_history l of
        [] \<Rightarrow> date_added l
      | es \<Rightarrow> (case entry_date (last es) of None \<Rightarrow> date_added l | Some d \<Rightarrow> d))"

definition groupByLastOutreach :: "host \<Rightarrow> lead list \<Rightarrow> js_error + lead_group list" where
  "groupByLastOutreach h leads =
     (let sorted = js_sort (\<lambda>a b. time_desc (parse_iso h) (last_outreach_date a) (last_outreach_date b)) leads
      in case bucket_into (\<lambda>l. formatDayHeader h (last_outreach_date l)) [] sorted of
           Inl e \<Rightarrow> Inl e
         | Inr m \<Rightarrow> Inr (to_groups m))"

text \<open>
  The abstract grouping: the buckets are the distinct labels in order of first
  occurrence, each holding the elements of that label in list order.
\<close>

definition group_spec :: "('a \<Rightarrow> 'k) \<Rightarrow> 'a list \<Rightarrow> ('k \<times> 'a list) list" where
  "group_spec lab xs = map (\<lambda>k. (k, filter (\<lambda>x. lab x = k) xs)) (fold list_insert (map lab xs) [])"

section \<open>Example inputs\<close>

text \<open>
  A host whose \<open>parseISO\<close> knows three instants (UTC milliseconds) and whose
  clock reads 2024-01-02 12:00; a calendar day is a UTC day. Three leads: one
  added on the 1st, two on the 2nd at 09:00 and 15:00.
\<close>

definition ex_parse :: "string \<Rightarrow> int option" where
  "ex_parse s =
     (if s = ''2024-01-01'' then Some 1704067200000
      else if s = ''2024-01-02T09:00'' then Some 1704186000000
      else if s = ''2024-01-02T15:00'' then Some 1704207600000
      else None)"

definition ex_host_days :: host where
  "ex_host_days =
     ex_host\<lparr>parse_iso := ex_parse, calendar_day := (\<lambda>t. t div 86400000),
             today := 1704196800000, format_day := (\<lambda>_ _. ''1 Jan'')\<rparr>"

definition ex_day_leads :: "lead list" where
  "ex_day_leads =
     [ex_lead_p1\<lparr>property_id := ''a'', date_added := ''2024-01-01''\<rparr>,
      ex_lead_p1\<lparr>property_id := ''b'', date_added := ''2024-01-02T09:00''\<rparr>,
      ex_lead_p1\<lparr>property_id := ''c'', date_added := ''2024-01-02T15:00''\<rparr>]"

definition ex_day_label :: "lead \<Rightarrow> string" where
  "ex_day_label l = (if date_added l = ''2024-01-01'' then ''Yesterday'' else ''Today'')"

definition ex_day_instant :: "lead \<Rightarrow> int" where
  "ex_day_instant l = (case ex_parse (date_added l) of Some t \<Rightarrow> t | None \<Rightarrow> 0)"

section \<open>Bucketing\<close>

lemma set_fold_labels: "set (fold list_insert (map lab ys) []) = lab ` set ys"
  by simp

lemma bucket_push_group_spec:
  "bucket_push (lab x) x (group_spec lab ys) = group_spec lab (ys @ [x])"
proof (cases "lab x \<in> lab ` set ys")
  case True
  then show ?thesis
    by (auto simp: bucket_push_def group_spec_def image_image)
next
  case False
  then have "filter (\<lambda>y. lab y = lab x) ys = []" by (auto simp: filter_empty_conv image_iff)
  with False show ?thesis
    by (auto simp: bucket_push_def group_spec_def image_image)
qed

lemma bucket_into_group_spec:
  "\<forall>x \<in> set xs. lbl x = Inr (lab x) \<Longrightarrow>
     bucket_into lbl (group_spec lab ys) xs = Inr (group_spec lab (ys @ xs))"
proof (induction xs arbitrary: ys)
  case Nil
  then show ?case by simp
next
  case (Cons x xs)
  then have "bucket_into lbl (group_spec lab ys) (x # xs)
             = bucket_into lbl (group_spec lab (ys @ [x])) xs"
    by (simp add: bucket_push_group_spec)
  also have "\<dots> = Inr (group_spec lab (ys @ x # xs))"
    using Cons by simp
  finally show ?case .
qed

lemma bucket_into_spec:
  "\<forall>x \<in> set xs. lbl x = Inr (lab x) \<Longrightarrow> bucket_into lbl [] xs = Inr (group_spec lab xs)"
  using bucket_into_group_spec [of xs lbl lab "[]"] by (simp add: group_spec_def)

lemma bucket_into_error:
  "x \<in> set xs \<Longrightarrow> lbl x = Inl e \<Longrightarrow> \<exists>e'. bucket_into lbl m xs = Inl e'"
  by (induction xs arbitrary: m) (auto split: sum.split)

lemma bucket_into_Inr_labels:
  "bucket_into lbl m xs = Inr r \<Longrightarrow> x \<in> set xs \<Longrightarrow> \<exists>k. lbl x = Inr k"
  by (induction xs arbitrary: m) (auto split: sum.splits)

lemma mset_concat_filters:
  "distinct ks \<Longrightarrow>
     mset (concat (map (\<lambda>k. filter (\<lambda>x. lab x = k) xs) ks)) = filter_mset (\<lambda>x. lab x \<in> set ks) (mset xs)"
proof (induction ks)
  case Nil
  then show ?case by (simp add: filter_mset_False)
next
  case (Cons k ks)
  then show ?case
    by (auto intro!: multiset_eqI simp: mset_filter)
qed

lemma mset_group_spec: "mset (concat (map snd (group_spec lab xs))) = mset xs"
proof -
  have "mset (concat (map snd (group_spec lab xs)))
        = filter_mset (\<lambda>x. lab x \<in> lab ` set xs) (mset xs)"
    by (simp add: group_spec_def comp_def mset_concat_filters)
  also have "\<dots> = mset xs" by (simp add: filter_mset_eq_conv)
  finally show ?thesis .
qed

lemma distinct_group_spec_labels: "distinct (map fst (group_spec lab xs))"
  by (simp add: group_spec_def comp_def)

lemma group_spec_member_sorted:
  "sorted (map f xs) \<Longrightarrow> b \<in> set (group_spec lab xs) \<Longrightarrow> sorted (map f (snd b))"
  by (auto simp: group_spec_def sorted_filter)

lemma hd_filter_mem:
  "filter P xs \<noteq> [] \<Longrightarrow> hd (filter P xs) \<in> set xs"
  using hd_in_set [of "filter P xs"] by auto

lemma group_spec_heads_sorted:
  "sorted (map f xs) \<Longrightarrow>
     sorted (map (\<lambda>k. f (hd (filter (\<lambda>x. lab x = k) xs))) (fold list_insert (map lab xs) []))"
proof (induction xs rule: rev_induct)
  case Nil
  then show ?case by simp
next
  case (snoc x xs)
  let ?K = "fold list_insert (map lab xs) []"
  have sxs: "sorted (map f xs)" and le: "\<forall>y \<in> set xs. f y \<le> f x"
    using snoc.prems by (simp_all add: sorted_append)
  have same: "hd (filter (\<lambda>y. lab y = k) (xs @ [x])) = hd (filter (\<lambda>y. lab y = k) xs)"
    if "k \<in> set ?K" for k
  proof -
    from that have "filter (\<lambda>y. lab y = k) xs \<noteq> []" by (auto simp: filter_empty_conv)
    then show ?thesis by (cases "filter (\<lambda>y. lab y = k) xs") auto
  qed
  have old: "map (\<lambda>k. f (hd (filter (\<lambda>y. lab y = k) (xs @ [x])))) ?K
             = map (\<lambda>k. f (hd (filter (\<lambda>y. lab y = k) xs))) ?K"
    using same by simp
  show ?case
  proof (cases "lab x \<in> set ?K")
    case True
    then have "fold list_insert (map lab (xs @ [x])) [] = ?K" by simp
    then show ?thesis using old snoc.IH [OF sxs] by (simp only:)
  next
    case False
    then have none: "filter (\<lambda>y. lab y = lab x) xs = []"
      by (auto simp: filter_empty_conv image_iff)
    have "\<forall>k \<in> set ?K. f (hd (filter (\<lambda>y. lab y = k) xs)) \<le> f x"
    proof
      fix k assume "k \<in> set ?K"
      then have "filter (\<lambda>y. lab y = k) xs \<noteq> []" by (auto simp: filter_empty_conv)
      then have "hd (filter (\<lambda>y. lab y = k) xs) \<in> set xs" by (rule hd_filter_mem)
      with le show "f (hd (filter (\<lambda>y. lab y = k) xs)) \<le> f x" by blast
    qed
    moreover have "fold list_insert (map lab (xs @ [x])) [] = ?K @ [lab x]"
      using False by simp
    moreover have "hd (filter (\<lambda>y. lab y = lab x) (xs @ [x])) = x"
      using none by simp
    ultimately show ?thesis using old snoc.IH [OF sxs]
      by (simp only: map_append list.map sorted_append) simp
  qed
qed

lemma js_insert_cong:
  "\<forall>y \<in> set ys. cmp x y = cmp' x y \<Longrightarrow> js_insert cmp x ys = js_insert cmp' x ys"
  by (induction ys) simp_all

lemma js_sort_cong:
  "\<forall>x \<in> set xs. \<forall>y \<in> set xs. cmp x y = cmp' x y \<Longrightarrow> js_sort cmp xs = js_sort cmp' xs"
proof (induction xs)
  case Nil
  then show ?case by (simp add: js_sort_def)
next
  case (Cons x xs)
  then have IH: "js_sort cmp xs = js_sort cmp' xs" by simp
  have "js_insert cmp x (js_sort cmp' xs) = js_insert cmp' x (js_sort cmp' xs)"
    by (rule js_insert_cong) (use Cons.prems in simp)
  then show ?case using IH by (simp add: js_sort_def)
qed

lemma bucket_into_cong:
  "\<forall>x \<in> set xs. lbl x = lbl' x \<Longrightarrow> bucket_into lbl m xs = bucket_into lbl' m xs"
  by (induction xs arbitrary: m) (simp_all split: sum.split)

section \<open>Properties of the grouping functions\<close>

text \<open>Both functions share one shape: sort, then bucket by the label of a date string.\<close>

lemma grouping_shape:
  assumes "\<forall>l \<in> set leads. formatDayHeader h (ds l) = Inr (lab l)"
  shows "(case bucket_into (\<lambda>l. formatDayHeader h (ds l)) [] (js_sort cmp leads) of
            Inl e \<Rightarrow> Inl e | Inr m \<Rightarrow> Inr (to_groups m))
         = Inr (to_groups (group_spec lab (js_sort cmp leads)))"
  using assms bucket_into_spec [of "js_sort cmp leads" "\<lambda>l. formatDayHeader h (ds l)" lab]
  by simp

lemma grouping_Inr:
  assumes "(case bucket_into (\<lambda>l. formatDayHeader h (ds l)) [] (js_sort cmp leads) of
              Inl e \<Rightarrow> Inl e | Inr m \<Rightarrow> Inr (to_groups m)) = Inr gs"
  shows "gs = to_groups (group_spec (\<lambda>l. projr (formatDayHeader h (ds l))) (js_sort cmp leads))"
proof -
  obtain m where m: "bucket_into (\<lambda>l. formatDayHeader h (ds l)) [] (js_sort cmp leads) = Inr m"
    using assms by (auto split: sum.splits)
  then have "\<forall>l \<in> set leads. formatDayHeader h (ds l) = Inr (projr (formatDayHeader h (ds l)))"
    by (metis bucket_into_Inr_labels set_js_sort sum.sel(2))
  from grouping_shape [OF this, of cmp] assms show ?thesis by simp
qed

lemma to_groups_fields:
  "map group_leads (to_groups m) = map snd m" "map group_label (to_groups m) = map fst m"
  by (auto simp: to_groups_def)

text \<open>
  Claim C10 (refinement). When every lead's \<open>date_added\<close> has a day label,
  \<open>groupByDateAdded\<close> returns the abstract grouping of the sorted leads: one
  bucket per label, in order of first occurrence, each holding the leads of that
  label in sorted order.
\<close>

theorem groupByDateAdded_refines:
  assumes "\<forall>l \<in> set leads. formatDayHeader h (date_added l) = Inr (lab l)"
  shows "groupByDateAdded h leads =
           Inr (to_groups (group_spec lab
                 (js_sort (\<lambda>a b. time_desc (parse_iso h) (date_added a) (date_added b)) leads)))"
  using grouping_shape [OF assms] by (simp add: groupByDateAdded_def)

theorem groupByDateAdded_refines_witness:
  "list_all (\<lambda>l. formatDayHeader ex_host_days (date_added l) = Inr (ex_day_label l)) ex_day_leads
   \<and> groupByDateAdded ex_host_days ex_day_leads =
       Inr (to_groups (group_spec ex_day_label
             (js_sort (\<lambda>a b. time_desc (parse_iso ex_host_days) (date_added a) (date_added b))
                ex_day_leads)))"
proof -
  have h: "\<forall>l \<in> set ex_day_leads. formatDayHeader ex_host_days (date_added l) = Inr (ex_day_label l)"
    by (simp add: ex_day_leads_def formatDayHeader_def ensureDate_def ex_host_days_def ex_host_def
                  ex_parse_def ex_day_label_def ex_lead_p1_def)
  show ?thesis using h groupByDateAdded_refines [OF h] by (simp add: list_all_iff)
qed

text \<open>
  Claim C11 (invariant). A successful \<open>groupByDateAdded\<close> loses and duplicates no
  lead (its buckets are a permutation of the input) and its bucket labels are
  distinct.
\<close>

theorem groupByDateAdded_partition:
  assumes "groupByDateAdded h leads = Inr gs"
  shows "mset (concat (map group_leads gs)) = mset leads \<and> distinct (map group_label gs)"
proof -
  let ?cmp = "\<lambda>a b. time_desc (parse_iso h) (date_added a) (date_added b)"
  let ?lab = "\<lambda>l. projr (formatDayHeader h (date_added l))"
  have "gs = to_groups (group_spec ?lab (js_sort ?cmp leads))"
    using assms by (intro grouping_Inr) (simp add: groupByDateAdded_def)
  then show ?thesis
    by (simp add: to_groups_fields mset_group_spec distinct_group_spec_labels)
qed

theorem groupByDateAdded_partition_witness:
  "groupByDateAdded ex_host_days ex_day_leads =
     Inr (to_groups (group_spec ex_day_label
           (js_sort (\<lambda>a b. time_desc (parse_iso ex_host_days) (date_added a) (date_added b))
              ex_day_leads)))
   \<and> mset (concat (map group_leads (to_groups (group_spec ex_day_label
           (js_sort (\<lambda>a b. time_desc (parse_iso ex_host_days) (date_added a) (date_added b))
              ex_day_leads))))) = mset ex_day_leads"
proof -
  have "\<forall>l \<in> set ex_day_leads. formatDayHeader ex_host_days (date_added l) = Inr (ex_day_label l)"
    by (simp add: ex_day_leads_def formatDayHeader_def ensureDate_def ex_host_days_def ex_host_def
                  ex_parse_def ex_day_label_def ex_lead_p1_def)
  then have g: "groupByDateAdded ex_host_days ex_day_leads =
     Inr (to_groups (group_spec ex_day_label
           (js_sort (\<lambda>a b. time_desc (parse_iso ex_host_days) (date_added a) (date_added b))
              ex_day_leads)))"
    using grouping_shape by (simp add: groupByDateAdded_def)
  show ?thesis using g groupByDateAdded_partition [OF g] by simp
qed

text \<open>
  Claim C12 (functional). When every \<open>date_added\<close> parses, the leads of each
  bucket are newest first, and the buckets are ordered by the recency of their
  newest lead.
\<close>

theorem groupByDateAdded_ordered:
  assumes "groupByDateAdded h leads = Inr gs"
    and "\<forall>l \<in> set leads. parse_iso h (date_added l) = Some (t l)"
  shows "(\<forall>g \<in> set gs. sorted (map (\<lambda>l. - t l) (group_leads g)))
         \<and> sorted (map (\<lambda>g. - t (hd (group_leads g))) gs)"
proof -
  let ?cmp = "\<lambda>a b. time_desc (parse_iso h) (date_added a) (date_added b)"
  let ?lab = "\<lambda>l. projr (formatDayHeader h (date_added l))"
  let ?s = "sort_key (\<lambda>l. - t l) leads"
  have "js_sort ?cmp leads = ?s"
    using assms(2) by (intro js_sort_sort_key_on) (auto simp: time_desc_def)
  moreover have "gs = to_groups (group_spec ?lab (js_sort ?cmp leads))"
    using assms(1) by (intro grouping_Inr) (simp add: groupByDateAdded_def)
  ultimately have gs: "gs = to_groups (group_spec ?lab ?s)" by simp
  have srt: "sorted (map (\<lambda>l. - t l) ?s)" by simp
  have "\<forall>g \<in> set gs. sorted (map (\<lambda>l. - t l) (group_leads g))"
    using group_spec_member_sorted [OF srt] by (auto simp: gs to_groups_def)
  moreover have "map (\<lambda>g. - t (hd (group_leads g))) gs
      = map (\<lambda>k. - t (hd (filter (\<lambda>x. ?lab x = k) ?s))) (fold list_insert (map ?lab ?s) [])"
    by (simp add: gs to_groups_def group_spec_def comp_def)
  ultimately show ?thesis using group_spec_heads_sorted [OF srt] by simp
qed

theorem groupByDateAdded_ordered_witness:
  "groupByDateAdded ex_host_days ex_day_leads =
     Inr (to_groups (group_spec ex_day_label
           (js_sort (\<lambda>a b. time_desc (parse_iso ex_host_days) (date_added a) (date_added b))
              ex_day_leads)))
   \<and> list_all (\<lambda>l. parse_iso ex_host_days (date_added l) = Some (ex_day_instant l)) ex_day_leads
   \<and> sorted (map (\<lambda>g. - ex_day_instant (hd (group_leads g)))
        (to_groups (group_spec ex_day_label
           (js_sort (\<lambda>a b. time_desc (parse_iso ex_host_days) (date_added a) (date_added b))
              ex_day_leads))))"
proof -
  have "\<forall>l \<in> set ex_day_leads. formatDayHeader ex_host_days (date_added l) = Inr (ex_day_label l)"
    by (simp add: ex_day_leads_def formatDayHeader_def ensureDate_def ex_host_days_def ex_host_def
                  ex_parse_def ex_day_label_def ex_lead_p1_def)
  then have g: "groupByDateAdded ex_host_days ex_day_leads =
     Inr (to_groups (group_spec ex_day_label
           (js_sort (\<lambda>a b. time_desc (parse_iso ex_host_days) (date_added a) (date_added b))
              ex_day_leads)))"
    using grouping_shape by (simp add: groupByDateAdded_def)
  have p: "\<forall>l \<in> set ex_day_leads. parse_iso ex_host_days (date_added l) = Some (ex_day_instant l)"
    by (simp add: ex_day_leads_def ex_host_days_def ex_host_def ex_parse_def ex_day_instant_def
                  ex_lead_p1_def)
  show ?thesis using g p groupByDateAdded_ordered [OF g p] by (simp add: list_all_iff)
qed

text \<open>
  Claim C13 (error). A lead whose \<open>date_added\<close> is non-empty but does not parse
  makes \<open>groupByDateAdded\<close> throw: \<open>formatDayHeader\<close> passes the invalid date to
  \<open>format\<close>, which raises a \<open>RangeError\<close>. The whole queue fails to render.
\<close>

theorem groupByDateAdded_invalid_date_throws:
  assumes "l \<in> set leads" and "date_added l \<noteq> []" and "parse_iso h (date_added l) = None"
  shows "\<exists>e. groupByDateAdded h leads = Inl e"
proof -
  have "formatDayHeader h (date_added l) = Inl (RangeError ''Invalid time value'')"
    using assms(2,3) by (simp add: formatDayHeader_def ensureDate_def)
  moreover have "l \<in> set (js_sort (\<lambda>a b. time_desc (parse_iso h) (date_added a) (date_added b)) leads)"
    using assms(1) by simp
  ultimately obtain e where
    "bucket_into (\<lambda>l. formatDayHeader h (date_added l)) []
       (js_sort (\<lambda>a b. time_desc (parse_iso h) (date_added a) (date_added b)) leads) = Inl e"
    by (metis bucket_into_error)
  then show ?thesis by (simp add: groupByDateAdded_def)
qed

theorem groupByDateAdded_invalid_date_throws_witness:
  "ex_lead_p1 \<in> set [ex_lead_p1] \<and> date_added ex_lead_p1 \<noteq> []
   \<and> parse_iso ex_host (date_added ex_lead_p1) = None
   \<and> (\<exists>e. groupByDateAdded ex_host [ex_lead_p1] = Inl e)"
proof -
  have h: "ex_lead_p1 \<in> set [ex_lead_p1]" "date_added ex_lead_p1 \<noteq> []"
    "parse_iso ex_host (date_added ex_lead_p1) = None"
    by (simp_all add: ex_lead_p1_def ex_host_def)
  show ?thesis using h groupByDateAdded_invalid_date_throws [OF h] by (simp add: list_all_iff)
qed

text \<open>
  On leads without outreach history,
  \<open>groupByLastOutreach\<close> is \<open>groupByDateAdded\<close>: the activity date falls back
  to \<open>date_added\<close>.
\<close>

theorem groupByLastOutreach_no_history:
  assumes "\<forall>l \<in> set leads. outreach_history l = []"
  shows "groupByLastOutreach h leads = groupByDateAdded h leads"
proof -
  have eq: "\<forall>l \<in> set leads. last_outreach_date l = date_added l"
    using assms by (simp add: last_outreach_date_def)
  let ?c1 = "\<lambda>a b. time_desc (parse_iso h) (last_outreach_date a) (last_outreach_date b)"
  let ?c2 = "\<lambda>a b. time_desc (parse_iso h) (date_added a) (date_added b)"
  have "js_sort ?c1 leads = js_sort ?c2 leads"
    using eq by (intro js_sort_cong) simp
  moreover have "bucket_into (\<lambda>l. formatDayHeader h (last_outreach_date l)) [] (js_sort ?c2 leads)
               = bucket_into (\<lambda>l. formatDayHeader h (date_added l)) [] (js_sort ?c2 leads)"
    using eq by (intro bucket_into_cong) simp
  ultimately show ?thesis by (simp add: groupByLastOutreach_def groupByDateAdded_def)
qed

theorem groupByLastOutreach_no_history_witness:
  "list_all (\<lambda>l. outreach_history l = []) ex_day_leads
   \<and> groupByLastOutreach ex_host_days ex_day_leads = groupByDateAdded ex_host_days ex_day_leads"
proof -
  have h: "\<forall>l \<in> set ex_day_leads. outreach_history l = []"
    by (simp add: ex_day_leads_def ex_lead_p1_def)
  show ?thesis using h groupByLastOutreach_no_history [OF h] by (simp add: list_all_iff)
qed

end
