(* ===== verification/Queue_Page.thy ===== *)
theory Queue_Page
  imports Filter_Predicate
begin

text \<open>
  SyncStore and BulkActionCoordinator: the lead queue page \<open>DashboardPage\<close>
  (the second module of \<open>src/frontend/src/lib/dates.ts\<close>, lines 79 onwards).
  The page's React state is a record; its async handlers are split at their
  \<open>await\<close>s into tasks that wait for the network; the world is a sequence of
  events (clicks, timer ticks, responses), and \<open>queue_step\<close> is the page's
  reaction to one event, effects included. The SWR cache (\<open>useSWR\<close>, a library
  and not code of the repository) is modelled from the spec (sections 4.4 and 5):
  a revalidation while one is in flight is absorbed, and an \<open>await mutate()\<close>
  waits for the fetch in flight. A UI event whose button is not rendered or is
  disabled changes nothing.
\<close>

section \<open>State\<close>

datatype tone = Info | Success | Error

record banner =
  banner_tone :: tone
  banner_text :: string

datatype api_error = ApiError "nat option" string

datatype send_outcome = SendOk | SendFailed string

datatype fetch_outcome = FetchOk "lead list" | FetchFailed api_error

datatype net_call = CallSend string | CallFetchLeads

text \<open>
  A handler suspended at an \<open>await\<close>:
  \<^item> \<open>SingleSending id\<close>: \<open>handleSingleSend\<close> at \<open>await sendWhatsApp(id)\<close>;
  \<^item> \<open>SingleRefreshing id\<close>: \<open>handleSingleSend\<close> at \<open>await mutate()\<close>;
  \<^item> \<open>BulkSending ids rest ok failed\<close>: \<open>handleBulkSend\<close> in its loop, at
    \<open>await sendWhatsApp(hd rest)\<close>, with the counters so far;
  \<^item> \<open>BulkRefreshing ids ok failed\<close>: \<open>handleBulkSend\<close> at \<open>await mutate()\<close>.
\<close>

datatype task =
    SingleSending string
  | SingleRefreshing string
  | BulkSending "string list" "string list" nat nat
  | BulkRefreshing "string list" nat nat

record queue_page =
  leads_data :: "lead list option"
  fetch_error :: "api_error option"
  isValidating :: bool
  fetches_settled :: nat
  multiSelectMode :: bool
  selectedIds :: "string list"
  pendingIds :: "string list"
  banner :: "banner option"
  appliedFilters :: lead_filters
  tasks :: "task list"
  calls :: "net_call list"
  redirected_to_login :: bool

datatype queue_event =
    ClickSend string
  | ClickSelectMultiple
  | ToggleSelect string
  | CancelSelection
  | ClickBulkSend
  | ApplyFilters lead_filters
  | ResetFilters
  | Revalidate
  | SendSettles nat send_outcome
  | FetchSettles fetch_outcome

section \<open>The SWR cache (from the spec)\<close>

definition isLoading :: "queue_page \<Rightarrow> bool" where
  "isLoading s \<longleftrightarrow> isValidating s \<and> leads_data s = None"

definition swr_revalidate :: "queue_page \<Rightarrow> queue_page" where
  "swr_revalidate s =
     (if isValidating s then s
      else s\<lparr>isValidating := True, calls := calls s @ [CallFetchLeads]\<rparr>)"

definition swr_settle :: "fetch_outcome \<Rightarrow> queue_page \<Rightarrow> queue_page" where
  "swr_settle out s =
     (case out of
        FetchOk ls \<Rightarrow> s\<lparr>leads_data := Some ls, fetch_error := None\<rparr>
      | FetchFailed e \<Rightarrow> s\<lparr>fetch_error := Some e\<rparr>)
     \<lparr>isValidating := False, fetches_settled := Suc (fetches_settled s)\<rparr>"

section \<open>Derived values and effects\<close>

definition queue_init :: queue_page where
  "queue_init =
     \<lparr>leads_data = None, fetch_error = None, isValidating = True, fetches_settled = 0,
      multiSelectMode = False, selectedIds = [], pendingIds = [], banner = None,
      appliedFilters = DEFAULT_LEAD_FILTERS, tasks = [], calls = [CallFetchLeads],
      redirected_to_login = False\<rparr>"

definition visible_leads :: "host \<Rightarrow> queue_page \<Rightarrow> lead list" where
  "visible_leads h s =
     applyLeadFilters h (case leads_data s of None \<Rightarrow> [] | Some ls \<Rightarrow> ls) (appliedFilters s)"

definition visible_ids :: "host \<Rightarrow> queue_page \<Rightarrow> string list" where
  "visible_ids h s = map property_id (visible_leads h s)"

definition reset_pending_effect :: "queue_page \<Rightarrow> queue_page" where
  "reset_pending_effect s =
     (if \<not> isValidating s \<and> \<not> isLoading s then s\<lparr>pendingIds := []\<rparr> else s)"

definition prune_selection :: "host \<Rightarrow> queue_page \<Rightarrow> queue_page" where
  "prune_selection h s =
     s\<lparr>selectedIds := filter (\<lambda>i. i \<in> set (visible_ids h s)) (selectedIds s)\<rparr>"

definition auth_redirect_effect :: "queue_page \<Rightarrow> queue_page" where
  "auth_redirect_effect s =
     (case fetch_error s of
        Some (ApiError (Some st) _) \<Rightarrow> if st = 401 then s\<lparr>redirected_to_login := True\<rparr> else s
      | _ \<Rightarrow> s)"

section \<open>Handlers\<close>

definition toggleSelect :: "string \<Rightarrow> queue_page \<Rightarrow> queue_page" where
  "toggleSelect pid s =
     s\<lparr>selectedIds := (if pid \<in> set (selectedIds s) then removeAll pid (selectedIds s)
                      else selectedIds s @ [pid])\<rparr>"

definition clearSelection :: "queue_page \<Rightarrow> queue_page" where
  "clearSelection s = s\<lparr>selectedIds := [], multiSelectMode := False\<rparr>"

definition drop_task :: "nat \<Rightarrow> 'a list \<Rightarrow> 'a list" where
  "drop_task i ts = take i ts @ drop (Suc i) ts"

definition handleSingleSend :: "string \<Rightarrow> queue_page \<Rightarrow> queue_page" where
  "handleSingleSend pid s =
     s\<lparr>pendingIds := list_insert pid (pendingIds s), banner := None,
       calls := calls s @ [CallSend pid], tasks := tasks s @ [SingleSending pid]\<rparr>"

definition single_send_settled :: "nat \<Rightarrow> string \<Rightarrow> send_outcome \<Rightarrow> queue_page \<Rightarrow> queue_page" where
  "single_send_settled i pid out s =
     (case out of
        SendOk \<Rightarrow>
          swr_revalidate
            (s\<lparr>banner := Some \<lparr>banner_tone = Success, banner_text = ''WhatsApp message sent.''\<rparr>,
               tasks := (tasks s)[i := SingleRefreshing pid]\<rparr>)
      | SendFailed m \<Rightarrow>
          s\<lparr>banner := Some \<lparr>banner_tone = Error, banner_text = m\<rparr>,
            pendingIds := removeAll pid (pendingIds s), tasks := drop_task i (tasks s)\<rparr>)"

definition bulk_banner :: "nat \<Rightarrow> nat \<Rightarrow> banner" where
  "bulk_banner ok failed =
     (if failed = 0 then
        \<lparr>banner_tone = Success,
         banner_text = ''Sent '' @ nat_to_string ok @ '' WhatsApp message''
                       @ (if ok = 1 then [] else ''s'') @ ''.''\<rparr>
      else
        \<lparr>banner_tone = Error,
         banner_text = ''Sent '' @ nat_to_string ok @ '' messages, '' @ nat_to_string failed
                       @ '' failed.''\<rparr>)"

definition finish_bulk :: "nat \<Rightarrow> nat \<Rightarrow> queue_page \<Rightarrow> queue_page" where
  "finish_bulk ok failed s =
     s\<lparr>pendingIds := [], selectedIds := [], multiSelectMode := False,
       banner := Some (bulk_banner ok failed)\<rparr>"

definition handleBulkSend :: "queue_page \<Rightarrow> queue_page" where
  "handleBulkSend s =
     (case selectedIds s of
        [] \<Rightarrow> s
      | pid # _ \<Rightarrow>
          s\<lparr>banner := None, pendingIds := fold list_insert (selectedIds s) (pendingIds s),
            calls := calls s @ [CallSend pid],
            tasks := tasks s @ [BulkSending (selectedIds s) (selectedIds s) 0 0]\<rparr>)"

definition bulk_send_settled ::
  "nat \<Rightarrow> string list \<Rightarrow> string list \<Rightarrow> nat \<Rightarrow> nat \<Rightarrow> send_outcome \<Rightarrow> queue_page \<Rightarrow> queue_page" where
  "bulk_send_settled i ids rest ok failed out s =
     (let ok' = (if out = SendOk then Suc ok else ok);
          failed' = (if out = SendOk then failed else Suc failed)
      in case rest of
           _ # nxt # later \<Rightarrow>
             s\<lparr>calls := calls s @ [CallSend nxt],
               tasks := (tasks s)[i := BulkSending ids (nxt # later) ok' failed']\<rparr>
         | _ \<Rightarrow>
             if 0 < ok' then swr_revalidate (s\<lparr>tasks := (tasks s)[i := BulkRefreshing ids ok' failed']\<rparr>)
             else finish_bulk ok' failed' (s\<lparr>tasks := drop_task i (tasks s)\<rparr>))"

definition send_settled :: "nat \<Rightarrow> send_outcome \<Rightarrow> queue_page \<Rightarrow> queue_page" where
  "send_settled i out s =
     (if i < length (tasks s) then
        (case tasks s ! i of
           SingleSending pid \<Rightarrow> single_send_settled i pid out s
         | BulkSending ids rest ok failed \<Rightarrow>
             if rest = [] then s else bulk_send_settled i ids rest ok failed out s
         | _ \<Rightarrow> s)
      else s)"

text \<open>The continuation of a handler after \<open>await mutate()\<close>.\<close>

fun resume :: "task \<Rightarrow> queue_page \<Rightarrow> queue_page" where
  "resume (SingleRefreshing pid) s = s\<lparr>pendingIds := removeAll pid (pendingIds s)\<rparr>"
| "resume (BulkRefreshing ids ok failed) s = finish_bulk ok failed s"
| "resume _ s = s"

fun refreshing :: "task \<Rightarrow> bool" where
  "refreshing (SingleRefreshing _) = True"
| "refreshing (BulkRefreshing _ _ _) = True"
| "refreshing _ = False"

definition fetch_settled :: "host \<Rightarrow> fetch_outcome \<Rightarrow> queue_page \<Rightarrow> queue_page" where
  "fetch_settled h out s =
     (if \<not> isValidating s then s
      else
        (let s1 = swr_settle out s;
             waiting = filter refreshing (tasks s1);
             s2 = fold resume waiting (s1\<lparr>tasks := filter (\<lambda>t. \<not> refreshing t) (tasks s1)\<rparr>)
         in auth_redirect_effect (prune_selection h (reset_pending_effect s2))))"

definition has_phone :: "lead \<Rightarrow> bool" where
  "has_phone l = (case lister_phone l of None \<Rightarrow> False | Some p \<Rightarrow> p \<noteq> [])"

definition queue_step :: "host \<Rightarrow> queue_page \<Rightarrow> queue_event \<Rightarrow> queue_page" where
  "queue_step h s e =
     (case e of
        ClickSend pid \<Rightarrow>
          if \<not> multiSelectMode s \<and> pendingIds s = []
             \<and> list_ex (\<lambda>l. property_id l = pid \<and> has_phone l) (visible_leads h s)
          then handleSingleSend pid s else s
      | ClickSelectMultiple \<Rightarrow>
          if \<not> multiSelectMode s \<and> visible_leads h s \<noteq> [] then s\<lparr>multiSelectMode := True\<rparr> else s
      | ToggleSelect pid \<Rightarrow>
          if multiSelectMode s \<and> pid \<in> set (visible_ids h s) then toggleSelect pid s else s
      | CancelSelection \<Rightarrow>
          if multiSelectMode s \<and> visible_leads h s \<noteq> [] then clearSelection s else s
      | ClickBulkSend \<Rightarrow>
          if multiSelectMode s \<and> visible_leads h s \<noteq> [] \<and> selectedIds s \<noteq> [] \<and> pendingIds s = []
          then handleBulkSend s else s
      | ApplyFilters f \<Rightarrow>
          if leads_data s \<noteq> None then prune_selection h (s\<lparr>appliedFilters := f\<rparr>) else s
      | ResetFilters \<Rightarrow>
          if leads_data s \<noteq> None then prune_selection h (s\<lparr>appliedFilters := DEFAULT_LEAD_FILTERS\<rparr>)
          else s
      | Revalidate \<Rightarrow> swr_revalidate s
      | SendSettles i out \<Rightarrow> send_settled i out s
      | FetchSettles out \<Rightarrow> fetch_settled h out s)"

definition queue_run :: "host \<Rightarrow> queue_page \<Rightarrow> queue_event list \<Rightarrow> queue_page" where
  "queue_run h s es = foldl (queue_step h) s es"

section \<open>Invariant\<close>

fun task_targets :: "task \<Rightarrow> string list" where
  "task_targets (SingleSending pid) = [pid]"
| "task_targets (SingleRefreshing pid) = [pid]"
| "task_targets (BulkSending ids _ _ _) = ids"
| "task_targets (BulkRefreshing ids _ _) = ids"

definition all_targets :: "task list \<Rightarrow> string list" where
  "all_targets ts = concat (map task_targets ts)"

text \<open>A task waiting for a \<open>sendWhatsApp\<close> to the given id.\<close>

fun sending_to :: "string \<Rightarrow> task \<Rightarrow> bool" where
  "sending_to pid (SingleSending p) = (p = pid)"
| "sending_to pid (BulkSending _ (p # _) _ _) = (p = pid)"
| "sending_to pid _ = False"

text \<open>
  What every reachable page state satisfies: the pending and selection sets have
  no duplicates (they are JavaScript \<open>Set\<close>s); every pending id is a target of a
  handler still running; every selected id is on screen; and the fetches issued
  are those settled plus the one in flight, if any.
\<close>

definition queue_inv :: "host \<Rightarrow> queue_page \<Rightarrow> bool" where
  "queue_inv h s \<longleftrightarrow>
     distinct (pendingIds s) \<and> distinct (selectedIds s)
     \<and> set (pendingIds s) \<subseteq> set (all_targets (tasks s))
     \<and> set (selectedIds s) \<subseteq> set (visible_ids h s)
     \<and> count_list (calls s) CallFetchLeads = fetches_settled s + (if isValidating s then 1 else 0)"

section \<open>Runs used by the properties\<close>

text \<open>
  The events of one uninterrupted bulk send: the click, one response per id in
  order (all to the bulk handler, task 0), and the response of the refresh the
  handler awaits when at least one send succeeded.
\<close>

definition bulk_events :: "send_outcome list \<Rightarrow> fetch_outcome \<Rightarrow> queue_event list" where
  "bulk_events outs r =
     ClickBulkSend # map (SendSettles 0) outs @ (if SendOk \<in> set outs then [FetchSettles r] else [])"

definition bulk_loop_result ::
  "queue_page \<Rightarrow> string list \<Rightarrow> string list \<Rightarrow> nat \<Rightarrow> nat \<Rightarrow> queue_page" where
  "bulk_loop_result t ids later ok failed =
     (if 0 < ok then
        t\<lparr>calls := calls t @ map CallSend later @ [CallFetchLeads],
          tasks := [BulkRefreshing ids ok failed], isValidating := True\<rparr>
      else finish_bulk ok failed (t\<lparr>calls := calls t @ map CallSend later, tasks := []\<rparr>))"

text \<open>Three leads with phones, and the page after the first fetch with all three selected.\<close>

definition ex_queue_leads :: "lead list" where
  "ex_queue_leads =
     [ex_lead_p1\<lparr>property_id := ''p1'', lister_phone := Some ''0711''\<rparr>,
      ex_lead_p1\<lparr>property_id := ''p2'', lister_phone := Some ''0722''\<rparr>,
      ex_lead_p1\<lparr>property_id := ''p3'', lister_phone := Some ''0733''\<rparr>]"

definition ex_queue_selected :: queue_page where
  "ex_queue_selected =
     queue_run ex_host queue_init
       [FetchSettles (FetchOk ex_queue_leads), ClickSelectMultiple,
        ToggleSelect ''p1'', ToggleSelect ''p2'', ToggleSelect ''p3'']"

text \<open>
  A poll that completes while a bulk send is running, followed by a second
  click on "Send WhatsApp to Selected".
\<close>

definition ex_double_send_events :: "queue_event list" where
  "ex_double_send_events =
     [FetchSettles (FetchOk ex_queue_leads), ClickSelectMultiple,
      ToggleSelect ''p1'', ToggleSelect ''p2'', ClickBulkSend,
      Revalidate, FetchSettles (FetchOk ex_queue_leads), ClickBulkSend]"

section \<open>Preservation of the invariant\<close>

lemma visible_ids_simps [simp]:
  "visible_ids h (s\<lparr>pendingIds := p\<rparr>) = visible_ids h s"
  "visible_ids h (s\<lparr>selectedIds := q\<rparr>) = visible_ids h s"
  "visible_ids h (s\<lparr>tasks := ts\<rparr>) = visible_ids h s"
  "visible_ids h (s\<lparr>calls := c\<rparr>) = visible_ids h s"
  "visible_ids h (s\<lparr>banner := b\<rparr>) = visible_ids h s"
  "visible_ids h (s\<lparr>multiSelectMode := m\<rparr>) = visible_ids h s"
  "visible_ids h (s\<lparr>isValidating := v\<rparr>) = visible_ids h s"
  "visible_ids h (s\<lparr>redirected_to_login := r\<rparr>) = visible_ids h s"
  by (simp_all add: visible_ids_def visible_leads_def)

lemma all_targets_append [simp]: "all_targets (ts @ us) = all_targets ts @ all_targets us"
  by (simp add: all_targets_def)

lemma all_targets_split:
  "i < length ts \<Longrightarrow>
     set (all_targets ts) = set (all_targets (take i ts)) \<union> set (task_targets (ts ! i))
                            \<union> set (all_targets (drop (Suc i) ts))"
proof -
  assume "i < length ts"
  then have "ts = take i ts @ ts ! i # drop (Suc i) ts" by (simp add: id_take_nth_drop)
  then have "all_targets ts = all_targets (take i ts) @ task_targets (ts ! i) @ all_targets (drop (Suc i) ts)"
    by (metis all_targets_append all_targets_def concat.simps(2) list.simps(9))
  then show ?thesis by auto
qed

lemma all_targets_update:
  "i < length ts \<Longrightarrow> task_targets t = task_targets (ts ! i) \<Longrightarrow>
     set (all_targets (ts[i := t])) = set (all_targets ts)"
  using all_targets_split [of i ts] all_targets_split [of i "ts[i := t]"]
  by simp

lemma all_targets_drop_task:
  "i < length ts \<Longrightarrow> set (all_targets ts) \<subseteq> set (all_targets (drop_task i ts)) \<union> set (task_targets (ts ! i))"
  using all_targets_split [of i ts] by (auto simp: drop_task_def)

lemma swr_revalidate_fields [simp]:
  "pendingIds (swr_revalidate s) = pendingIds s" "selectedIds (swr_revalidate s) = selectedIds s"
  "tasks (swr_revalidate s) = tasks s" "fetches_settled (swr_revalidate s) = fetches_settled s"
  "visible_ids h (swr_revalidate s) = visible_ids h s" "leads_data (swr_revalidate s) = leads_data s"
  "multiSelectMode (swr_revalidate s) = multiSelectMode s" "banner (swr_revalidate s) = banner s"
  by (simp_all add: swr_revalidate_def)

lemma swr_revalidate_count:
  "count_list (calls s) CallFetchLeads = fetches_settled s + (if isValidating s then 1 else 0) \<Longrightarrow>
   count_list (calls (swr_revalidate s)) CallFetchLeads
     = fetches_settled (swr_revalidate s) + (if isValidating (swr_revalidate s) then 1 else 0)"
  by (simp add: swr_revalidate_def)

lemma swr_revalidate_inv: "queue_inv h s \<Longrightarrow> queue_inv h (swr_revalidate s)"
  using swr_revalidate_count by (simp add: queue_inv_def)

lemma handleSingleSend_inv: "queue_inv h s \<Longrightarrow> queue_inv h (handleSingleSend pid s)"
  by (auto simp: queue_inv_def handleSingleSend_def all_targets_def)

lemma handleBulkSend_inv: "queue_inv h s \<Longrightarrow> queue_inv h (handleBulkSend s)"
  by (auto simp: queue_inv_def handleBulkSend_def all_targets_def split: list.split)

lemma toggleSelect_inv:
  "queue_inv h s \<Longrightarrow> pid \<in> set (visible_ids h s) \<Longrightarrow> queue_inv h (toggleSelect pid s)"
  by (auto simp: queue_inv_def toggleSelect_def distinct_removeAll)

lemma clearSelection_inv: "queue_inv h s \<Longrightarrow> queue_inv h (clearSelection s)"
  by (simp add: queue_inv_def clearSelection_def)

lemma prune_selection_inv:
  "queue_inv h (s\<lparr>selectedIds := []\<rparr>) \<Longrightarrow> distinct (selectedIds s) \<Longrightarrow> queue_inv h (prune_selection h s)"
  by (auto simp: queue_inv_def prune_selection_def visible_ids_def visible_leads_def)

lemma finish_bulk_inv:
  "queue_inv h s \<Longrightarrow> queue_inv h (finish_bulk ok failed s)"
  by (simp add: queue_inv_def finish_bulk_def)

lemma single_send_settled_inv:
  assumes "queue_inv h s" "i < length (tasks s)" "tasks s ! i = SingleSending pid"
  shows "queue_inv h (single_send_settled i pid out s)"
proof (cases out)
  case SendOk
  have "queue_inv h (s\<lparr>banner := Some \<lparr>banner_tone = Success, banner_text = ''WhatsApp message sent.''\<rparr>,
                       tasks := (tasks s)[i := SingleRefreshing pid]\<rparr>)"
    using assms all_targets_update [of i "tasks s" "SingleRefreshing pid"] by (simp add: queue_inv_def)
  then show ?thesis using SendOk by (simp add: single_send_settled_def swr_revalidate_inv)
next
  case (SendFailed m)
  have "set (pendingIds s) - {pid} \<subseteq> set (all_targets (drop_task i (tasks s)))"
    using assms all_targets_drop_task [of i "tasks s"] by (auto simp: queue_inv_def)
  then show ?thesis using assms SendFailed
    by (simp add: single_send_settled_def queue_inv_def distinct_removeAll)
qed

lemma bulk_send_settled_inv:
  assumes "queue_inv h s" "i < length (tasks s)" "tasks s ! i = BulkSending ids rest ok failed"
  shows "queue_inv h (bulk_send_settled i ids rest ok failed out s)"
proof -
  have upd: "set (all_targets ((tasks s)[i := t])) = set (all_targets (tasks s))"
    if "task_targets t = ids" for t
    using assms(2,3) that by (intro all_targets_update) simp_all
  have refr: "queue_inv h (s\<lparr>tasks := (tasks s)[i := BulkRefreshing ids a b]\<rparr>)" for a b
    using assms upd by (simp add: queue_inv_def)
  have fin: "queue_inv h (finish_bulk a b (s\<lparr>tasks := drop_task i (tasks s)\<rparr>))" for a b
    using assms by (simp add: queue_inv_def finish_bulk_def)
  show ?thesis
  proof (cases rest rule: remdups_adj.cases)
    case 1
    then show ?thesis using refr fin
      by (simp add: bulk_send_settled_def Let_def swr_revalidate_inv)
  next
    case (2 x)
    then show ?thesis using refr fin
      by (simp add: bulk_send_settled_def Let_def swr_revalidate_inv)
  next
    case (3 x y zs)
    then show ?thesis using assms upd by (auto simp: bulk_send_settled_def queue_inv_def)
  qed
qed

lemma send_settled_inv: "queue_inv h s \<Longrightarrow> queue_inv h (send_settled i out s)"
  by (auto simp: send_settled_def single_send_settled_inv bulk_send_settled_inv split: task.split)

lemma resume_fields [simp]:
  "calls (resume t s) = calls s" "isValidating (resume t s) = isValidating s"
  "fetches_settled (resume t s) = fetches_settled s" "leads_data (resume t s) = leads_data s"
  "appliedFilters (resume t s) = appliedFilters s" "tasks (resume t s) = tasks s"
  "fetch_error (resume t s) = fetch_error s"
  "redirected_to_login (resume t s) = redirected_to_login s"
  by (cases t; simp add: finish_bulk_def)+

lemma fold_resume_fields:
  "calls (fold resume ts s) = calls s \<and> isValidating (fold resume ts s) = isValidating s
   \<and> fetches_settled (fold resume ts s) = fetches_settled s \<and> leads_data (fold resume ts s) = leads_data s
   \<and> appliedFilters (fold resume ts s) = appliedFilters s \<and> tasks (fold resume ts s) = tasks s
   \<and> fetch_error (fold resume ts s) = fetch_error s"
  by (induction ts arbitrary: s) simp_all

lemma fold_resume_distinct_selected:
  "distinct (selectedIds s) \<Longrightarrow> distinct (selectedIds (fold resume ts s))"
proof (induction ts arbitrary: s)
  case Nil
  then show ?case by simp
next
  case (Cons t ts)
  have "distinct (selectedIds (resume t s))"
    using Cons.prems by (cases t) (simp_all add: finish_bulk_def)
  then show ?case using Cons.IH by simp
qed

lemma fetch_settled_inv: "queue_inv h s \<Longrightarrow> queue_inv h (fetch_settled h out s)"
proof (cases "isValidating s")
  case False
  then show "queue_inv h s \<Longrightarrow> ?thesis" by (simp add: fetch_settled_def)
next
  case True
  assume inv: "queue_inv h s"
  define s1 where "s1 = swr_settle out s"
  define s2 where "s2 = fold resume (filter refreshing (tasks s1))
                          (s1\<lparr>tasks := filter (\<lambda>t. \<not> refreshing t) (tasks s1)\<rparr>)"
  have s1: "calls s1 = calls s" "\<not> isValidating s1" "fetches_settled s1 = Suc (fetches_settled s)"
    "distinct (selectedIds s1)"
    using inv by (simp_all add: s1_def swr_settle_def queue_inv_def split: fetch_outcome.split)
  have s2: "calls s2 = calls s" "\<not> isValidating s2" "fetches_settled s2 = Suc (fetches_settled s)"
    "distinct (selectedIds s2)"
    using s1 fold_resume_fields fold_resume_distinct_selected by (simp_all add: s2_def)
  have "queue_inv h (prune_selection h (reset_pending_effect s2))"
    using s2 True inv
    by (intro prune_selection_inv) (simp_all add: queue_inv_def reset_pending_effect_def isLoading_def)
  then have "queue_inv h (auth_redirect_effect (prune_selection h (reset_pending_effect s2)))"
    by (auto simp: auth_redirect_effect_def queue_inv_def split: option.split api_error.split nat.split)
  then show ?thesis using True by (simp add: fetch_settled_def Let_def s1_def s2_def)
qed

lemma effect_frames [simp]:
  "leads_data (auth_redirect_effect s) = leads_data s"
  "fetch_error (auth_redirect_effect s) = fetch_error s"
  "leads_data (prune_selection h s) = leads_data s"
  "fetch_error (prune_selection h s) = fetch_error s"
  "redirected_to_login (prune_selection h s) = redirected_to_login s"
  "leads_data (reset_pending_effect s) = leads_data s"
  "fetch_error (reset_pending_effect s) = fetch_error s"
  "redirected_to_login (reset_pending_effect s) = redirected_to_login s"
  "calls (auth_redirect_effect s) = calls s" "tasks (auth_redirect_effect s) = tasks s"
  "banner (auth_redirect_effect s) = banner s" "multiSelectMode (auth_redirect_effect s) = multiSelectMode s"
  "pendingIds (auth_redirect_effect s) = pendingIds s" "selectedIds (auth_redirect_effect s) = selectedIds s"
  "calls (prune_selection h s) = calls s" "tasks (prune_selection h s) = tasks s"
  "banner (prune_selection h s) = banner s" "multiSelectMode (prune_selection h s) = multiSelectMode s"
  "pendingIds (prune_selection h s) = pendingIds s"
  "calls (reset_pending_effect s) = calls s" "tasks (reset_pending_effect s) = tasks s"
  "banner (reset_pending_effect s) = banner s" "multiSelectMode (reset_pending_effect s) = multiSelectMode s"
  "selectedIds (reset_pending_effect s) = selectedIds s"
  "isValidating (reset_pending_effect s) = isValidating s"
  by (simp_all add: auth_redirect_effect_def prune_selection_def reset_pending_effect_def
               split: option.split api_error.split)

lemma swr_settle_frames [simp]:
  "calls (swr_settle out s) = calls s" "tasks (swr_settle out s) = tasks s"
  "pendingIds (swr_settle out s) = pendingIds s" "selectedIds (swr_settle out s) = selectedIds s"
  "banner (swr_settle out s) = banner s" "multiSelectMode (swr_settle out s) = multiSelectMode s"
  "isValidating (swr_settle out s) = False"
  by (simp_all add: swr_settle_def split: fetch_outcome.split)

text \<open>The refresh that ends a batch: the handler resumes and clears everything.\<close>

lemma fetch_settled_bulk_refreshing:
  assumes "isValidating u" and "tasks u = [BulkRefreshing ids ok failed]"
  shows "calls (fetch_settled h r u) = calls u \<and> tasks (fetch_settled h r u) = []
         \<and> pendingIds (fetch_settled h r u) = [] \<and> selectedIds (fetch_settled h r u) = []
         \<and> \<not> multiSelectMode (fetch_settled h r u)
         \<and> banner (fetch_settled h r u) = Some (bulk_banner ok failed)"
proof -
  let ?s1 = "swr_settle r u"
  let ?s2 = "finish_bulk ok failed (?s1\<lparr>tasks := []\<rparr>)"
  have s2: "fold resume (filter refreshing (tasks ?s1)) (?s1\<lparr>tasks := filter (\<lambda>t. \<not> refreshing t) (tasks ?s1)\<rparr>)
            = ?s2"
    using assms(2) by simp
  have "\<not> isValidating ?s2" "pendingIds ?s2 = []" "selectedIds ?s2 = []"
    by (simp_all add: finish_bulk_def)
  then have "pendingIds (reset_pending_effect ?s2) = []"
    by (simp add: reset_pending_effect_def)
  moreover have "selectedIds (prune_selection h (reset_pending_effect ?s2)) = []"
    by (simp add: prune_selection_def finish_bulk_def)
  ultimately show ?thesis
    using assms(1) s2 by (simp add: fetch_settled_def Let_def finish_bulk_def)
qed

lemma auth_redirect_401:
  "fetch_error s = Some (ApiError (Some 401) m) \<Longrightarrow> redirected_to_login (auth_redirect_effect s)"
  by (simp add: auth_redirect_effect_def)

lemma fetch_settled_fields:
  assumes "isValidating s"
  shows "leads_data (fetch_settled h out s) = leads_data (swr_settle out s)"
    and "fetch_error (fetch_settled h out s) = fetch_error (swr_settle out s)"
  using assms fold_resume_fields by (simp_all add: fetch_settled_def Let_def)

lemma fetch_settled_redirect:
  assumes "isValidating s" and "fetch_error (swr_settle out s) = Some (ApiError (Some 401) m)"
  shows "redirected_to_login (fetch_settled h out s)"
proof -
  let ?u = "reset_pending_effect (fold resume (filter refreshing (tasks (swr_settle out s)))
              ((swr_settle out s)\<lparr>tasks := filter (\<lambda>t. \<not> refreshing t) (tasks (swr_settle out s))\<rparr>))"
  have "fetch_error (prune_selection h ?u) = Some (ApiError (Some 401) m)"
    using assms(2) fold_resume_fields by simp
  then show ?thesis using assms(1) auth_redirect_401 by (simp add: fetch_settled_def Let_def)
qed

lemma queue_step_inv: "queue_inv h s \<Longrightarrow> queue_inv h (queue_step h s e)"
proof (cases e)
  case (ApplyFilters f)
  assume "queue_inv h s"
  then have "queue_inv h (s\<lparr>appliedFilters := f, selectedIds := []\<rparr>)"
    by (simp add: queue_inv_def)
  moreover have "distinct (selectedIds (s\<lparr>appliedFilters := f\<rparr>))" using \<open>queue_inv h s\<close>
    by (simp add: queue_inv_def)
  ultimately show ?thesis using ApplyFilters \<open>queue_inv h s\<close>
    by (simp add: queue_step_def prune_selection_inv)
next
  case ResetFilters
  assume "queue_inv h s"
  then have "queue_inv h (s\<lparr>appliedFilters := DEFAULT_LEAD_FILTERS, selectedIds := []\<rparr>)"
    by (simp add: queue_inv_def)
  moreover have "distinct (selectedIds (s\<lparr>appliedFilters := DEFAULT_LEAD_FILTERS\<rparr>))"
    using \<open>queue_inv h s\<close> by (simp add: queue_inv_def)
  ultimately show ?thesis using ResetFilters \<open>queue_inv h s\<close>
    by (simp add: queue_step_def prune_selection_inv)
next
  case ClickSelectMultiple
  then show "queue_inv h s \<Longrightarrow> ?thesis" by (simp add: queue_step_def queue_inv_def)
qed (simp_all add: queue_step_def handleSingleSend_inv handleBulkSend_inv toggleSelect_inv
                   clearSelection_inv swr_revalidate_inv send_settled_inv fetch_settled_inv)

lemma queue_init_inv: "queue_inv h queue_init"
  by (simp add: queue_inv_def queue_init_def)

lemma queue_run_inv: "queue_inv h s \<Longrightarrow> queue_inv h (queue_run h s es)"
  by (induction es arbitrary: s) (simp_all add: queue_run_def queue_step_inv)

lemma reachable_queue_inv: "queue_inv h (queue_run h queue_init es)"
  by (rule queue_run_inv [OF queue_init_inv])

section \<open>Properties of the queue page\<close>

lemmas queue_eval_defs =
  queue_run_def queue_step_def queue_init_def fetch_settled_def swr_settle_def Let_def
  reset_pending_effect_def isLoading_def prune_selection_def swr_revalidate_def
  auth_redirect_effect_def visible_ids_def visible_leads_def applyLeadFilters_default
  toggleSelect_def handleBulkSend_def handleSingleSend_def

lemma ex_queue_selected_fields:
  "multiSelectMode ex_queue_selected \<and> visible_leads ex_host ex_queue_selected = ex_queue_leads
   \<and> selectedIds ex_queue_selected = [''p1'', ''p2'', ''p3''] \<and> pendingIds ex_queue_selected = []
   \<and> tasks ex_queue_selected = [] \<and> \<not> isValidating ex_queue_selected"
  by (simp add: ex_queue_selected_def queue_eval_defs ex_queue_leads_def)

lemma queue_run_Cons: "queue_run h s (e # es) = queue_run h (queue_step h s e) es"
  by (simp add: queue_run_def)

lemma queue_run_append: "queue_run h s (es @ fs) = queue_run h (queue_run h s es) fs"
  by (simp add: queue_run_def)

text \<open>The loop of \<open>handleBulkSend\<close>, one response at a time.\<close>

lemma bulk_loop:
  assumes "tasks t = [BulkSending ids (x # xs) ok failed]" and "\<not> isValidating t"
    and "length outs = Suc (length xs)"
  shows "queue_run h t (map (SendSettles 0) outs) =
           bulk_loop_result t ids xs (ok + length (filter (\<lambda>q. q = SendOk) outs))
                                     (failed + length (filter (\<lambda>q. q \<noteq> SendOk) outs))"
  using assms
proof (induction outs arbitrary: t x xs ok failed)
  case Nil
  then show ?case by simp
next
  case (Cons q os)
  show ?case
  proof (cases xs)
    case Nil
    with Cons.prems show ?thesis
      by (auto simp: queue_run_def queue_step_def send_settled_def bulk_send_settled_def
                     bulk_loop_result_def swr_revalidate_def drop_task_def)
  next
    case (Cons y ys)
    let ?ok = "if q = SendOk then Suc ok else ok"
    let ?failed = "if q = SendOk then failed else Suc failed"
    let ?t = "t\<lparr>calls := calls t @ [CallSend y], tasks := [BulkSending ids (y # ys) ?ok ?failed]\<rparr>"
    have step: "queue_step h t (SendSettles 0 q) = ?t"
      using Cons.prems \<open>xs = y # ys\<close>
      by (simp add: queue_step_def send_settled_def bulk_send_settled_def)
    have "queue_run h ?t (map (SendSettles 0) os) =
            bulk_loop_result ?t ids ys (?ok + length (filter (\<lambda>q. q = SendOk) os))
                                       (?failed + length (filter (\<lambda>q. q \<noteq> SendOk) os))"
      using Cons.prems \<open>xs = y # ys\<close> by (intro Cons.IH) simp_all
    then show ?thesis
      using step \<open>xs = y # ys\<close>
      by (simp add: queue_run_Cons bulk_loop_result_def finish_bulk_def)
  qed
qed

text \<open>
  Claim C15 (invariant). No pending id leaks: whenever no send handler is
  running, the pending set is empty (each id is removed by the handler's
  \<open>finally\<close>, the end of the batch, or the reset effect).
\<close>

theorem pending_empty_when_idle:
  assumes "tasks (queue_run h queue_init es) = []"
  shows "pendingIds (queue_run h queue_init es) = []"
  using reachable_queue_inv [of h es] assms by (simp add: queue_inv_def all_targets_def)

theorem pending_empty_when_idle_witness:
  "tasks (queue_run ex_host queue_init
            [FetchSettles (FetchOk ex_queue_leads), ClickSend ''p1'', SendSettles 0 (SendFailed ''boom'')]) = []
   \<and> pendingIds (queue_run ex_host queue_init
            [FetchSettles (FetchOk ex_queue_leads), ClickSend ''p1'', SendSettles 0 (SendFailed ''boom'')]) = []"
proof -
  have h: "tasks (queue_run ex_host queue_init
            [FetchSettles (FetchOk ex_queue_leads), ClickSend ''p1'', SendSettles 0 (SendFailed ''boom'')]) = []"
    by (simp add: queue_eval_defs ex_queue_leads_def has_phone_def ex_lead_p1_def send_settled_def
                  single_send_settled_def drop_task_def)
  show ?thesis using h pending_empty_when_idle [OF h] by simp
qed

text \<open>
  Claim C16 (invariant). The selection pruning contract: every selected id is the
  id of a lead on screen (fetched and passing the applied filters), in every
  reachable state, and the selection has no duplicates.
\<close>

theorem selection_within_view:
  "set (selectedIds (queue_run h queue_init es)) \<subseteq> set (visible_ids h (queue_run h queue_init es))
   \<and> distinct (selectedIds (queue_run h queue_init es))"
  using reachable_queue_inv [of h es] by (simp add: queue_inv_def)



text \<open>
  Claim C19 (functional). An uninterrupted bulk send over the selection
  \<open>ids\<close>: one \<open>sendWhatsApp\<close> per id, strictly in order, then exactly one refresh
  if and only if some send succeeded; afterwards nothing is pending or selected,
  multi-select is off, and the banner reports the success and failure counts.
\<close>

theorem bulk_send_sequential:
  assumes "multiSelectMode s" and "visible_leads h s \<noteq> []" and "selectedIds s = ids"
    and "ids \<noteq> []" and "pendingIds s = []" and "tasks s = []" and "\<not> isValidating s"
    and "length outs = length ids"
  shows "calls (queue_run h s (bulk_events outs r))
           = calls s @ map CallSend ids @ (if SendOk \<in> set outs then [CallFetchLeads] else [])
         \<and> tasks (queue_run h s (bulk_events outs r)) = []
         \<and> pendingIds (queue_run h s (bulk_events outs r)) = []
         \<and> selectedIds (queue_run h s (bulk_events outs r)) = []
         \<and> \<not> multiSelectMode (queue_run h s (bulk_events outs r))
         \<and> banner (queue_run h s (bulk_events outs r))
             = Some (bulk_banner (length (filter (\<lambda>q. q = SendOk) outs))
                                 (length (filter (\<lambda>q. q \<noteq> SendOk) outs)))"
proof -
  obtain x xs where ids: "ids = x # xs" using assms(4) by (cases ids) auto
  let ?t = "s\<lparr>banner := None, pendingIds := fold list_insert ids [],
              calls := calls s @ [CallSend x], tasks := [BulkSending ids ids 0 0]\<rparr>"
  let ?ok = "length (filter (\<lambda>q. q = SendOk) outs)"
  let ?failed = "length (filter (\<lambda>q. q \<noteq> SendOk) outs)"
  have click: "queue_step h s ClickBulkSend = ?t"
    using assms ids by (simp add: queue_step_def handleBulkSend_def)
  have "tasks ?t = [BulkSending ids (x # xs) 0 0]" using ids by simp
  from bulk_loop [OF this, of outs h] assms ids
  have loop: "queue_run h ?t (map (SendSettles 0) outs) = bulk_loop_result ?t ids xs ?ok ?failed"
    by simp
  have ok_iff: "0 < ?ok \<longleftrightarrow> SendOk \<in> set outs"
    by (simp add: filter_empty_conv length_greater_0_conv)
  show ?thesis
  proof (cases "SendOk \<in> set outs")
    case True
    let ?u = "bulk_loop_result ?t ids xs ?ok ?failed"
    have u: "isValidating ?u" "tasks ?u = [BulkRefreshing ids ?ok ?failed]"
      "calls ?u = calls s @ map CallSend ids @ [CallFetchLeads]"
      using True ok_iff ids by (simp_all add: bulk_loop_result_def)
    have "queue_run h s (bulk_events outs r) = fetch_settled h r ?u"
      using True click loop by (simp add: bulk_events_def queue_run_Cons queue_run_append)
        (simp add: queue_run_def queue_step_def)
    then show ?thesis
      using True u fetch_settled_bulk_refreshing [OF u(1,2), of h r] by simp
  next
    case False
    have "queue_run h s (bulk_events outs r) = bulk_loop_result ?t ids xs ?ok ?failed"
      using False click loop by (simp add: bulk_events_def queue_run_Cons)
    then show ?thesis
      using False ok_iff ids by (simp add: bulk_loop_result_def finish_bulk_def)
  qed
qed

theorem bulk_send_sequential_witness:
  "multiSelectMode ex_queue_selected \<and> visible_leads ex_host ex_queue_selected \<noteq> []
   \<and> selectedIds ex_queue_selected = [''p1'', ''p2'', ''p3''] \<and> [''p1'', ''p2'', ''p3''] \<noteq> []
   \<and> pendingIds ex_queue_selected = [] \<and> tasks ex_queue_selected = []
   \<and> \<not> isValidating ex_queue_selected
   \<and> calls (queue_run ex_host ex_queue_selected
              (bulk_events [SendOk, SendFailed ''rejected'', SendOk] (FetchOk ex_queue_leads)))
       = calls ex_queue_selected @ [CallSend ''p1'', CallSend ''p2'', CallSend ''p3'', CallFetchLeads]
   \<and> pendingIds (queue_run ex_host ex_queue_selected
              (bulk_events [SendOk, SendFailed ''rejected'', SendOk] (FetchOk ex_queue_leads))) = []
   \<and> banner (queue_run ex_host ex_queue_selected
              (bulk_events [SendOk, SendFailed ''rejected'', SendOk] (FetchOk ex_queue_leads)))
       = Some (bulk_banner 2 1)"
proof -
  have h: "multiSelectMode ex_queue_selected" "visible_leads ex_host ex_queue_selected \<noteq> []"
    "selectedIds ex_queue_selected = [''p1'', ''p2'', ''p3'']" "[''p1'', ''p2'', ''p3''] \<noteq> []"
    "pendingIds ex_queue_selected = []" "tasks ex_queue_selected = []"
    "\<not> isValidating ex_queue_selected"
    "length [SendOk, SendFailed ''rejected'', SendOk] = length [''p1'', ''p2'', ''p3'']"
    using ex_queue_selected_fields by (simp_all add: ex_queue_leads_def)
  show ?thesis using h bulk_send_sequential [OF h, of "FetchOk ex_queue_leads"]
    by (simp add: numeral_2_eq_2)
qed



end
