(* ===== verification/Conversation.thy ===== *)
theory Conversation
  imports Queue_Page
begin

text \<open>
  ConversationSync: the conversation panel \<open>ConversationPanel\<close> (the second
  module of \<open>src/frontend/src/pages/login.tsx\<close>, lines 104-290). Its React state
  (\<open>draft\<close>, \<open>sendError\<close>) and the SWR cache of its message stream are one
  record; \<open>handleSend\<close> is split at its \<open>await\<close>s into tasks, as the queue page's
  handlers are; the mark-read effect is a task waiting for \<open>markConversationRead\<close>.
  The SWR cache (a library, not code of the repository) is modelled from the
  spec (sections 4.6 and 5): requests carry an issue number; the 5 s poll is
  absorbed while a request is in flight, \<open>mutate()\<close> always issues a new one, and a
  response is applied only when no later-issued response has been applied.
  The parent passes \<open>onRefreshLeads\<close> as an arrow function written in its render
  (\<open>dates.ts\<close> line 513, \<open>chats.tsx\<close> line 255), so every render of the parent
  gives the effect of lines 141-145 a new dependency: the event
  \<open>ParentRender\<close> re-runs it.
\<close>

section \<open>State\<close>

datatype msgs_outcome = MsgsOk "conversation_message list" | MsgsFailed api_error

datatype conv_call =
    CallFetchMessages nat
  | CallReply string
  | CallMarkRead
  | CallRefreshLeads

text \<open>
  A suspended continuation:
  \<^item> \<open>ReplySending t\<close>: \<open>handleSend\<close> at \<open>await sendLeadReply(id, t)\<close>;
  \<^item> \<open>ReplyRefreshing k\<close>: \<open>handleSend\<close> at \<open>await mutate()\<close>, which waits for
    message request \<open>k\<close>;
  \<^item> \<open>MarkReading\<close>: the mark-read effect at \<open>markConversationRead(id).then(...)\<close>.
\<close>

datatype conv_task = ReplySending string | ReplyRefreshing nat | MarkReading

record conv_panel =
  conv_lead :: string
  draft :: string
  sendError :: "string option"
  msgs_data :: "conversation_message list option"
  msgs_error :: "api_error option"
  issued :: nat
  applied :: nat
  msgs_inflight :: "nat list"
  conv_open :: bool
  conv_tasks :: "conv_task list"
  conv_calls :: "conv_call list"

datatype conv_event =
    TypeDraft string
  | ClickSendReply
  | PollTick
  | ParentRender
  | Close
  | ReplySettles nat send_outcome
  | MarkReadSettles nat bool
  | MsgsSettle nat msgs_outcome

section \<open>The SWR cache of the message stream (from the spec)\<close>

definition msgs_request :: "conv_panel \<Rightarrow> conv_panel" where
  "msgs_request s =
     s\<lparr>issued := Suc (issued s), msgs_inflight := msgs_inflight s @ [Suc (issued s)],
       conv_calls := conv_calls s @ [CallFetchMessages (Suc (issued s))]\<rparr>"

definition msgs_poll :: "conv_panel \<Rightarrow> conv_panel" where
  "msgs_poll s = (if msgs_inflight s = [] then msgs_request s else s)"

definition msgs_apply :: "nat \<Rightarrow> msgs_outcome \<Rightarrow> conv_panel \<Rightarrow> conv_panel" where
  "msgs_apply k out s =
     (if conv_open s \<and> applied s < k then
        (case out of
           MsgsOk ms \<Rightarrow> s\<lparr>msgs_data := Some ms, msgs_error := None\<rparr>
         | MsgsFailed e \<Rightarrow> s\<lparr>msgs_error := Some e\<rparr>)\<lparr>applied := k\<rparr>
      else s)"

text \<open>
  \<open>await mutate()\<close> resumes when its request settles, applied or not, and
  \<open>handleSend\<close> goes on to \<open>await onRefreshLeads()\<close>, the parent's leads refresh.
\<close>

definition resume_refreshing :: "nat \<Rightarrow> conv_panel \<Rightarrow> conv_panel" where
  "resume_refreshing k s =
     s\<lparr>conv_tasks := filter (\<lambda>t. t \<noteq> ReplyRefreshing k) (conv_tasks s),
       conv_calls := conv_calls s
         @ replicate (count_list (conv_tasks s) (ReplyRefreshing k)) CallRefreshLeads\<rparr>"

definition msgs_settle :: "nat \<Rightarrow> msgs_outcome \<Rightarrow> conv_panel \<Rightarrow> conv_panel" where
  "msgs_settle k out s =
     (if k \<in> set (msgs_inflight s) then
        resume_refreshing k (msgs_apply k out (s\<lparr>msgs_inflight := removeAll k (msgs_inflight s)\<rparr>))
      else s)"

section \<open>Effects and handlers\<close>

text \<open>The mark-read effect (lines 141-145).\<close>

definition markReadEffect :: "conv_panel \<Rightarrow> conv_panel" where
  "markReadEffect s =
     s\<lparr>conv_tasks := conv_tasks s @ [MarkReading], conv_calls := conv_calls s @ [CallMarkRead]\<rparr>"

text \<open>
  Mounting the panel for lead \<open>pid\<close>: \<open>useSWR\<close> starts the first message request,
  then the mark-read effect runs.
\<close>

definition conv_mount :: "string \<Rightarrow> conv_panel" where
  "conv_mount pid =
     markReadEffect (msgs_request
       \<lparr>conv_lead = pid, draft = [], sendError = None, msgs_data = None, msgs_error = None,
        issued = 0, applied = 0, msgs_inflight = [], conv_open = True, conv_tasks = [],
        conv_calls = []\<rparr>)"

text \<open>
  The \<open>.then\<close> of the mark-read effect runs on success only; a rejected
  \<open>markConversationRead\<close> is dropped.
\<close>

definition mark_read_settled :: "nat \<Rightarrow> bool \<Rightarrow> conv_panel \<Rightarrow> conv_panel" where
  "mark_read_settled i ok s =
     s\<lparr>conv_tasks := drop_task i (conv_tasks s),
       conv_calls := conv_calls s @ (if ok then [CallRefreshLeads] else [])\<rparr>"

text \<open>
  \<open>handleSend\<close> up to its first \<open>await\<close> (lines 157-163): nothing on a blank
  draft, otherwise clear the send error and send the trimmed text.
\<close>

definition handleSend :: "conv_panel \<Rightarrow> conv_panel" where
  "handleSend s =
     (let trimmed = js_trim (draft s) in
      if trimmed = [] then s
      else s\<lparr>sendError := None, conv_tasks := conv_tasks s @ [ReplySending trimmed],
             conv_calls := conv_calls s @ [CallReply trimmed]\<rparr>)"

text \<open>
  \<open>handleSend\<close> after \<open>await sendLeadReply\<close> (lines 164-174): on success clear
  the draft and \<open>await mutate()\<close>; on failure show the error's message. Once the
  panel is unmounted, its state setters do nothing and \<open>mutate()\<close> has no
  mounted revalidator, so it resolves at once and the leads refresh follows.
\<close>

definition reply_settled :: "nat \<Rightarrow> send_outcome \<Rightarrow> conv_panel \<Rightarrow> conv_panel" where
  "reply_settled i out s =
     (let s' = s\<lparr>conv_tasks := drop_task i (conv_tasks s)\<rparr> in
      case out of
        SendOk \<Rightarrow>
          if conv_open s then
            let s'' = msgs_request (s'\<lparr>draft := []\<rparr>) in
            s''\<lparr>conv_tasks := conv_tasks s'' @ [ReplyRefreshing (issued s'')]\<rparr>
          else s'\<lparr>conv_calls := conv_calls s' @ [CallRefreshLeads]\<rparr>
      | SendFailed m \<Rightarrow> if conv_open s then s'\<lparr>sendError := Some m\<rparr> else s')"

section \<open>The panel's reaction to one event\<close>

fun is_reply_sending :: "conv_task \<Rightarrow> bool" where
  "is_reply_sending (ReplySending _) = True"
| "is_reply_sending _ = False"

definition conv_step :: "conv_panel \<Rightarrow> conv_event \<Rightarrow> conv_panel" where
  "conv_step s e =
     (case e of
        TypeDraft v \<Rightarrow> if conv_open s then s\<lparr>draft := v\<rparr> else s
      | ClickSendReply \<Rightarrow> if conv_open s then handleSend s else s
      | PollTick \<Rightarrow> if conv_open s then msgs_poll s else s
      | ParentRender \<Rightarrow> if conv_open s then markReadEffect s else s
      | Close \<Rightarrow> s\<lparr>conv_open := False\<rparr>
      | ReplySettles i out \<Rightarrow>
          if i < length (conv_tasks s) \<and> is_reply_sending (conv_tasks s ! i)
          then reply_settled i out s else s
      | MarkReadSettles i ok \<Rightarrow>
          if i < length (conv_tasks s) \<and> conv_tasks s ! i = MarkReading
          then mark_read_settled i ok s else s
      | MsgsSettle k out \<Rightarrow> msgs_settle k out s)"

definition conv_run :: "conv_panel \<Rightarrow> conv_event list \<Rightarrow> conv_panel" where
  "conv_run = foldl conv_step"


section \<open>Invariant and scenarios\<close>

fun is_fetch :: "conv_call \<Rightarrow> bool" where
  "is_fetch (CallFetchMessages _) = True"
| "is_fetch _ = False"

fun waits_in_flight :: "nat list \<Rightarrow> conv_task \<Rightarrow> bool" where
  "waits_in_flight ks (ReplyRefreshing k) = (k \<in> set ks)"
| "waits_in_flight ks _ = True"

definition conv_inv :: "conv_panel \<Rightarrow> bool" where
  "conv_inv s \<longleftrightarrow>
     distinct (msgs_inflight s)
     \<and> list_all (\<lambda>k. 0 < k \<and> k \<le> issued s) (msgs_inflight s)
     \<and> applied s \<le> issued s
     \<and> filter is_fetch (conv_calls s) = map CallFetchMessages [1..<Suc (issued s)]
     \<and> list_all (waits_in_flight (msgs_inflight s)) (conv_tasks s)"

definition reply_events :: "nat \<Rightarrow> nat \<Rightarrow> msgs_outcome \<Rightarrow> conv_event list" where
  "reply_events n k out = [ClickSendReply, ReplySettles n SendOk, MsgsSettle k out]"

fun is_reply_refreshing :: "conv_task \<Rightarrow> bool" where
  "is_reply_refreshing (ReplyRefreshing _) = True"
| "is_reply_refreshing _ = False"

definition settle_all :: "(nat \<Rightarrow> msgs_outcome) \<Rightarrow> nat list \<Rightarrow> conv_event list" where
  "settle_all out ks = map (\<lambda>k. MsgsSettle k (out k)) ks"

definition mark_read_round :: "conv_event list" where
  "mark_read_round = [MarkReadSettles 0 True, ParentRender]"

definition ex_msg_b :: conversation_message where
  "ex_msg_b = \<lparr>message_id = Some ''m2'', msg_direction = Outbound, message = ''Hello'',
               message_type = ''text'', timestamp = ''2024-01-02T10:00:00Z'', msg_status = Some ''sent''\<rparr>"

definition ex_stale_events :: "conv_event list" where
  "ex_stale_events =
     [TypeDraft ''Hello'', ClickSendReply, ReplySettles 1 SendOk,
      MsgsSettle 2 (MsgsOk [ex_msg_b]), MsgsSettle 1 (MsgsOk [])]"

section \<open>Lemmas\<close>

lemma waits_in_flight_mono:
  "waits_in_flight ks t \<Longrightarrow> set ks \<subseteq> set ks' \<Longrightarrow> waits_in_flight ks' t"
  by (cases t) auto

lemma waits_in_flight_removeAll:
  "waits_in_flight ks t \<Longrightarrow> t \<noteq> ReplyRefreshing k \<Longrightarrow> waits_in_flight (removeAll k ks) t"
  by (cases t) auto

lemma set_drop_task: "set (drop_task i xs) \<subseteq> set xs"
  unfolding drop_task_def by (auto dest: in_set_takeD in_set_dropD)

lemma list_all_drop_task: "list_all P xs \<Longrightarrow> list_all P (drop_task i xs)"
  using set_drop_task [of i xs] by (auto simp: list_all_iff)

lemma msgs_apply_fields [simp]:
  "msgs_inflight (msgs_apply k out s) = msgs_inflight s"
  "issued (msgs_apply k out s) = issued s"
  "conv_tasks (msgs_apply k out s) = conv_tasks s"
  "conv_calls (msgs_apply k out s) = conv_calls s"
  "conv_open (msgs_apply k out s) = conv_open s"
  "draft (msgs_apply k out s) = draft s"
  "sendError (msgs_apply k out s) = sendError s"
  "applied (msgs_apply k out s) = (if conv_open s \<and> applied s < k then k else applied s)"
  by (simp_all add: msgs_apply_def split: msgs_outcome.split)

lemma msgs_request_inv: "conv_inv s \<Longrightarrow> conv_inv (msgs_request s)"
  unfolding conv_inv_def msgs_request_def
  by (auto simp: list_all_iff intro: waits_in_flight_mono)

lemma markReadEffect_inv: "conv_inv s \<Longrightarrow> conv_inv (markReadEffect s)"
  unfolding conv_inv_def markReadEffect_def by simp

lemma handleSend_inv: "conv_inv s \<Longrightarrow> conv_inv (handleSend s)"
  unfolding conv_inv_def handleSend_def by (simp add: Let_def)

lemma mark_read_settled_inv: "conv_inv s \<Longrightarrow> conv_inv (mark_read_settled i ok s)"
  unfolding conv_inv_def mark_read_settled_def by (simp add: list_all_drop_task)

lemma reply_settled_inv: "conv_inv s \<Longrightarrow> conv_inv (reply_settled i out s)"
proof -
  assume inv: "conv_inv s"
  let ?s' = "s\<lparr>conv_tasks := drop_task i (conv_tasks s)\<rparr>"
  have s': "conv_inv ?s'" "conv_inv (?s'\<lparr>draft := []\<rparr>)"
    using inv by (simp_all add: conv_inv_def list_all_drop_task)
  have "conv_inv (msgs_request (?s'\<lparr>draft := []\<rparr>))" using msgs_request_inv [OF s'(2)] .
  then have req: "conv_inv ((msgs_request (?s'\<lparr>draft := []\<rparr>))
      \<lparr>conv_tasks := conv_tasks (msgs_request (?s'\<lparr>draft := []\<rparr>))
                       @ [ReplyRefreshing (issued (msgs_request (?s'\<lparr>draft := []\<rparr>)))]\<rparr>)"
    by (simp add: conv_inv_def msgs_request_def)
  show ?thesis
    using s' req by (cases out) (simp_all add: reply_settled_def Let_def conv_inv_def)
qed

lemma msgs_settle_inv: "conv_inv s \<Longrightarrow> conv_inv (msgs_settle k out s)"
proof (cases "k \<in> set (msgs_inflight s)")
  case True
  assume inv: "conv_inv s"
  let ?s1 = "msgs_apply k out (s\<lparr>msgs_inflight := removeAll k (msgs_inflight s)\<rparr>)"
  have le: "k \<le> issued s" using True inv by (auto simp: conv_inv_def list_all_iff)
  have "list_all (waits_in_flight (removeAll k (msgs_inflight s)))
          (filter (\<lambda>t. t \<noteq> ReplyRefreshing k) (conv_tasks s))"
    using inv by (auto simp: conv_inv_def list_all_iff intro: waits_in_flight_removeAll)
  then have "conv_inv (resume_refreshing k ?s1)"
    using inv le by (auto simp: conv_inv_def resume_refreshing_def list_all_iff distinct_removeAll)
  then show ?thesis using True by (simp add: msgs_settle_def)
qed (simp add: msgs_settle_def)

lemma conv_step_inv: "conv_inv s \<Longrightarrow> conv_inv (conv_step s e)"
  by (cases e)
     (simp_all add: conv_step_def msgs_poll_def msgs_request_inv markReadEffect_inv handleSend_inv
        reply_settled_inv mark_read_settled_inv msgs_settle_inv,
      simp_all add: conv_inv_def)

lemma conv_mount_inv: "conv_inv (conv_mount pid)"
  by (simp add: conv_inv_def conv_mount_def markReadEffect_def msgs_request_def)

lemma conv_run_inv: "conv_inv s \<Longrightarrow> conv_inv (conv_run s es)"
  unfolding conv_run_def by (induction es arbitrary: s) (simp_all add: conv_step_inv)

lemma conv_run_Cons: "conv_run s (e # es) = conv_run (conv_step s e) es"
  by (simp add: conv_run_def)

lemma conv_run_append: "conv_run s (es @ fs) = conv_run (conv_run s es) fs"
  by (simp add: conv_run_def)

lemma drop_task_last [simp]: "drop_task (length xs) (xs @ [x]) = xs"
  by (simp add: drop_task_def)

lemma conv_inv_fresh:
  "conv_inv s \<Longrightarrow> ReplyRefreshing (Suc (issued s)) \<notin> set (conv_tasks s)
     \<and> Suc (issued s) \<notin> set (msgs_inflight s) \<and> applied s < Suc (issued s)"
  by (fastforce simp: conv_inv_def list_all_iff)

lemma reply_settled_msgs [simp]:
  "applied (reply_settled i out s) = applied s"
  "msgs_data (reply_settled i out s) = msgs_data s"
  "msgs_error (reply_settled i out s) = msgs_error s"
  by (cases out; simp add: reply_settled_def Let_def msgs_request_def)+

lemma conv_handler_msgs [simp]:
  "applied (msgs_request s) = applied s" "msgs_data (msgs_request s) = msgs_data s"
  "msgs_error (msgs_request s) = msgs_error s"
  "applied (markReadEffect s) = applied s" "msgs_data (markReadEffect s) = msgs_data s"
  "msgs_error (markReadEffect s) = msgs_error s"
  "applied (handleSend s) = applied s" "msgs_data (handleSend s) = msgs_data s"
  "msgs_error (handleSend s) = msgs_error s"
  "applied (mark_read_settled i ok s) = applied s"
  "msgs_data (mark_read_settled i ok s) = msgs_data s"
  "msgs_error (mark_read_settled i ok s) = msgs_error s"
  "applied (resume_refreshing k s) = applied s" "msgs_data (resume_refreshing k s) = msgs_data s"
  "msgs_error (resume_refreshing k s) = msgs_error s"
  by (simp_all add: msgs_request_def markReadEffect_def handleSend_def Let_def
      mark_read_settled_def resume_refreshing_def)

lemma mark_read_rounds:
  "conv_open t \<Longrightarrow> conv_tasks t = [MarkReading] \<Longrightarrow>
     conv_run t (concat (replicate n mark_read_round))
       = t\<lparr>conv_calls := conv_calls t @ concat (replicate n [CallRefreshLeads, CallMarkRead])\<rparr>"
proof (induction n arbitrary: t)
  case (Suc n)
  have "conv_run t mark_read_round
          = t\<lparr>conv_calls := conv_calls t @ [CallRefreshLeads, CallMarkRead]\<rparr>"
    using Suc.prems by (simp add: mark_read_round_def conv_run_def conv_step_def
                                  mark_read_settled_def markReadEffect_def drop_task_def)
  then show ?case using Suc.prems Suc.IH [of "t\<lparr>conv_calls := conv_calls t @ [CallRefreshLeads, CallMarkRead]\<rparr>"]
    by (simp add: conv_run_append)
qed (simp add: conv_run_def)

lemma count_concat_replicate:
  "count_list (concat (replicate n xs)) x = n * count_list xs x"
  by (induction n) simp_all

lemma refreshing_split:
  "length (filter is_reply_refreshing xs)
     = length (filter is_reply_refreshing (filter (\<lambda>t. t \<noteq> ReplyRefreshing k) xs))
       + count_list xs (ReplyRefreshing k)"
  by (induction xs) auto

lemma count_list_replicate_self [simp]: "count_list (replicate n x) x = n"
  by (induction n) simp_all

lemma msgs_settle_inflight: "msgs_inflight (msgs_settle k out s) = removeAll k (msgs_inflight s)"
  by (simp add: msgs_settle_def resume_refreshing_def)

lemma msgs_settle_refresh_balance:
  "count_list (conv_calls (msgs_settle k out s)) CallRefreshLeads
     + length (filter is_reply_refreshing (conv_tasks (msgs_settle k out s)))
   = count_list (conv_calls s) CallRefreshLeads + length (filter is_reply_refreshing (conv_tasks s))"
  using refreshing_split [of "conv_tasks s" k]
  by (simp add: msgs_settle_def resume_refreshing_def)

lemma no_refreshing_when_idle:
  "conv_inv s \<Longrightarrow> msgs_inflight s = [] \<Longrightarrow> filter is_reply_refreshing (conv_tasks s) = []"
  unfolding conv_inv_def list_all_iff filter_empty_conv
  by (metis is_reply_refreshing.elims(2) waits_in_flight.simps(1) empty_iff empty_set)

lemma settle_all_run:
  "conv_inv s \<Longrightarrow> set (msgs_inflight s) \<subseteq> set ks \<Longrightarrow>
     msgs_inflight (conv_run s (settle_all out ks)) = []
     \<and> count_list (conv_calls (conv_run s (settle_all out ks))) CallRefreshLeads
         = count_list (conv_calls s) CallRefreshLeads + length (filter is_reply_refreshing (conv_tasks s))"
proof (induction ks arbitrary: s)
  case Nil
  then show ?case using no_refreshing_when_idle [of s] by (simp add: settle_all_def conv_run_def)
next
  case (Cons k ks)
  let ?t = "conv_step s (MsgsSettle k (out k))"
  have t: "?t = msgs_settle k (out k) s" by (simp add: conv_step_def)
  have inv: "conv_inv ?t" using conv_step_inv [OF Cons.prems(1)] .
  have "set (msgs_inflight ?t) \<subseteq> set ks" using Cons.prems(2) by (auto simp: t msgs_settle_inflight)
  from Cons.IH [OF inv this] show ?case
    using msgs_settle_refresh_balance [of k "out k" s]
    by (simp add: settle_all_def conv_run_Cons t)
qed

lemmas conv_eval_defs = conv_step_def conv_mount_def msgs_request_def msgs_poll_def
  msgs_settle_def msgs_apply_def resume_refreshing_def markReadEffect_def mark_read_settled_def
  handleSend_def reply_settled_def drop_task_def Let_def js_trim_ascii is_js_space_def



text \<open>
  The spec's stale-result scenario (section 8): request 1 (the
  poll started on mount) is issued before request 2 (the \<open>mutate()\<close> after
  a reply), 2 lands first and 1 lands last; the panel shows the messages of request 2.
\<close>

theorem conv_stale_scenario:
  "msgs_data (conv_run (conv_mount pid) ex_stale_events) = Some [ex_msg_b]
   \<and> applied (conv_run (conv_mount pid) ex_stale_events) = 2"
  by (simp add: conv_run_def ex_stale_events_def conv_eval_defs)




text \<open>
  \<open>handleSend\<close> on a blank or whitespace-only
  draft does nothing: no call, no error change, no state change.
\<close>

theorem handleSend_blank_noop:
  "js_trim (draft s) = [] \<Longrightarrow> conv_step s ClickSendReply = s"
  by (simp add: conv_step_def handleSend_def)

theorem handleSend_blank_noop_witness:
  "js_trim (draft (conv_step (conv_mount ''p1'') (TypeDraft ''   ''))) = []
   \<and> conv_step (conv_step (conv_mount ''p1'') (TypeDraft ''   '')) ClickSendReply
       = conv_step (conv_mount ''p1'') (TypeDraft ''   '')"
proof -
  have h: "js_trim (draft (conv_step (conv_mount ''p1'') (TypeDraft ''   ''))) = []"
    by (simp add: conv_eval_defs)
  show ?thesis using h handleSend_blank_noop [OF h] by simp
qed


text \<open>
  The blank test is \<open>draft.trim()\<close> on the draft's JavaScript string: a draft of
  any ECMAScript white space (a no-break space, a line separator) sends nothing.
\<close>

lemma handleSend_unicode_blank_noop:
  assumes "js_units (draft s) = Some us" and "units_trim us = []"
  shows "conv_step s ClickSendReply = s"
proof -
  have "js_units (js_trim (draft s)) = Some []" using js_trim_units [OF assms(1)] assms(2) by simp
  then have "js_trim (draft s) = []" by (rule js_units_Nil)
  then show ?thesis by (rule handleSend_blank_noop)
qed

lemma handleSend_nbsp_noop:
  "conv_step (conv_step (conv_mount ''p1'') (TypeDraft (utf8 [194, 160, 32]))) ClickSendReply
     = conv_step (conv_mount ''p1'') (TypeDraft (utf8 [194, 160, 32]))"
proof (rule handleSend_unicode_blank_noop)
  show "js_units (draft (conv_step (conv_mount ''p1'') (TypeDraft (utf8 [194, 160, 32])))) = Some [160, 32]"
    by (simp add: conv_eval_defs js_units_def utf8_def utf8_seq_def is_cont_def
                  valid_cp_def is_surrogate_def utf16_units_def)
  show "units_trim [160, 32] = []" by (simp add: units_trim_def is_es_space_def)
qed

text \<open>
  Claim C26 (error). A failed reply keeps the draft for resubmission, shows the
  error's message inline, leaves the messages and their error untouched and issues no
  further call.
\<close>

theorem reply_failure_keeps_draft:
  assumes "conv_open s" and "i < length (conv_tasks s)" and "conv_tasks s ! i = ReplySending t"
  shows "draft (conv_step s (ReplySettles i (SendFailed m))) = draft s
         \<and> sendError (conv_step s (ReplySettles i (SendFailed m))) = Some m
         \<and> msgs_data (conv_step s (ReplySettles i (SendFailed m))) = msgs_data s
         \<and> msgs_error (conv_step s (ReplySettles i (SendFailed m))) = msgs_error s
         \<and> conv_calls (conv_step s (ReplySettles i (SendFailed m))) = conv_calls s"
  using assms by (simp add: conv_step_def reply_settled_def Let_def)

theorem reply_failure_keeps_draft_witness:
  "conv_open (conv_run (conv_mount ''p1'') [TypeDraft ''Hi'', ClickSendReply])
   \<and> draft (conv_step (conv_run (conv_mount ''p1'') [TypeDraft ''Hi'', ClickSendReply])
              (ReplySettles 1 (SendFailed ''Bad Gateway''))) = ''Hi''
   \<and> sendError (conv_step (conv_run (conv_mount ''p1'') [TypeDraft ''Hi'', ClickSendReply])
              (ReplySettles 1 (SendFailed ''Bad Gateway''))) = Some ''Bad Gateway''"
proof -
  have h: "conv_open (conv_run (conv_mount ''p1'') [TypeDraft ''Hi'', ClickSendReply])"
    "1 < length (conv_tasks (conv_run (conv_mount ''p1'') [TypeDraft ''Hi'', ClickSendReply]))"
    "conv_tasks (conv_run (conv_mount ''p1'') [TypeDraft ''Hi'', ClickSendReply]) ! 1 = ReplySending ''Hi''"
    "draft (conv_run (conv_mount ''p1'') [TypeDraft ''Hi'', ClickSendReply]) = ''Hi''"
    by (simp_all add: conv_run_def conv_eval_defs)
  show ?thesis using h reply_failure_keeps_draft [OF h(1-3), of "''Bad Gateway''"] by simp
qed

text \<open>
  Claim C27 (functional). A successful reply sends the trimmed draft, then clears the
  draft, re-issues the message request and, once that settles, asks the parent to
  refresh the leads; the new messages are shown and no continuation is left waiting.
\<close>

theorem reply_success_sequence:
  assumes "conv_inv s" and "conv_open s" and "js_trim (draft s) \<noteq> []"
  shows "conv_calls (conv_run s (reply_events (length (conv_tasks s)) (Suc (issued s)) (MsgsOk ms)))
           = conv_calls s @ [CallReply (js_trim (draft s)), CallFetchMessages (Suc (issued s)),
                             CallRefreshLeads]
         \<and> draft (conv_run s (reply_events (length (conv_tasks s)) (Suc (issued s)) (MsgsOk ms))) = []
         \<and> sendError (conv_run s (reply_events (length (conv_tasks s)) (Suc (issued s)) (MsgsOk ms))) = None
         \<and> msgs_data (conv_run s (reply_events (length (conv_tasks s)) (Suc (issued s)) (MsgsOk ms)))
             = Some ms
         \<and> conv_tasks (conv_run s (reply_events (length (conv_tasks s)) (Suc (issued s)) (MsgsOk ms)))
             = conv_tasks s"
proof -
  have fresh: "ReplyRefreshing (Suc (issued s)) \<notin> set (conv_tasks s)"
    "Suc (issued s) \<notin> set (msgs_inflight s)" "applied s < Suc (issued s)"
    using conv_inv_fresh [OF assms(1)] by simp_all
  have "filter (\<lambda>t. t \<noteq> ReplyRefreshing (Suc (issued s))) (conv_tasks s) = conv_tasks s"
    using fresh(1) by (auto simp: filter_id_conv)
  moreover have "count_list (conv_tasks s) (ReplyRefreshing (Suc (issued s))) = 0"
    using fresh(1) by (simp add: count_list_0_iff)
  moreover have "removeAll (Suc (issued s)) (msgs_inflight s) = msgs_inflight s"
    using fresh(2) by simp
  ultimately show ?thesis
    using assms fresh(3)
    by (simp add: reply_events_def conv_run_def conv_step_def handleSend_def Let_def
        reply_settled_def msgs_request_def msgs_settle_def msgs_apply_def resume_refreshing_def)
qed

theorem reply_success_sequence_witness:
  "conv_inv (conv_run (conv_mount ''p1'') [TypeDraft '' Hi '']) \<and>
   conv_calls (conv_run (conv_run (conv_mount ''p1'') [TypeDraft '' Hi ''])
                 (reply_events 1 2 (MsgsOk [ex_msg_b])))
     = [CallFetchMessages 1, CallMarkRead, CallReply ''Hi'', CallFetchMessages 2, CallRefreshLeads]"
proof -
  let ?s = "conv_run (conv_mount ''p1'') [TypeDraft '' Hi '']"
  have inv: "conv_inv ?s" using conv_run_inv [OF conv_mount_inv] .
  have h: "conv_open ?s" "js_trim (draft ?s) \<noteq> []" "length (conv_tasks ?s) = 1" "issued ?s = 1"
    "conv_calls ?s = [CallFetchMessages 1, CallMarkRead]" "js_trim (draft ?s) = ''Hi''"
    by (simp_all add: conv_run_def conv_eval_defs)
  show ?thesis using inv h reply_success_sequence [OF inv h(1,2), of "[ex_msg_b]"]
    by (simp add: numeral_2_eq_2)
qed

text \<open>
  Claim C28 (error). When \<open>markConversationRead\<close> fails, the panel does
  not ask the parent to refresh its leads (the \<open>.then\<close> continuation runs
  on success only), whereas the spec (section 4.6) asks for a refresh on success or
  failure.
\<close>

theorem mark_read_failure_no_refresh:
  "conv_calls (conv_step s (MarkReadSettles i False)) = conv_calls s"
  by (simp add: conv_step_def mark_read_settled_def)

text \<open>
  Claim C29 (safety). Mark-read is not issued once per opening: each successful
  mark-read asks the parent for a leads refresh, the refresh re-renders the parent
  with a new \<open>onRefreshLeads\<close> closure, and the effect runs again; after
  \<open>n\<close> such rounds \<open>n + 1\<close> mark-read calls and
  \<open>n\<close> leads refreshes have been issued.
\<close>

theorem mark_read_refires:
  "count_list (conv_calls (conv_run (conv_mount pid) (concat (replicate n mark_read_round))))
      CallMarkRead = Suc n
   \<and> count_list (conv_calls (conv_run (conv_mount pid) (concat (replicate n mark_read_round))))
      CallRefreshLeads = n"
proof -
  have "conv_open (conv_mount pid)" "conv_tasks (conv_mount pid) = [MarkReading]"
    by (simp_all add: conv_mount_def markReadEffect_def msgs_request_def)
  from mark_read_rounds [OF this, of n] show ?thesis
    by (simp add: count_concat_replicate conv_mount_def markReadEffect_def msgs_request_def)
qed



text \<open>
  A poll tick while a message request is in flight is absorbed:
  nothing changes and no request is issued.
\<close>

theorem msgs_poll_absorbed:
  "msgs_inflight s \<noteq> [] \<Longrightarrow> conv_step s PollTick = s"
  by (simp add: conv_step_def msgs_poll_def)

theorem msgs_poll_absorbed_witness:
  "msgs_inflight (conv_mount ''p1'') \<noteq> [] \<and> conv_step (conv_mount ''p1'') PollTick = conv_mount ''p1''"
proof -
  have h: "msgs_inflight (conv_mount ''p1'') \<noteq> []" by (simp add: conv_eval_defs)
  show ?thesis using h msgs_poll_absorbed [OF h] by simp
qed

text \<open>
  Text typed while a reply is being sent is lost: the success
  continuation clears the draft unconditionally.
\<close>

theorem reply_success_clears_later_typing:
  "draft (conv_run (conv_mount pid)
            [TypeDraft ''Hi'', ClickSendReply, TypeDraft ''Hi, also'', ReplySettles 1 SendOk]) = []"
  by (simp add: conv_run_def conv_eval_defs)

text \<open>
  The send button is not disabled while a reply is in flight, so
  clicking it twice sends the same reply twice.
\<close>

theorem reply_double_click:
  "count_list (conv_calls (conv_run (conv_mount pid) [TypeDraft ''Hi'', ClickSendReply, ClickSendReply]))
     (CallReply ''Hi'') = 2"
  by (simp add: conv_run_def conv_eval_defs)



end
