(* ===== verification/Chats_Page.thy ===== *)
theory Chats_Page
  imports Queue_Page "HOL-Library.Sublist"
begin

text \<open>
  The chats page \<open>ChatsPage\<close> (\<open>src/frontend/src/pages/chats.tsx\<close>): the
  history leads ordered by last activity and narrowed by a search box, on top of
  the filter predicate. The activity key and the search are pure functions of a
  lead; the page's state is a record and \<open>chats_step\<close> its reaction to one
  event, as for the queue page. \<open>String.prototype.toLowerCase\<close> is a parameter
  \<open>lower\<close> of the model (a runtime function, like \<open>localeCompare\<close>), and
  \<open>Date.parse\<close> is the host's \<open>parse_date\<close>. The history SWR cache is modelled
  from the spec, as in \<open>Queue_Page\<close>.
\<close>

section \<open>Activity and search\<close>

definition getLastTimelineEntry :: "lead \<Rightarrow> outreach_entry option" where
  "getLastTimelineEntry l =
     (if outreach_history l = [] then None else Some (last (outreach_history l)))"

text \<open>
  \<open>??\<close> falls through on \<open>null\<close>/\<open>undefined\<close> only; \<open>date_added\<close> is always a
  string, so the final \<open>?? null\<close> is never reached.
\<close>

definition getActivityTimestamp :: "lead \<Rightarrow> string" where
  "getActivityTimestamp l =
     (case last_message_at l of
        Some t \<Rightarrow> t
      | None \<Rightarrow>
          (case Option.bind (getLastTimelineEntry l) entry_date of
             Some d \<Rightarrow> d
           | None \<Rightarrow> date_added l))"

text \<open>\<open>ts ? Date.parse(ts) || 0 : 0\<close>: an empty or unparseable timestamp is 0.\<close>

definition getActivityValue :: "host \<Rightarrow> lead \<Rightarrow> int" where
  "getActivityValue h l =
     (let ts = getActivityTimestamp l in
      if ts = [] then 0 else (case parse_date h ts of None \<Rightarrow> 0 | Some t \<Rightarrow> t))"

definition search_values :: "(string \<Rightarrow> string) \<Rightarrow> lead \<Rightarrow> string list" where
  "search_values lower l =
     concat (map (\<lambda>v. case v of Some x \<Rightarrow> if x = [] then [] else [lower x] | None \<Rightarrow> [])
       [Some (lister_name l), Some (title l), lister_phone l, Some (display_id l),
        last_message_excerpt l])"

definition matchesSearch :: "(string \<Rightarrow> string) \<Rightarrow> lead \<Rightarrow> string \<Rightarrow> bool" where
  "matchesSearch lower l query =
     (if query = [] then True
      else list_ex (\<lambda>v. sublist (lower query) v) (search_values lower l))"

section \<open>The derived lists\<close>

definition chats_searched ::
  "(string \<Rightarrow> string) \<Rightarrow> host \<Rightarrow> lead list \<Rightarrow> lead_filters \<Rightarrow> string \<Rightarrow> lead list" where
  "chats_searched lower h leads f q =
     (let filteredLeads = applyLeadFilters h leads f in
      if q = [] then filteredLeads else filter (\<lambda>l. matchesSearch lower l q) filteredLeads)"

definition activity_desc :: "host \<Rightarrow> lead \<Rightarrow> lead \<Rightarrow> int" where
  "activity_desc h a b = getActivityValue h b - getActivityValue h a"

definition chats_sorted ::
  "(string \<Rightarrow> string) \<Rightarrow> host \<Rightarrow> lead list \<Rightarrow> lead_filters \<Rightarrow> string \<Rightarrow> lead list" where
  "chats_sorted lower h leads f q = js_sort (activity_desc h) (chats_searched lower h leads f q)"

section \<open>Page state and events\<close>

record chats_page =
  chats_data :: "lead list option"
  chats_error :: "api_error option"
  chats_validating :: bool
  searchTerm :: string
  showFilters :: bool
  chats_appliedFilters :: lead_filters
  activeLead :: "lead option"
  chats_fetches :: nat
  chats_redirected :: bool

datatype chats_event =
    SearchInput string
  | ClearSearch
  | ToggleFilters
  | ApplyChatFilters lead_filters
  | ResetChatFilters
  | OpenChat string
  | CloseChat
  | ChatsRevalidate
  | ChatsFetchSettles fetch_outcome

definition chats_init :: chats_page where
  "chats_init =
     \<lparr>chats_data = None, chats_error = None, chats_validating = True, searchTerm = [],
      showFilters = False, chats_appliedFilters = DEFAULT_LEAD_FILTERS, activeLead = None,
      chats_fetches = 1, chats_redirected = False\<rparr>"

definition chats_revalidate :: "chats_page \<Rightarrow> chats_page" where
  "chats_revalidate s =
     (if chats_validating s then s
      else s\<lparr>chats_validating := True, chats_fetches := Suc (chats_fetches s)\<rparr>)"

definition chats_settle :: "fetch_outcome \<Rightarrow> chats_page \<Rightarrow> chats_page" where
  "chats_settle out s =
     (case out of
        FetchOk ls \<Rightarrow> s\<lparr>chats_data := Some ls, chats_error := None\<rparr>
      | FetchFailed e \<Rightarrow> s\<lparr>chats_error := Some e\<rparr>)\<lparr>chats_validating := False\<rparr>"

definition chats_auth_effect :: "chats_page \<Rightarrow> chats_page" where
  "chats_auth_effect s =
     (case chats_error s of
        Some (ApiError (Some st) _) \<Rightarrow> if st = 401 then s\<lparr>chats_redirected := True\<rparr> else s
      | _ \<Rightarrow> s)"

definition chats_rows :: "(string \<Rightarrow> string) \<Rightarrow> host \<Rightarrow> chats_page \<Rightarrow> lead list" where
  "chats_rows lower h s =
     chats_sorted lower h (case chats_data s of None \<Rightarrow> [] | Some ls \<Rightarrow> ls)
       (chats_appliedFilters s) (searchTerm s)"

text \<open>
  A UI event whose control is not rendered changes nothing: the filter panel's
  apply and reset exist only while it is shown, "Clear search" only for a
  non-empty search, and a row can be opened only if it is listed.
\<close>

definition chats_step ::
  "(string \<Rightarrow> string) \<Rightarrow> host \<Rightarrow> chats_page \<Rightarrow> chats_event \<Rightarrow> chats_page" where
  "chats_step lower h s e =
     (case e of
        SearchInput v \<Rightarrow> s\<lparr>searchTerm := v\<rparr>
      | ClearSearch \<Rightarrow> if searchTerm s = [] then s else s\<lparr>searchTerm := []\<rparr>
      | ToggleFilters \<Rightarrow> s\<lparr>showFilters := \<not> showFilters s\<rparr>
      | ApplyChatFilters f \<Rightarrow> if showFilters s then s\<lparr>chats_appliedFilters := f\<rparr> else s
      | ResetChatFilters \<Rightarrow>
          if showFilters s then s\<lparr>chats_appliedFilters := DEFAULT_LEAD_FILTERS\<rparr> else s
      | OpenChat pid \<Rightarrow>
          (case filter (\<lambda>l. property_id l = pid) (chats_rows lower h s) of
             [] \<Rightarrow> s
           | l # _ \<Rightarrow> s\<lparr>activeLead := Some l\<rparr>)
      | CloseChat \<Rightarrow> s\<lparr>activeLead := None\<rparr>
      | ChatsRevalidate \<Rightarrow> chats_revalidate s
      | ChatsFetchSettles out \<Rightarrow>
          if chats_validating s then chats_auth_effect (chats_settle out s) else s)"

definition chats_run ::
  "(string \<Rightarrow> string) \<Rightarrow> host \<Rightarrow> chats_page \<Rightarrow> chats_event list \<Rightarrow> chats_page" where
  "chats_run lower h = foldl (chats_step lower h)"


section \<open>Lemmas\<close>

lemma key_comparator_activity_desc:
  "key_comparator (activity_desc h) (\<lambda>l. - getActivityValue h l)"
  by (auto simp: key_comparator_def activity_desc_def)

text \<open>The searched leads are the fetched leads passing both the filters and the search.\<close>

lemma chats_searched_filter:
  "chats_searched lower h leads f q = filter (\<lambda>l. lead_matches h f l \<and> matchesSearch lower l q) leads"
  by (auto simp: chats_searched_def applyLeadFilters_def Let_def matchesSearch_def intro!: filter_cong)

lemma chats_sorted_filter:
  "chats_sorted lower h leads f q
     = sort_key (\<lambda>l. - getActivityValue h l) (filter (\<lambda>l. lead_matches h f l \<and> matchesSearch lower l q) leads)"
  unfolding chats_sorted_def chats_searched_filter
  by (rule js_sort_sort_key [OF key_comparator_activity_desc])

lemma sublist_append_left: "sublist (xs @ ys) zs \<Longrightarrow> sublist xs zs"
  by (auto simp: sublist_def)

lemma matchesSearch_append:
  "matchesSearch (map f) l (q @ r) \<Longrightarrow> q \<noteq> [] \<Longrightarrow> matchesSearch (map f) l q"
  by (auto simp: matchesSearch_def list_ex_iff intro: sublist_append_left)

text \<open>
  Claim C34 (equivalence). The chat list is the stable sort of the searched
  leads by descending activity value: \<open>Array.prototype.sort\<close> with the
  comparator \<open>getActivityValue(b) - getActivityValue(a)\<close> equals
  \<open>sort_key\<close> on the negated value, so it is a permutation of the searched leads,
  newest activity first, with ties kept in their filtered order.
\<close>

theorem chats_sorted_by_activity:
  "chats_sorted lower h leads f q = sort_key (\<lambda>l. - getActivityValue h l) (chats_searched lower h leads f q)
   \<and> mset (chats_sorted lower h leads f q) = mset (chats_searched lower h leads f q)
   \<and> sorted (map (\<lambda>l. - getActivityValue h l) (chats_sorted lower h leads f q))"
proof -
  have eq: "chats_sorted lower h leads f q = sort_key (\<lambda>l. - getActivityValue h l) (chats_searched lower h leads f q)"
    unfolding chats_sorted_def by (rule js_sort_sort_key [OF key_comparator_activity_desc])
  show ?thesis unfolding eq by simp
qed

text \<open>
  Typing more characters only narrows the search: for a
  character-wise lowering, the leads matching \<open>q @ r\<close> are those matching
  \<open>q\<close> that also match \<open>q @ r\<close>, in the same order.
\<close>

theorem search_narrowing:
  "chats_searched (map f) h leads flt (q @ r)
     = filter (\<lambda>l. matchesSearch (map f) l (q @ r)) (chats_searched (map f) h leads flt q)"
proof (cases "q = []")
  case True
  then show ?thesis by (simp add: chats_searched_def Let_def matchesSearch_def)
next
  case False
  then show ?thesis
    by (auto simp: chats_searched_def Let_def intro!: filter_cong dest: matchesSearch_append)
qed

end
