(* ===== verification/Filters_Panel.thy ===== *)
theory Filters_Panel
  imports Filter_Facets "HOL-Library.Sublist"
begin

text \<open>
  The filter panel \<open>LeadFiltersPanel\<close>
  (\<open>src/frontend/src/components/LeadFilters.tsx\<close>): a draft of the filters that
  the operator edits and then applies or resets. The panel's state (the draft
  and the two search boxes of the region and zone lists) is a record, and
  \<open>panel_step\<close> its reaction to one event: an edit of a control, the form's
  submit, the reset button, or a new \<open>appliedFilters\<close> from the parent, which the
  effect of lines 43-45 copies into the draft. The callbacks the panel calls are
  recorded in order. \<open>String.prototype.toLowerCase\<close> is the parameter
  \<open>lower\<close>, as on the chats page. The DOM gives a number input and a select
  either \<open>""\<close> or a numeric string, so \<open>Number(value)\<close> is the
  \<open>string_to_number\<close> of the value.
\<close>

section \<open>State and events\<close>

datatype panel_output = OnApply lead_filters | OnReset

datatype txn_key = SaleKey | RentKey

record filters_panel =
  fp_draft :: lead_filters
  regionQuery :: string
  zoneQuery :: string
  fp_applied :: lead_filters
  fp_emitted :: "panel_output list"

datatype panel_event =
    TogglePropertyType rat
  | RegionQueryInput string
  | SelectRegion string
  | ZoneQueryInput string
  | SelectZone string
  | ToggleTransaction txn_key
  | SelectRooms rooms_choice
  | MinBudgetInput string
  | MaxBudgetInput string
  | DateFromInput string
  | DateToInput string
  | SubmitApply
  | ClickReset
  | AppliedChanged lead_filters

text \<open>Mounting: the draft starts at the defaults and the effect copies the prop.\<close>

definition panel_mount :: "lead_filters \<Rightarrow> filters_panel" where
  "panel_mount applied =
     \<lparr>fp_draft = applied, regionQuery = [], zoneQuery = [], fp_applied = applied,
      fp_emitted = []\<rparr>"

section \<open>Derived lists\<close>

definition option_search ::
  "(string \<Rightarrow> string) \<Rightarrow> string \<Rightarrow> option_item list \<Rightarrow> option_item list" where
  "option_search lower q opts =
     (if q = [] then opts else filter (\<lambda>opt. sublist (lower q) (lower (opt_label opt))) opts)"

definition filteredRegions ::
  "(string \<Rightarrow> string) \<Rightarrow> host \<Rightarrow> lead list \<Rightarrow> filters_panel \<Rightarrow> option_item list" where
  "filteredRegions lower h leads s =
     option_search lower (regionQuery s) (fo_regions (deriveFilterOptions h leads))"

definition filteredZones ::
  "(string \<Rightarrow> string) \<Rightarrow> host \<Rightarrow> lead list \<Rightarrow> filters_panel \<Rightarrow> option_item list" where
  "filteredZones lower h leads s =
     option_search lower (zoneQuery s) (fo_zones (deriveFilterOptions h leads))"

text \<open>
  The option a controlled \<open><select>\<close> shows: the one whose value is the draft's,
  and the first option (\<open>None\<close>, "Toata Tara") when no listed option has it.
\<close>

definition region_shown ::
  "(string \<Rightarrow> string) \<Rightarrow> host \<Rightarrow> lead list \<Rightarrow> filters_panel \<Rightarrow> option_item option" where
  "region_shown lower h leads s =
     (case regionId (fp_draft s) of
        None \<Rightarrow> None
      | Some r \<Rightarrow> find (\<lambda>opt. opt_value opt = r) (filteredRegions lower h leads s))"

section \<open>The option lists\<close>

definition ROOMS_OPTIONS :: "(string \<times> string) list" where
  "ROOMS_OPTIONS = [(''all'', ''Toate''), (''1'', ''1''), (''2'', ''2''), (''3'', ''3''), (''4'', ''4''),
                    (''5+'', ''5+'')]"

text \<open>\<open>event.target.value as LeadFilters["rooms"]\<close>: the option values are the choices.\<close>

definition rooms_of_value :: "string \<Rightarrow> rooms_choice option" where
  "rooms_of_value v =
     (if v = ''all'' then Some RoomsAll else if v = ''1'' then Some Rooms1
      else if v = ''2'' then Some Rooms2 else if v = ''3'' then Some Rooms3
      else if v = ''4'' then Some Rooms4 else if v = ''5+'' then Some Rooms5Plus else None)"

text \<open>
  \<open>`${option.label} (#${option.value})` ?? `${prefix} #${option.value}`\<close>: a
  template literal is never nullish, so the prefix is never used.
\<close>

definition formatOptionLabel :: "option_item \<Rightarrow> string \<Rightarrow> string" where
  "formatOptionLabel opt pfx = opt_label opt @ '' (#'' @ js_number_to_string (opt_value opt) @ '')''"

text \<open>The \<open><option>\<close>s of the region and zone selects: value and text.\<close>

definition region_select_options ::
  "(string \<Rightarrow> string) \<Rightarrow> host \<Rightarrow> lead list \<Rightarrow> filters_panel \<Rightarrow> (string \<times> string) list" where
  "region_select_options lower h leads s =
     ([], ''Toat'' @ utf8 [196, 131] @ '' '' @ utf8 [200, 154] @ ''ara'')
     # map (\<lambda>opt. (js_number_to_string (opt_value opt), formatOptionLabel opt (''Jude'' @ utf8 [200, 155])))
           (filteredRegions lower h leads s)"

definition zone_select_options ::
  "(string \<Rightarrow> string) \<Rightarrow> host \<Rightarrow> lead list \<Rightarrow> filters_panel \<Rightarrow> (string \<times> string) list" where
  "zone_select_options lower h leads s =
     ([], ''Niciuna selectat'' @ utf8 [196, 131])
     # map (\<lambda>opt. (js_number_to_string (opt_value opt), formatOptionLabel opt (''Zon'' @ utf8 [196, 131])))
           (filteredZones lower h leads s)"

section \<open>Handlers\<close>

definition togglePropertyType :: "rat \<Rightarrow> lead_filters \<Rightarrow> lead_filters" where
  "togglePropertyType v f =
     f\<lparr>propertyTypes := (if v \<in> set (propertyTypes f) then filter (\<lambda>t. t \<noteq> v) (propertyTypes f)
                       else propertyTypes f @ [v])\<rparr>"

definition handleTransactionChange :: "txn_key \<Rightarrow> lead_filters \<Rightarrow> lead_filters" where
  "handleTransactionChange k f =
     (case k of
        SaleKey \<Rightarrow> f\<lparr>transaction := (transaction f)\<lparr>sale := \<not> sale (transaction f)\<rparr>\<rparr>
      | RentKey \<Rightarrow> f\<lparr>transaction := (transaction f)\<lparr>rent := \<not> rent (transaction f)\<rparr>\<rparr>)"

text \<open>\<open>event.target.value === "" ? undefined : Number(event.target.value)\<close>.\<close>

definition input_number :: "string \<Rightarrow> rat option" where
  "input_number v = (if v = [] then None else string_to_number v)"

definition input_date :: "string \<Rightarrow> string option" where
  "input_date v = (if v = [] then None else Some v)"

text \<open>The \<open>onChange\<close> handlers of the selects and inputs, each on the draft.\<close>

definition handleRegionSelect :: "string \<Rightarrow> lead_filters \<Rightarrow> lead_filters" where
  "handleRegionSelect v d = d\<lparr>regionId := input_number v\<rparr>"

definition handleZoneSelect :: "string \<Rightarrow> lead_filters \<Rightarrow> lead_filters" where
  "handleZoneSelect v d = d\<lparr>zoneId := input_number v\<rparr>"

definition handleMinBudget :: "string \<Rightarrow> lead_filters \<Rightarrow> lead_filters" where
  "handleMinBudget v d = d\<lparr>minBudget := input_number v\<rparr>"

definition handleMaxBudget :: "string \<Rightarrow> lead_filters \<Rightarrow> lead_filters" where
  "handleMaxBudget v d = d\<lparr>maxBudget := input_number v\<rparr>"

definition handleDateFrom :: "string \<Rightarrow> lead_filters \<Rightarrow> lead_filters" where
  "handleDateFrom v d = d\<lparr>dateFrom := input_date v\<rparr>"

definition handleDateTo :: "string \<Rightarrow> lead_filters \<Rightarrow> lead_filters" where
  "handleDateTo v d = d\<lparr>dateTo := input_date v\<rparr>"

definition handleReset :: "filters_panel \<Rightarrow> filters_panel" where
  "handleReset s =
     s\<lparr>fp_draft := DEFAULT_LEAD_FILTERS, regionQuery := [], zoneQuery := [],
       fp_emitted := fp_emitted s @ [OnReset]\<rparr>"

definition panel_step :: "filters_panel \<Rightarrow> panel_event \<Rightarrow> filters_panel" where
  "panel_step s e =
     (let d = fp_draft s in
      case e of
        TogglePropertyType v \<Rightarrow> s\<lparr>fp_draft := togglePropertyType v d\<rparr>
      | RegionQueryInput q \<Rightarrow> s\<lparr>regionQuery := q\<rparr>
      | SelectRegion v \<Rightarrow> s\<lparr>fp_draft := handleRegionSelect v d\<rparr>
      | ZoneQueryInput q \<Rightarrow> s\<lparr>zoneQuery := q\<rparr>
      | SelectZone v \<Rightarrow> s\<lparr>fp_draft := handleZoneSelect v d\<rparr>
      | ToggleTransaction k \<Rightarrow> s\<lparr>fp_draft := handleTransactionChange k d\<rparr>
      | SelectRooms r \<Rightarrow> s\<lparr>fp_draft := d\<lparr>rooms := r\<rparr>\<rparr>
      | MinBudgetInput v \<Rightarrow> s\<lparr>fp_draft := handleMinBudget v d\<rparr>
      | MaxBudgetInput v \<Rightarrow> s\<lparr>fp_draft := handleMaxBudget v d\<rparr>
      | DateFromInput v \<Rightarrow> s\<lparr>fp_draft := handleDateFrom v d\<rparr>
      | DateToInput v \<Rightarrow> s\<lparr>fp_draft := handleDateTo v d\<rparr>
      | SubmitApply \<Rightarrow> s\<lparr>fp_emitted := fp_emitted s @ [OnApply d]\<rparr>
      | ClickReset \<Rightarrow> handleReset s
      | AppliedChanged f \<Rightarrow> if f = fp_applied s then s else s\<lparr>fp_draft := f, fp_applied := f\<rparr>)"

definition panel_run :: "filters_panel \<Rightarrow> panel_event list \<Rightarrow> filters_panel" where
  "panel_run = foldl panel_step"


section \<open>The rendered form\<close>

text \<open>\<open>value={draft.rooms}\<close>, \<open>value={x ?? ""}\<close> of the number and date inputs.\<close>

definition rooms_value :: "rooms_choice \<Rightarrow> string" where
  "rooms_value r =
     (case r of RoomsAll \<Rightarrow> ''all'' | Rooms1 \<Rightarrow> ''1'' | Rooms2 \<Rightarrow> ''2'' | Rooms3 \<Rightarrow> ''3''
      | Rooms4 \<Rightarrow> ''4'' | Rooms5Plus \<Rightarrow> ''5+'')"

definition number_field :: "rat option \<Rightarrow> string" where
  "number_field v = (case v of None \<Rightarrow> [] | Some q \<Rightarrow> js_number_to_string q)"

definition date_field :: "string option \<Rightarrow> string" where
  "date_field v = (case v of None \<Rightarrow> [] | Some d \<Rightarrow> d)"

text \<open>
  What the form shows (lines 92-323): the property-type checkboxes over the static
  catalog, the search boxes and selects of regions and zones, the transaction
  checkboxes, the rooms select and the four inputs, each with the value React
  writes into the DOM (\<open>String(\<dots>)\<close> of a number, \<open>""\<close> for \<open>undefined\<close>).
\<close>

record panel_view =
  pv_property_types :: "(rat \<times> string \<times> bool) list"
  pv_region_query :: string
  pv_region_value :: string
  pv_region_options :: "(string \<times> string) list"
  pv_zone_query :: string
  pv_zone_value :: string
  pv_zone_options :: "(string \<times> string) list"
  pv_sale :: bool
  pv_rent :: bool
  pv_rooms_value :: string
  pv_rooms_options :: "(string \<times> string) list"
  pv_min_budget :: string
  pv_max_budget :: string
  pv_date_from :: string
  pv_date_to :: string

definition panel_view ::
  "(string \<Rightarrow> string) \<Rightarrow> host \<Rightarrow> lead list \<Rightarrow> filters_panel \<Rightarrow> panel_view" where
  "panel_view lower h leads s =
     (let d = fp_draft s in
      \<lparr>pv_property_types =
         map (\<lambda>opt. (opt_value opt, opt_label opt, opt_value opt \<in> set (propertyTypes d)))
           PROPERTY_TYPE_OPTIONS,
       pv_region_query = regionQuery s,
       pv_region_value = number_field (regionId d),
       pv_region_options = region_select_options lower h leads s,
       pv_zone_query = zoneQuery s,
       pv_zone_value = number_field (zoneId d),
       pv_zone_options = zone_select_options lower h leads s,
       pv_sale = sale (transaction d),
       pv_rent = rent (transaction d),
       pv_rooms_value = rooms_value (rooms d),
       pv_rooms_options = ROOMS_OPTIONS,
       pv_min_budget = number_field (minBudget d),
       pv_max_budget = number_field (maxBudget d),
       pv_date_from = date_field (dateFrom d),
       pv_date_to = date_field (dateTo d)\<rparr>)"


section \<open>Example\<close>

text \<open>
  Two leads in the regions "Cluj" (id 12) and "Alba" (id 1); the operator picks
  Cluj, then types "Alba" in the region search box, then applies.
\<close>

definition ex_panel_leads :: "lead list" where
  "ex_panel_leads =
     [ex_lead_p1\<lparr>property_id := ''c1'', crm_raw := [(''region_obj_id'', JNum 12), (''region_name'', JStr ''Cluj'')]\<rparr>,
      ex_lead_p1\<lparr>property_id := ''a1'', crm_raw := [(''region_obj_id'', JNum 1), (''region_name'', JStr ''Alba'')]\<rparr>]"

definition ex_hidden_region_events :: "panel_event list" where
  "ex_hidden_region_events = [SelectRegion ''12'', RegionQueryInput ''Alba'', SubmitApply]"

section \<open>Lemmas\<close>

lemma ex_panel_regions:
  "fo_regions (deriveFilterOptions ex_host_lex ex_panel_leads)
     = [\<lparr>opt_value = 1, opt_label = ''Alba''\<rparr>, \<lparr>opt_value = 12, opt_label = ''Cluj''\<rparr>]"
  by (simp add: deriveFilterOptions_def ex_panel_leads_def facet_step_def facet_acc_empty_def
      mapToOptions_def js_sort_def map_set_if_absent_def obj_get_def region_label_def
      finite_number_def overflow_bound_def ex_host_lex_def lex_compare_def js_trim_ascii is_js_space_def)

lemma input_number_12: "input_number ''12'' = Some 12"
proof -
  have "''12'' = nat_to_string 12" by code_simp
  then show ?thesis using nat_to_string_digits [of 12]
    by (simp add: input_number_def string_to_number_nat_to_string finite_number_def overflow_bound_def
        del: nat_to_string.simps)
qed

lemma togglePropertyType_set:
  "distinct (propertyTypes f) \<Longrightarrow>
     distinct (propertyTypes (togglePropertyType v f))
     \<and> set (propertyTypes (togglePropertyType v f))
         = (if v \<in> set (propertyTypes f) then set (propertyTypes f) - {v} else insert v (set (propertyTypes f)))"
  by (auto simp: togglePropertyType_def)

lemma js_number_to_string_int_nonempty: "js_number_to_string (rat_of_int k) \<noteq> []"
proof -
  have "\<forall>n. nat_to_string n \<noteq> []" using nat_to_string_digits by blast
  then show ?thesis by (simp add: js_number_to_string_def Let_def del: nat_to_string.simps)
qed

lemma input_number_int:
  "\<bar>rat_of_int k\<bar> < overflow_bound \<Longrightarrow> input_number (js_number_to_string (rat_of_int k)) = Some (rat_of_int k)"
  using string_to_number_int [of k] js_number_to_string_int_nonempty [of k] by (simp add: input_number_def)

lemma rooms_options_choices:
  "map (\<lambda>(v, _). rooms_of_value v) ROOMS_OPTIONS = map Some [RoomsAll, Rooms1, Rooms2, Rooms3, Rooms4, Rooms5Plus]"
  by (simp add: ROOMS_OPTIONS_def rooms_of_value_def)

lemma formatOptionLabel_prefix_unused: "formatOptionLabel opt p = formatOptionLabel opt p'"
  by (simp add: formatOptionLabel_def)

lemma region_values_finite:
  "opt \<in> set (fo_regions (deriveFilterOptions h leads)) \<Longrightarrow> \<bar>opt_value opt\<bar> < overflow_bound"
proof -
  assume opt: "opt \<in> set (fo_regions (deriveFilterOptions h leads))"
  have "list_all entry_ok (regionMap (foldl facet_step facet_acc_empty leads))"
    using fold_facet_entries_ok [of facet_acc_empty leads] by (simp add: facet_acc_empty_def)
  from mapToOptions_ok [OF this, of "locale_compare h"] opt show ?thesis
    by (auto simp: deriveFilterOptions_def Let_def list_all_iff)
qed

text \<open>
  Choosing a listed region with an integer id selects exactly that id: the
  option's value \<open>String(id)\<close> reads back through \<open>Number(...)\<close>.
\<close>

lemma region_option_selects_its_value:
  assumes "opt \<in> set (filteredRegions lower h leads s)" and "opt_value opt = rat_of_int k"
  shows "(js_number_to_string (opt_value opt), formatOptionLabel opt []) \<in> set (region_select_options lower h leads s)
         \<and> regionId (fp_draft (panel_step s (SelectRegion (js_number_to_string (opt_value opt)))))
             = Some (opt_value opt)"
proof -
  have "opt \<in> set (fo_regions (deriveFilterOptions h leads))"
    using assms(1) by (auto simp: filteredRegions_def option_search_def split: if_splits)
  then have "\<bar>rat_of_int k\<bar> < overflow_bound"
    using assms(2) region_values_finite [of opt h leads] by simp
  moreover have "(js_number_to_string (opt_value opt), formatOptionLabel opt [])
                   \<in> set (region_select_options lower h leads s)"
    unfolding region_select_options_def formatOptionLabel_def using assms(1) by force
  ultimately show ?thesis
    using assms(2) input_number_int [of k] by (simp add: panel_step_def handleRegionSelect_def Let_def)
qed





text \<open>Clicking a property-type checkbox flips exactly that checkbox.\<close>

lemma panel_view_toggle:
  "pv_property_types (panel_view lower h leads (panel_step s (TogglePropertyType v))) =
     map (\<lambda>(x, l, c). (x, l, if x = v then \<not> c else c)) (pv_property_types (panel_view lower h leads s))"
  by (auto simp: panel_view_def panel_step_def togglePropertyType_def Let_def)

lemma rooms_value_selects:
  "rooms_of_value (rooms_value r) = Some r \<and> rooms_value r \<in> fst ` set ROOMS_OPTIONS"
  by (cases r) (simp_all add: rooms_value_def rooms_of_value_def ROOMS_OPTIONS_def)

text \<open>
  The checkboxes list the static catalog whatever the leads: for one apartment
  lead \<open>deriveFilterOptions\<close> offers only type 1, yet all catalog types are shown.
\<close>

lemma panel_ignores_derived_types:
  "map fst (pv_property_types (panel_view lower h [ex_lead_p1] s)) = map opt_value PROPERTY_TYPE_OPTIONS
   \<and> map opt_value (fo_propertyTypes (deriveFilterOptions h [ex_lead_p1])) = [1]"
proof
  show "map fst (pv_property_types (panel_view lower h [ex_lead_p1] s)) = map opt_value PROPERTY_TYPE_OPTIONS"
    by (simp add: panel_view_def Let_def comp_def)
  have "{p. \<exists>l \<in> set [ex_lead_p1]. toNumber (getFromRaw l ''property_type'') = Some p} = {1}"
    by (simp add: ex_lead_p1_def getFromRaw_def obj_get_def finite_number_def overflow_bound_def)
  then show "map opt_value (fo_propertyTypes (deriveFilterOptions h [ex_lead_p1])) = [1]"
    using fold_propertyTypeSet [of facet_acc_empty "[ex_lead_p1]"]
    by (simp add: deriveFilterOptions_def Let_def facet_acc_empty_def PROPERTY_TYPE_OPTIONS_def flip: set_empty)
qed

end
