(* ===== verification/Middleware.thy ===== *)
theory Middleware
  imports Js_Values "HOL-Library.Sublist"
begin

text \<open>
  The authentication middleware (\<open>src/frontend/middleware.ts\<close>): the decision
  \<open>middleware\<close> takes for one request, from its path, the value of the
  \<open>crmrebs_token\<close> cookie and the clock. \<open>isJwtExpired\<close> is modelled down to the
  decoding of the payload: \<open>atob\<close> followed by \<open>JSON.parse\<close> is the parameter
  \<open>decode\<close> (\<open>None\<close> when either throws), a runtime function like
  \<open>localeCompare\<close>. The \<open>config.matcher\<close> is not modelled: the function's own
  path checks exclude the same paths.
\<close>

section \<open>Token expiry\<close>

definition AUTH_COOKIE :: string where
  "AUTH_COOKIE = ''crmrebs_token''"

definition PUBLIC_PATHS :: "string list" where
  "PUBLIC_PATHS = [''/login'']"

text \<open>\<open>String.prototype.split\<close> on a one-character separator.\<close>

fun split_on :: "char \<Rightarrow> string \<Rightarrow> string list" where
  "split_on c [] = [[]]"
| "split_on c (x # xs) =
     (if x = c then [] # split_on c xs
      else (case split_on c xs of w # ws \<Rightarrow> (x # w) # ws | [] \<Rightarrow> [[x]]))"

definition base64url_to_base64 :: "string \<Rightarrow> string" where
  "base64url_to_base64 p =
     map (\<lambda>c. if c = CHR ''-'' then CHR ''+'' else if c = CHR ''_'' then CHR ''/'' else c) p"

definition pad_base64 :: "string \<Rightarrow> string" where
  "pad_base64 b = b @ replicate ((4 - length b mod 4) mod 4) (CHR ''='')"

text \<open>
  \<open>decoded.exp * 1000 < Date.now()\<close>: the product is a double, so it may
  overflow to an infinity; a \<open>NaN\<close> compares false.
\<close>

definition exp_before :: "json \<Rightarrow> rat \<Rightarrow> bool" where
  "exp_before v now =
     (case js_to_number v of
        None \<Rightarrow> False
      | Some x \<Rightarrow> (case finite_number (x * 1000) of Some y \<Rightarrow> y < now | None \<Rightarrow> x < 0))"

definition isJwtExpired :: "(string \<Rightarrow> json option) \<Rightarrow> rat \<Rightarrow> string \<Rightarrow> bool" where
  "isJwtExpired decode now token =
     (case split_on (CHR ''.'') token of
        _ # payload # _ \<Rightarrow>
          if payload = [] then True
          else (case decode (pad_base64 (base64url_to_base64 payload)) of
                  None \<Rightarrow> True
                | Some decoded \<Rightarrow>
                    (let expv = (case decoded of JObj kv \<Rightarrow> obj_get kv ''exp'' | _ \<Rightarrow> None) in
                     if \<not> js_truthy expv then False
                     else (case expv of Some v \<Rightarrow> exp_before v now | None \<Rightarrow> False)))
      | _ \<Rightarrow> True)"

section \<open>The decision\<close>

datatype mw_response = MwNext | MwRedirect string bool

text \<open>
  \<open>PUBLIC_FILE = /\.(.*)$/\<close>: a dot with no line break after it.
\<close>

definition public_file :: "string \<Rightarrow> bool" where
  "public_file p = (CHR ''.'' \<in> set (takeWhile (\<lambda>c. c \<noteq> CHR ''\<newline>'') (rev p)))"

definition bypassed :: "string \<Rightarrow> bool" where
  "bypassed p \<longleftrightarrow>
     prefix ''/_next'' p \<or> prefix ''/api'' p \<or> prefix ''/static'' p \<or> p = ''/favicon.ico''
     \<or> public_file p"

text \<open>
  \<open>MwRedirect target del\<close> is a redirect to \<open>target\<close>; \<open>del\<close> says whether the
  response deletes the auth cookie.
\<close>

definition middleware ::
  "(string \<Rightarrow> json option) \<Rightarrow> rat \<Rightarrow> string \<Rightarrow> string option \<Rightarrow> mw_response" where
  "middleware decode now pathname token =
     (if bypassed pathname then MwNext
      else (case token of
              Some t \<Rightarrow>
                if t = [] then (if pathname \<in> set PUBLIC_PATHS then MwNext else MwRedirect ''/login'' False)
                else if isJwtExpired decode now t then MwRedirect ''/login'' True
                else if pathname = ''/login'' then MwRedirect ''/'' False
                else MwNext
            | None \<Rightarrow> if pathname \<in> set PUBLIC_PATHS then MwNext else MwRedirect ''/login'' False))"

text \<open>
  The browser following redirects: request \<open>i\<close> is made at time \<open>nows ! i\<close>, to
  the previous redirect's target, with the cookie unless the redirect deleted it.
  \<open>mw_settles\<close> holds when a request is let through before the times run out.
\<close>

fun mw_settles ::
  "(string \<Rightarrow> json option) \<Rightarrow> rat list \<Rightarrow> string \<Rightarrow> string option \<Rightarrow> bool" where
  "mw_settles decode [] p tok = False"
| "mw_settles decode (now # nows) p tok =
     (case middleware decode now p tok of
        MwNext \<Rightarrow> True
      | MwRedirect target del \<Rightarrow> mw_settles decode nows target (if del then None else tok))"


text \<open>
  \<open>config.matcher\<close> (lines 57-59): Next.js runs the middleware only on paths
  matching \<open>/((?!_next|api|static|favicon.ico).*)\<close>: a slash not followed by
  one of the four alternatives, where the dot of \<open>favicon.ico\<close> matches any
  character. Other requests go straight to the page.
\<close>

definition config_matcher :: "string \<Rightarrow> bool" where
  "config_matcher p =
     (case p of
        [] \<Rightarrow> False
      | c # r \<Rightarrow>
          c = CHR ''/'' \<and> \<not> prefix ''_next'' r \<and> \<not> prefix ''api'' r \<and> \<not> prefix ''static'' r
          \<and> \<not> (prefix ''favicon'' r \<and> prefix ''ico'' (drop 8 r)))"

definition mw_entry ::
  "(string \<Rightarrow> json option) \<Rightarrow> rat \<Rightarrow> string \<Rightarrow> string option \<Rightarrow> mw_response" where
  "mw_entry decode now pathname token =
     (if config_matcher pathname then middleware decode now pathname token else MwNext)"

text \<open>
  \<open>Array.prototype.join\<close> with a one-character separator, the inverse of
  \<open>split_on\<close> used by the round-trip theorem.
\<close>

fun join_on :: "char \<Rightarrow> string list \<Rightarrow> string" where
  "join_on c [] = []"
| "join_on c [w] = w"
| "join_on c (w # ws) = w @ c # join_on c ws"

section \<open>Lemmas\<close>

lemma login_not_bypassed [simp]: "\<not> bypassed ''/login''" "\<not> bypassed ''/''"
  by (simp_all add: bypassed_def public_file_def)

lemma middleware_login_no_token:
  "middleware d now ''/login'' None = MwNext" "middleware d now ''/login'' (Some []) = MwNext"
  by (simp_all add: middleware_def PUBLIC_PATHS_def)

lemma middleware_redirect_cases:
  "middleware d now p tok = MwRedirect target del \<Longrightarrow>
     (target = ''/login'' \<and> (del \<or> tok = None \<or> tok = Some []))
     \<or> (target = ''/'' \<and> \<not> del \<and> (\<exists>t. tok = Some t \<and> t \<noteq> []))"
  unfolding middleware_def by (cases tok) (auto split: if_splits)

lemma middleware_root:
  "t \<noteq> [] \<Longrightarrow> middleware d now ''/'' (Some t) = MwNext
     \<or> middleware d now ''/'' (Some t) = MwRedirect ''/login'' True"
  by (simp add: middleware_def PUBLIC_PATHS_def)

lemma split_on_append_sep:
  "c \<notin> set w \<Longrightarrow> split_on c (w @ c # rest) = w # split_on c rest"
  by (induction w) auto

lemma split_on_no_sep: "c \<notin> set w \<Longrightarrow> split_on c w = [w]"
  by (induction w) auto

text \<open>
  Claim C36 (liveness). Following the middleware's redirects always ends in a request
  that is let through: whatever the path, the cookie and the clock at each request,
  the third request at the latest is answered with \<open>NextResponse.next()\<close>,
  so there is no redirect loop between \<open>/login\<close> and \<open>/\<close>.
\<close>

theorem mw_redirects_settle: "mw_settles d [t1, t2, t3] p tok"
proof (cases "middleware d t1 p tok")
  case (MwRedirect target del)
  from middleware_redirect_cases [OF this] show ?thesis
  proof
    assume "target = ''/login'' \<and> (del \<or> tok = None \<or> tok = Some [])"
    then show ?thesis using MwRedirect by (auto simp: middleware_login_no_token)
  next
    assume "target = ''/'' \<and> \<not> del \<and> (\<exists>t. tok = Some t \<and> t \<noteq> [])"
    then obtain t where "target = ''/''" "\<not> del" "tok = Some t" "t \<noteq> []" by blast
    then show ?thesis using MwRedirect middleware_root [of t d t2]
      by (auto simp: middleware_login_no_token)
  qed
qed simp

text \<open>
  Claim C37 (safety). A request for a page that is not an asset and not public is let
  through only with a non-empty token that \<open>isJwtExpired\<close> accepts at the
  time of the request.
\<close>

theorem protected_needs_valid_token:
  assumes "middleware d now p tok = MwNext" and "\<not> bypassed p" and "p \<notin> set PUBLIC_PATHS"
  shows "\<exists>t. tok = Some t \<and> t \<noteq> [] \<and> \<not> isJwtExpired d now t"
  using assms unfolding middleware_def by (cases tok) (auto split: if_splits)

theorem protected_needs_valid_token_witness:
  "middleware (\<lambda>_. Some (JObj [(''exp'', JNum 2000000000)])) 1700000000000 ''/chats'' (Some ''h.eyJ.s'') = MwNext
   \<and> \<not> bypassed ''/chats'' \<and> ''/chats'' \<notin> set PUBLIC_PATHS
   \<and> \<not> isJwtExpired (\<lambda>_. Some (JObj [(''exp'', JNum 2000000000)])) 1700000000000 ''h.eyJ.s''"
proof -
  have h: "middleware (\<lambda>_. Some (JObj [(''exp'', JNum 2000000000)])) 1700000000000 ''/chats'' (Some ''h.eyJ.s'') = MwNext"
    "\<not> bypassed ''/chats''" "''/chats'' \<notin> set PUBLIC_PATHS"
    by (simp_all add: middleware_def bypassed_def public_file_def PUBLIC_PATHS_def isJwtExpired_def
        obj_get_def exp_before_def finite_number_def overflow_bound_def)
  show ?thesis using h protected_needs_valid_token [OF h] by auto
qed


text \<open>
  \<open>split\<close> on a one-character separator inverts
  joining with it: a non-empty list of segments without the separator is recovered
  from their join.
\<close>

theorem split_join_roundtrip:
  "ws \<noteq> [] \<Longrightarrow> list_all (\<lambda>w. c \<notin> set w) ws \<Longrightarrow> split_on c (join_on c ws) = ws"
proof (induction ws rule: induct_list012)
  case (2 w)
  then show ?case by (simp add: split_on_no_sep)
next
  case (3 w v ws)
  then have "split_on c (join_on c (v # ws)) = v # ws" by simp
  moreover have "join_on c (w # v # ws) = w @ c # join_on c (v # ws)"
    by simp
  moreover have "c \<notin> set w" using "3.prems" by simp
  ultimately show ?case by (simp add: split_on_append_sep)
qed simp

theorem split_join_roundtrip_witness:
  "[''h'', ''eyJ'', ''s''] \<noteq> [] \<and> list_all (\<lambda>w. CHR ''.'' \<notin> set w) [''h'', ''eyJ'', ''s'']
   \<and> split_on (CHR ''.'') (join_on (CHR ''.'') [''h'', ''eyJ'', ''s'']) = [''h'', ''eyJ'', ''s'']"
proof -
  have h: "[''h'', ''eyJ'', ''s''] \<noteq> []" "list_all (\<lambda>w. CHR ''.'' \<notin> set w) [''h'', ''eyJ'', ''s'']"
    by simp_all
  show ?thesis using h split_join_roundtrip [OF h] by simp
qed

text \<open>
  Claim C40 (bounds). The padding of the base64 payload (\<open>padEnd\<close> to the next
  multiple of 4) adds fewer than 4 characters and makes the length a multiple of 4.
\<close>

theorem pad_base64_bounds:
  "length (pad_base64 b) mod 4 = 0 \<and> length b \<le> length (pad_base64 b)
   \<and> length (pad_base64 b) < length b + 4"
proof -
  obtain q r where qr: "length b div 4 = q" "length b mod 4 = r" by blast
  have n: "length b = 4 * q + r" and r: "r < 4" using qr by auto
  have len: "length (pad_base64 b) = length b + (4 - r) mod 4"
    using qr by (simp add: pad_base64_def)
  show ?thesis
  proof (cases "r = 0")
    case True
    then show ?thesis using len n by simp
  next
    case False
    then have "(4 - r) mod 4 = 4 - r" using r by simp
    then have "length (pad_base64 b) = 4 * (q + 1)" using len n r by simp
    then show ?thesis using n r False by simp
  qed
qed

text \<open>
  The matcher skips only what the function lets through itself, apart from
  paths \<open>/favicon?ico\<dots>\<close> with another character than the dot; so on every
  other path the middleware as deployed decides as \<open>middleware\<close> does.
\<close>

lemma matcher_skips_bypassed:
  "\<not> config_matcher (CHR ''/'' # r) \<Longrightarrow> bypassed (CHR ''/'' # r) \<or> (prefix ''favicon'' r \<and> prefix ''ico'' (drop 8 r))"
  by (auto simp: config_matcher_def bypassed_def)

lemma mw_entry_middleware:
  assumes "\<not> (prefix ''favicon'' r \<and> prefix ''ico'' (drop 8 r))"
  shows "mw_entry decode now (CHR ''/'' # r) tok = middleware decode now (CHR ''/'' # r) tok"
  using matcher_skips_bypassed [of r] assms by (auto simp: mw_entry_def middleware_def)

lemma app_routes_matched:
  "list_all config_matcher [''/'', ''/chats'', ''/login'', ''/history'']"
  by (simp add: config_matcher_def)

end
