(* ===== verification/Api_Login.thy ===== *)
theory Api_Login
  imports Queue_Page Middleware
begin

text \<open>
  The HTTP transport of \<open>src/frontend/src/lib/api.ts\<close> (the function
  \<open>request\<close> every endpoint wrapper calls) and the login page \<open>LoginPage\<close>
  (the first module of \<open>src/frontend/src/pages/login.tsx\<close>). A response is a
  record of its status, status text and body (\<open>None\<close> when the body is not
  JSON); \<open>request\<close> turns it into the value the wrapper resolves with or the
  \<open>ApiError\<close> it throws. The login page's state is a record and
  \<open>login_step\<close> its reaction to one event; the response of \<open>login\<close> arrives as
  an event carrying the outcome of \<open>request\<close>.
\<close>

section \<open>The transport\<close>

record http_response =
  resp_status :: nat
  resp_statusText :: string
  resp_body :: "json option"

datatype fetch_result = Response http_response | NetworkError string

definition resp_ok :: "http_response \<Rightarrow> bool" where
  "resp_ok r \<longleftrightarrow> 200 \<le> resp_status r \<and> resp_status r \<le> 299"

text \<open>\<open>String(v)\<close> for a JSON value, as \<open>new Error(v)\<close> applies it.\<close>

fun js_string_of :: "json \<Rightarrow> string" where
  "js_string_of JNull = ''null''"
| "js_string_of (JBool b) = (if b then ''true'' else ''false'')"
| "js_string_of (JNum q) = js_number_to_string q"
| "js_string_of (JStr s) = s"
| "js_string_of (JArr xs) =
     join_on (CHR '','') (map (\<lambda>x. if x = JNull then [] else js_string_of x) xs)"
| "js_string_of (JObj _) = ''[object Object]''"

text \<open>
  \<open>(payload as { error?: string })?.error\<close>: only an object has the field;
  \<open>undefined\<close> and \<open>null\<close> are \<open>None\<close>.
\<close>

definition payload_error :: "json option \<Rightarrow> json option" where
  "payload_error p =
     (case p of
        Some (JObj kv) \<Rightarrow> (case obj_get kv ''error'' of Some JNull \<Rightarrow> None | v \<Rightarrow> v)
      | _ \<Rightarrow> None)"

text \<open>
  The message of the thrown error: \<open>payload.error ?? response.statusText ??
  "Request failed"\<close>. \<open>statusText\<close> is always a string, so the last fallback is
  never taken.
\<close>

definition error_message :: "json option \<Rightarrow> string \<Rightarrow> string" where
  "error_message p statusText =
     (case payload_error p of Some v \<Rightarrow> js_string_of v | None \<Rightarrow> statusText)"

text \<open>
  \<open>request\<close>: a rejected \<open>fetch\<close> propagates its error (no status); a non-2xx
  response throws an \<open>ApiError\<close> with the status; 204 resolves with
  \<open>undefined\<close>; otherwise the body is parsed, and a body that is not JSON throws
  the parser's \<open>SyntaxError\<close>, whose message \<open>syntax_msg\<close> the engine chooses.
\<close>

definition request :: "string \<Rightarrow> fetch_result \<Rightarrow> api_error + json option" where
  "request syntax_msg res =
     (case res of
        NetworkError m \<Rightarrow> Inl (ApiError None m)
      | Response r \<Rightarrow>
          if \<not> resp_ok r then
            Inl (ApiError (Some (resp_status r)) (error_message (resp_body r) (resp_statusText r)))
          else if resp_status r = 204 then Inr None
          else (case resp_body r of
                  Some j \<Rightarrow> Inr (Some j)
                | None \<Rightarrow> Inl (ApiError None syntax_msg)))"

text \<open>
  \<open>sendWhatsApp\<close> as the queue page sees it: it resolves or throws an error
  whose \<open>message\<close> the page shows.
\<close>

definition send_outcome_of :: "api_error + json option \<Rightarrow> send_outcome" where
  "send_outcome_of x = (case x of Inr _ \<Rightarrow> SendOk | Inl (ApiError _ m) \<Rightarrow> SendFailed m)"

text \<open>
  \<open>next.config.mjs\<close>: the rewrite of \<open>/api/:path*\<close> to the backend, which
  serves the browser's relative requests.
\<close>

definition BACKEND_ORIGIN :: string where
  "BACKEND_ORIGIN = ''https://crmrebs-backend-746815019501.europe-west1.run.app''"

definition api_rewrite :: "string \<Rightarrow> string" where
  "api_rewrite p =
     (if p = ''/api'' then BACKEND_ORIGIN @ ''/api''
      else if prefix ''/api/'' p then BACKEND_ORIGIN @ ''/api/'' @ drop 5 p else p)"

text \<open>
  The endpoint wrappers (lines 54-99): the path, method and JSON body each one
  passes to \<open>request\<close>, which prefixes \<open>BASE_URL\<close> (lines 7-10: the
  backend's URL on the server, the relative root in the browser, unless
  \<open>NEXT_PUBLIC_BACKEND_URL\<close> is set). The property id is interpolated into
  the path as it is.
\<close>

datatype api_op =
    FetchNewLeads
  | FetchHistoryLeads
  | SendWhatsApp string
  | Login string
  | FetchLeadMessages string
  | SendLeadReply string string
  | MarkConversationRead string

record http_request =
  req_url :: string
  req_method :: string
  req_body :: "json option"

definition BASE_URL :: "bool \<Rightarrow> string option \<Rightarrow> string" where
  "BASE_URL server env =
     (case env of
        Some u \<Rightarrow> u
      | None \<Rightarrow> if server then BACKEND_ORIGIN else [])"

definition api_request :: "string \<Rightarrow> api_op \<Rightarrow> http_request" where
  "api_request base op =
     (case op of
        FetchNewLeads \<Rightarrow> \<lparr>req_url = base @ ''/api/leads/new'', req_method = ''GET'', req_body = None\<rparr>
      | FetchHistoryLeads \<Rightarrow> \<lparr>req_url = base @ ''/api/leads/history'', req_method = ''GET'', req_body = None\<rparr>
      | SendWhatsApp pid \<Rightarrow>
          \<lparr>req_url = base @ ''/api/send-whatsapp'', req_method = ''POST'',
           req_body = Some (JObj [(''property_id'', JStr pid)])\<rparr>
      | Login pw \<Rightarrow>
          \<lparr>req_url = base @ ''/api/login'', req_method = ''POST'',
           req_body = Some (JObj [(''password'', JStr pw)])\<rparr>
      | FetchLeadMessages pid \<Rightarrow>
          \<lparr>req_url = base @ ''/api/leads/'' @ pid @ ''/messages'', req_method = ''GET'', req_body = None\<rparr>
      | SendLeadReply pid m \<Rightarrow>
          \<lparr>req_url = base @ ''/api/leads/'' @ pid @ ''/reply'', req_method = ''POST'',
           req_body = Some (JObj [(''message'', JStr m)])\<rparr>
      | MarkConversationRead pid \<Rightarrow>
          \<lparr>req_url = base @ ''/api/leads/'' @ pid @ ''/mark-read'', req_method = ''POST'',
           req_body = Some (JObj [(''read'', JBool True)])\<rparr>)"

text \<open>The path a server routes on: the URL up to its query string.\<close>

definition url_path :: "string \<Rightarrow> string" where
  "url_path u = takeWhile (\<lambda>c. c \<noteq> CHR ''?'' \<and> c \<noteq> CHR ''#'') u"

fun path_ids :: "api_op \<Rightarrow> string list" where
  "path_ids (FetchLeadMessages pid) = [pid]"
| "path_ids (SendLeadReply pid _) = [pid]"
| "path_ids (MarkConversationRead pid) = [pid]"
| "path_ids _ = []"

definition id_safe :: "string \<Rightarrow> bool" where
  "id_safe pid \<longleftrightarrow> pid \<noteq> [] \<and> (\<forall>c \<in> set pid. c \<notin> {CHR ''/'', CHR ''?'', CHR ''#''})"

section \<open>The login page\<close>

record login_page =
  password :: string
  isSubmitting :: bool
  login_error :: "string option"
  login_calls :: "string list"
  login_nav :: "string option"

datatype login_event =
    PasswordInput string
  | SubmitLogin
  | LoginSettles "api_error + json option"

text \<open>
  The mount effect: \<open>document.cookie.split("; ").find(part =>
  part.startsWith("crmrebs_token="))\<close>; a found part is a non-empty string, so
  any such cookie redirects to the dashboard.
\<close>

fun split_seq_aux :: "string \<Rightarrow> string \<Rightarrow> string \<Rightarrow> string list" where
  "split_seq_aux sep [] cur = [rev cur]"
| "split_seq_aux sep (c # cs) cur =
     (if sep \<noteq> [] \<and> prefix sep (c # cs)
      then rev cur # split_seq_aux sep (drop (length sep - 1) cs) []
      else split_seq_aux sep cs (c # cur))"

definition cookie_has_token :: "string \<Rightarrow> bool" where
  "cookie_has_token cookie =
     list_ex (prefix (AUTH_COOKIE @ ''='')) (split_seq_aux ''; '' cookie [])"

definition login_mount :: "string \<Rightarrow> login_page" where
  "login_mount cookie =
     \<lparr>password = [], isSubmitting = False, login_error = None, login_calls = [],
      login_nav = (if cookie_has_token cookie then Some ''/'' else None)\<rparr>"

text \<open>
  The form's submit: the button is disabled while submitting, and the input's
  \<open>required minLength={6}\<close> blocks a shorter password (lengths in characters
  of the model's strings, which are UTF-16 code units for ASCII passwords).
\<close>

definition handleSubmit :: "login_page \<Rightarrow> login_page" where
  "handleSubmit s =
     s\<lparr>isSubmitting := True, login_error := None, login_calls := login_calls s @ [password s]\<rparr>"

definition login_settled :: "api_error + json option \<Rightarrow> login_page \<Rightarrow> login_page" where
  "login_settled x s =
     (case x of
        Inr _ \<Rightarrow> s\<lparr>login_nav := Some ''/''\<rparr>
      | Inl (ApiError _ m) \<Rightarrow> s\<lparr>login_error := Some m, isSubmitting := False\<rparr>)"

definition login_step :: "login_page \<Rightarrow> login_event \<Rightarrow> login_page" where
  "login_step s e =
     (case e of
        PasswordInput v \<Rightarrow> s\<lparr>password := v\<rparr>
      | SubmitLogin \<Rightarrow>
          if \<not> isSubmitting s \<and> 6 \<le> length (password s) then handleSubmit s else s
      | LoginSettles x \<Rightarrow> if isSubmitting s then login_settled x s else s)"

definition login_run :: "login_page \<Rightarrow> login_event list \<Rightarrow> login_page" where
  "login_run = foldl login_step"

text \<open>\<open>{error ? <p>{error}</p> : null}\<close>: an empty message shows nothing.\<close>

definition login_error_shown :: "login_page \<Rightarrow> bool" where
  "login_error_shown s = (case login_error s of Some m \<Rightarrow> m \<noteq> [] | None \<Rightarrow> False)"


section \<open>Lemmas\<close>

lemma request_rejected:
  "\<not> resp_ok r \<Longrightarrow>
     request m (Response r)
       = Inl (ApiError (Some (resp_status r)) (error_message (resp_body r) (resp_statusText r)))"
  by (simp add: request_def)

lemma login_success_navigates:
  "isSubmitting s \<Longrightarrow> login_nav (login_step s (LoginSettles (Inr v))) = Some ''/''"
  by (simp add: login_step_def login_settled_def)

text \<open>
  Claim C35 (error). A rejected login whose response has an empty status text
  (as every HTTP/2 response has) and no \<open>error\<close> field in its body throws an
  error with the empty message; the page stores it, re-enables the button, and
  \<open>{error ? ... : null}\<close> renders nothing, so the operator sees no reason.
\<close>

theorem login_failure_silent:
  assumes "isSubmitting s" and "\<not> resp_ok r" and "resp_statusText r = []"
    and "payload_error (resp_body r) = None"
  shows "\<not> login_error_shown (login_step s (LoginSettles (request m (Response r))))
         \<and> \<not> isSubmitting (login_step s (LoginSettles (request m (Response r))))
         \<and> login_nav (login_step s (LoginSettles (request m (Response r)))) = login_nav s"
  using assms by (simp add: login_step_def login_settled_def request_rejected error_message_def
      login_error_shown_def)

theorem login_failure_silent_witness:
  "isSubmitting (login_run (login_mount []) [PasswordInput ''secret1'', SubmitLogin])
   \<and> \<not> resp_ok \<lparr>resp_status = 401, resp_statusText = [], resp_body = None\<rparr>
   \<and> \<not> login_error_shown (login_step (login_run (login_mount []) [PasswordInput ''secret1'', SubmitLogin])
          (LoginSettles (request ''Unexpected end of JSON input''
             (Response \<lparr>resp_status = 401, resp_statusText = [], resp_body = None\<rparr>))))"
proof -
  have h: "isSubmitting (login_run (login_mount []) [PasswordInput ''secret1'', SubmitLogin])"
    "\<not> resp_ok \<lparr>resp_status = 401, resp_statusText = [], resp_body = None\<rparr>"
    "resp_statusText \<lparr>resp_status = 401, resp_statusText = [], resp_body = None\<rparr> = []"
    "payload_error (resp_body \<lparr>resp_status = 401, resp_statusText = [], resp_body = None\<rparr>) = None"
    by (simp_all add: login_run_def login_step_def login_mount_def handleSubmit_def resp_ok_def
        payload_error_def cookie_has_token_def AUTH_COOKIE_def)
  show ?thesis using h login_failure_silent [OF h, of "''Unexpected end of JSON input''"] by simp
qed

section \<open>Requests of the endpoint wrappers\<close>

text \<open>
  With property ids that contain no \<open>/\<close>, \<open>?\<close> or \<open>#\<close>, distinct
  operations send distinct requests; an id containing them is interpolated
  unescaped and can address another lead's resource.
\<close>

lemma append_slash_cancel:
  "CHR ''/'' \<notin> set a \<Longrightarrow> CHR ''/'' \<notin> set b \<Longrightarrow> a @ CHR ''/'' # x = b @ CHR ''/'' # y \<Longrightarrow> a = b \<and> x = y"
proof (induction a arbitrary: b)
  case Nil
  then show ?case by (cases b) auto
next
  case (Cons c a)
  then show ?case by (cases b) auto
qed

lemma id_path_cancel:
  "id_safe p \<Longrightarrow> id_safe q \<Longrightarrow> p @ CHR ''/'' # x = q @ CHR ''/'' # y \<Longrightarrow> p = q \<and> x = y"
  using append_slash_cancel [of p q x y] by (auto simp: id_safe_def)

lemma api_request_injective:
  "list_all id_safe (path_ids o1 @ path_ids o2) \<Longrightarrow> api_request base o1 = api_request base o2 \<Longrightarrow> o1 = o2"
  by (cases o1; cases o2)
     (auto simp: api_request_def dest: id_path_cancel arg_cong [of _ _ length])

lemma url_path_base:
  "list_all (\<lambda>c. c \<noteq> CHR ''?'' \<and> c \<noteq> CHR ''#'') base \<Longrightarrow> url_path (base @ u) = base @ url_path u"
  by (simp add: url_path_def list_all_iff takeWhile_append2)

lemma unsafe_id_collides:
  "list_all (\<lambda>c. c \<noteq> CHR ''?'' \<and> c \<noteq> CHR ''#'') base \<Longrightarrow>
     url_path (req_url (api_request base (FetchLeadMessages ''p2/messages?'')))
       = url_path (req_url (api_request base (FetchLeadMessages ''p2'')))
     \<and> \<not> id_safe ''p2/messages?''"
  by (simp add: api_request_def url_path_base) (simp add: url_path_def id_safe_def)

text \<open>
  Without \<open>NEXT_PUBLIC_BACKEND_URL\<close>, the browser's relative request,
  rewritten by \<open>next.config.mjs\<close>, reaches the URL the server requests
  directly, for every operation; and the middleware lets every such request
  through without a token check.
\<close>

lemma api_request_rewrite:
  "api_rewrite (req_url (api_request (BASE_URL False None) op)) = req_url (api_request (BASE_URL True None) op)"
  by (cases op) (simp_all add: api_request_def BASE_URL_def api_rewrite_def)

lemma api_request_bypassed: "bypassed (req_url (api_request (BASE_URL False None) op))"
  by (cases op) (simp_all add: api_request_def BASE_URL_def bypassed_def)

end
