(* ===== verification/Timestamps.thy ===== *)
theory Timestamps
  imports Grouping Chats_Page
begin

text \<open>
  The timestamp formatters \<open>formatFullDateTime\<close> and \<open>formatMessageTimestamp\<close>
  (\<open>src/frontend/src/lib/dates.ts\<close>, lines 36-58) and the chats page's rendering
  of each row's time (\<open>pages/chats.tsx\<close>, lines 198-203). They share
  \<open>ensureDate\<close> with \<open>formatDayHeader\<close>; date-fns \<open>format\<close> with a pattern is
  the parameter \<open>fmt\<close> (it is called only on a valid date, since the model throws
  \<open>RangeError\<close> for an invalid one first), and \<open>new Date()\<close> at render time is
  the parameter \<open>now\<close>. Rendering a list of rows evaluates the rows in order, and
  the first throw aborts the render.
\<close>

section \<open>Formatters\<close>

definition bullet :: string where
  "bullet = '' '' @ utf8 [226, 128, 162] @ '' ''"

definition formatFullDateTime :: "host \<Rightarrow> (int \<Rightarrow> string \<Rightarrow> string) \<Rightarrow> string \<Rightarrow> js_error + string" where
  "formatFullDateTime h fmt value =
     (case ensureDate h value of
        None \<Rightarrow> Inr ''Unknown time''
      | Some None \<Rightarrow> Inl (RangeError ''Invalid time value'')
      | Some (Some date) \<Rightarrow> Inr (fmt date (''d MMM yyyy'' @ bullet @ ''HH:mm'')))"

definition formatMessageTimestamp ::
  "host \<Rightarrow> (int \<Rightarrow> string \<Rightarrow> string) \<Rightarrow> int \<Rightarrow> string \<Rightarrow> js_error + string" where
  "formatMessageTimestamp h fmt now value =
     (case ensureDate h value of
        None \<Rightarrow> Inr []
      | Some None \<Rightarrow> Inl (RangeError ''Invalid time value'')
      | Some (Some date) \<Rightarrow>
          if calendar_day h now - calendar_day h date = 0 then Inr (fmt date ''HH:mm'')
          else Inr (fmt date (if same_year h date now then ''d MMM'' @ bullet @ ''HH:mm''
                              else ''d MMM yyyy'' @ bullet @ ''HH:mm'')))"

section \<open>Rendering\<close>

text \<open>\<open>items.map(render)\<close> inside JSX: the first row that throws aborts the render.\<close>

fun render_list :: "('a \<Rightarrow> js_error + 'b) \<Rightarrow> 'a list \<Rightarrow> js_error + 'b list" where
  "render_list f [] = Inr []"
| "render_list f (x # xs) =
     (case f x of
        Inl e \<Rightarrow> Inl e
      | Inr y \<Rightarrow> (case render_list f xs of Inl e \<Rightarrow> Inl e | Inr ys \<Rightarrow> Inr (y # ys)))"

text \<open>\<open>timestamp ? formatMessageTimestamp(timestamp) : null\<close> for one chat row.\<close>

definition chats_row_time ::
  "host \<Rightarrow> (int \<Rightarrow> string \<Rightarrow> string) \<Rightarrow> int \<Rightarrow> lead \<Rightarrow> js_error + string option" where
  "chats_row_time h fmt now l =
     (let ts = getActivityTimestamp l in
      if ts = [] then Inr None
      else (case formatMessageTimestamp h fmt now ts of Inl e \<Rightarrow> Inl e | Inr t \<Rightarrow> Inr (Some t)))"

definition chats_render_times ::
  "(string \<Rightarrow> string) \<Rightarrow> host \<Rightarrow> (int \<Rightarrow> string \<Rightarrow> string) \<Rightarrow> int \<Rightarrow> chats_page
     \<Rightarrow> js_error + string option list" where
  "chats_render_times lower h fmt now s = render_list (chats_row_time h fmt now) (chats_rows lower h s)"


section \<open>Example\<close>

text \<open>
  A chat whose \<open>last_message_at\<close> is an RFC 2822 date: \<open>Date.parse\<close> (the
  sort key) accepts it, \<open>parseISO\<close> (the formatter) does not.
\<close>

definition ex_rfc_time :: string where
  "ex_rfc_time = ''Tue, 02 Jan 2024 10:00:00 GMT''"

definition ex_host_rfc :: host where
  "ex_host_rfc = ex_host\<lparr>parse_date := (\<lambda>s. if s = ex_rfc_time then Some 1704189600000 else None)\<rparr>"

definition ex_chats_rfc :: chats_page where
  "ex_chats_rfc = chats_init\<lparr>chats_data := Some [ex_lead_p1\<lparr>last_message_at := Some ex_rfc_time\<rparr>],
                            chats_validating := False\<rparr>"

section \<open>Lemmas\<close>

lemma render_list_Inl:
  "x \<in> set xs \<Longrightarrow> f x = Inl e \<Longrightarrow> \<exists>e'. render_list f xs = Inl e'"
proof (induction xs)
  case Nil
  then show ?case by simp
next
  case (Cons y ys)
  show ?case
  proof (cases "f y")
    case (Inl e')
    then show ?thesis by simp
  next
    case (Inr v)
    then have "x \<in> set ys" using Cons.prems by auto
    then obtain e' where "render_list f ys = Inl e'" using Cons.IH Cons.prems(2) by blast
    then show ?thesis using Inr by simp
  qed
qed

text \<open>
  Claim C3 (error). The chats page does not render when one listed chat has an
  activity timestamp that \<open>parseISO\<close> rejects: \<open>formatMessageTimestamp\<close>
  reaches date-fns \<open>format\<close> with an invalid date, which throws
  \<open>RangeError\<close>, and the row's \<open>map\<close> aborts the whole list. The sort key uses
  \<open>Date.parse\<close>, which may accept the same string, so the chat is listed.
\<close>

theorem chats_render_throws:
  assumes "l \<in> set (chats_rows lower h s)" and "getActivityTimestamp l \<noteq> []"
    and "parse_iso h (getActivityTimestamp l) = None"
  shows "\<exists>e. chats_render_times lower h fmt now s = Inl e"
proof -
  have "chats_row_time h fmt now l = Inl (RangeError ''Invalid time value'')"
    using assms(2,3) by (simp add: chats_row_time_def formatMessageTimestamp_def ensureDate_def Let_def)
  from render_list_Inl [of l _ "chats_row_time h fmt now", OF assms(1) this]
  show ?thesis unfolding chats_render_times_def .
qed

theorem chats_render_throws_witness:
  "ex_lead_p1\<lparr>last_message_at := Some ex_rfc_time\<rparr> \<in> set (chats_rows id ex_host_rfc ex_chats_rfc)
   \<and> getActivityTimestamp (ex_lead_p1\<lparr>last_message_at := Some ex_rfc_time\<rparr>) \<noteq> []
   \<and> parse_iso ex_host_rfc (getActivityTimestamp (ex_lead_p1\<lparr>last_message_at := Some ex_rfc_time\<rparr>)) = None
   \<and> getActivityValue ex_host_rfc (ex_lead_p1\<lparr>last_message_at := Some ex_rfc_time\<rparr>) = 1704189600000
   \<and> (\<exists>e. chats_render_times id ex_host_rfc (\<lambda>_ _. []) 1704196800000 ex_chats_rfc = Inl e)"
proof -
  have h: "ex_lead_p1\<lparr>last_message_at := Some ex_rfc_time\<rparr> \<in> set (chats_rows id ex_host_rfc ex_chats_rfc)"
    "getActivityTimestamp (ex_lead_p1\<lparr>last_message_at := Some ex_rfc_time\<rparr>) \<noteq> []"
    "parse_iso ex_host_rfc (getActivityTimestamp (ex_lead_p1\<lparr>last_message_at := Some ex_rfc_time\<rparr>)) = None"
    "getActivityValue ex_host_rfc (ex_lead_p1\<lparr>last_message_at := Some ex_rfc_time\<rparr>) = 1704189600000"
    by (simp_all add: chats_rows_def chats_sorted_def chats_searched_def ex_chats_rfc_def chats_init_def
        applyLeadFilters_def lead_matches_def clause_defs DEFAULT_LEAD_FILTERS_def js_sort_def getActivityTimestamp_def
        getActivityValue_def ex_host_rfc_def ex_host_def ex_rfc_time_def)
  show ?thesis using h chats_render_throws [OF h(1-3), of "\<lambda>_ _. []" 1704196800000] by simp
qed

end
