(* ===== verification/Page_Chrome.thy ===== *)
theory Page_Chrome
  imports Chats_Page Api_Login
begin

text \<open>
  The page chrome: \<open>PageShell\<close> (\<open>src/unnamed/part_002\<close>: the navigation with its
  active item and the "Log out" button), \<open>InlineNotice\<close>
  (\<open>src/unnamed/part_003\<close>) and the notices the queue and chats pages render
  with it, the \<open>/history\<close> route's \<open>getServerSideProps\<close> (\<open>dates.ts\<close>, lines
  65-78), and the queue page's "Copy" button for a lister's phone (\<open>dates.ts\<close>,
  \<open>copiedId\<close> and \<open>handleCopy\<close>). A rendered component is a record of what it
  shows; class names are kept only where they depend on data. The browser's
  cookie jar is modelled as far as the log-out relies on it: \<open>document.cookie\<close>
  lists the script-visible cookies and cannot delete an \<open>httpOnly\<close> one.
\<close>

section \<open>PageShell: navigation\<close>

definition NAV_ITEMS :: "(string \<times> string) list" where
  "NAV_ITEMS = [(''/'', ''Queue''), (''/chats'', ''Chats'')]"

definition nav_isActive :: "string \<Rightarrow> string \<Rightarrow> bool" where
  "nav_isActive pathname href =
     (if href = ''/'' then pathname = ''/'' \<or> pathname = [] else pathname = href)"

text \<open>
  What \<open>PageShell\<close> renders: the title, the subtitle when it is truthy, each
  navigation link with whether it is highlighted, and whether the actions slot
  is shown (\<open>Boolean(actions)\<close>).
\<close>

record shell_view =
  sv_title :: string
  sv_subtitle :: "string option"
  sv_nav :: "(string \<times> string \<times> bool) list"
  sv_actions :: bool

definition PageShell :: "string \<Rightarrow> string \<Rightarrow> bool \<Rightarrow> string \<Rightarrow> shell_view" where
  "PageShell ttl subtitle hasActions pathname =
     \<lparr>sv_title = ttl, sv_subtitle = (if subtitle = [] then None else Some subtitle),
      sv_nav = map (\<lambda>(href, label). (href, label, nav_isActive pathname href)) NAV_ITEMS,
      sv_actions = hasActions\<rparr>"

section \<open>PageShell: log-out and the cookie jar\<close>

record cookie =
  ck_name :: string
  ck_value :: string
  ck_httpOnly :: bool

text \<open>\<open>Array.prototype.join\<close> with a separator string.\<close>

fun join_seq :: "string \<Rightarrow> string list \<Rightarrow> string" where
  "join_seq sep [] = []"
| "join_seq sep [w] = w"
| "join_seq sep (w # ws) = w @ sep @ join_seq sep ws"

text \<open>
  The browser's side of \<open>document.cookie\<close>: reading it gives the script-visible
  cookies as \<open>name=value\<close> joined by \<open>"; "\<close>; assigning an already expired
  cookie deletes the script-visible cookie of that name and leaves an
  \<open>httpOnly\<close> one in place. A request carries the jar's cookie of a name.
\<close>

definition document_cookie :: "cookie list \<Rightarrow> string" where
  "document_cookie jar =
     join_seq ''; '' (map (\<lambda>c. ck_name c @ ''='' @ ck_value c) (filter (\<lambda>c. \<not> ck_httpOnly c) jar))"

definition expire_cookie :: "string \<Rightarrow> cookie list \<Rightarrow> cookie list" where
  "expire_cookie n jar = filter (\<lambda>c. ck_name c \<noteq> n \<or> ck_httpOnly c) jar"

definition request_cookie :: "string \<Rightarrow> cookie list \<Rightarrow> string option" where
  "request_cookie n jar = map_option ck_value (find (\<lambda>c. ck_name c = n) jar)"

definition cookie_ok :: "cookie \<Rightarrow> bool" where
  "cookie_ok c \<longleftrightarrow>
     CHR '';'' \<notin> set (ck_name c) \<and> CHR ''='' \<notin> set (ck_name c) \<and> CHR '';'' \<notin> set (ck_value c)"

text \<open>
  The "Log out" button: \<open>document.cookie = "crmrebs_token=; expires=Thu, 01 Jan
  1970 00:00:00 GMT; path=/"\<close>, then \<open>router.replace("/login")\<close>. The result is
  the jar afterwards and the route navigated to.
\<close>

definition logout :: "cookie list \<Rightarrow> cookie list \<times> string" where
  "logout jar = (expire_cookie AUTH_COOKIE jar, ''/login'')"

section \<open>InlineNotice\<close>

definition toneStyles :: "tone \<Rightarrow> string" where
  "toneStyles t =
     (case t of
        Info \<Rightarrow> ''bg-slate-100 text-slate-700 border-slate-200''
      | Success \<Rightarrow> ''bg-emerald-50 text-emerald-700 border-emerald-200''
      | Error \<Rightarrow> ''bg-rose-50 text-rose-700 border-rose-200'')"

text \<open>
  What \<open>InlineNotice\<close> renders: the box's classes, the title paragraph when the
  title is truthy, and the description with its class (\<open>clsx(title &&
  "mt-1")\<close>) when the description is truthy. An absent title or description is
  the empty string, which is falsy as well; every call site passes a tone.
\<close>

record notice_view =
  nv_class :: string
  nv_title :: "string option"
  nv_desc :: "(string \<times> string) option"

definition InlineNotice :: "tone \<Rightarrow> string \<Rightarrow> string \<Rightarrow> notice_view" where
  "InlineNotice t ttl desc =
     \<lparr>nv_class = ''rounded-lg border px-4 py-3 text-sm '' @ toneStyles t,
      nv_title = (if ttl = [] then None else Some ttl),
      nv_desc = (if desc = [] then None
                 else Some (if ttl = [] then [] else ''mt-1'', desc))\<rparr>"

section \<open>The pages' notices\<close>

text \<open>
  \<open>(error as Error).message ?? "Please refresh or sign in again."\<close>: the message
  of an \<open>Error\<close> is always a string, so the fallback is never taken.
\<close>

definition api_error_message :: "api_error \<Rightarrow> string" where
  "api_error_message e = (case e of ApiError _ m \<Rightarrow> m)"

text \<open>
  The queue page's notices, in order (\<open>dates.ts\<close>, lines 337-357). The file's
  literals for the ellipsis and the apostrophe are stored double-encoded: their
  UTF-8 bytes were read as Windows-1252 and encoded again, so the page shows the
  three characters a-circumflex, euro sign, broken bar (resp. trade mark sign)
  where one character was meant.
\<close>

definition queue_notices :: "queue_page \<Rightarrow> notice_view list" where
  "queue_notices s =
     (case banner s of None \<Rightarrow> [] | Some b \<Rightarrow> [InlineNotice (banner_tone b) [] (banner_text b)])
     @ (if isLoading s
        then [InlineNotice Info [] (''Checking for new leads'' @ utf8 [195, 162, 226, 130, 172, 194, 166])]
        else [])
     @ (case fetch_error s of
          None \<Rightarrow> []
        | Some e \<Rightarrow>
            if isLoading s then []
            else [InlineNotice Error
                    (''We couldn'' @ utf8 [195, 162, 226, 130, 172, 226, 132, 162] @ ''t load the queue.'')
                    (api_error_message e)])"

definition chats_loading :: "chats_page \<Rightarrow> bool" where
  "chats_loading s \<longleftrightarrow> chats_validating s \<and> chats_data s = None"

text \<open>The chats page's notices (\<open>chats.tsx\<close>, lines 175-188).\<close>

definition chats_notices :: "chats_page \<Rightarrow> notice_view list" where
  "chats_notices s =
     (if chats_loading s
      then [InlineNotice Info [] (''Loading conversations'' @ utf8 [226, 128, 166])]
      else [])
     @ (case chats_error s of
          None \<Rightarrow> []
        | Some e \<Rightarrow>
            if chats_loading s then []
            else [InlineNotice Error (''We couldn'' @ utf8 [226, 128, 153] @ ''t load your chats.'')
                    (api_error_message e)])"

section \<open>The history route\<close>

record ssp_redirect =
  destination :: string
  permanent :: bool

definition history_getServerSideProps :: ssp_redirect where
  "history_getServerSideProps = \<lparr>destination = ''/chats'', permanent = False\<rparr>"

section \<open>The queue page's copy button\<close>

text \<open>
  The slice of the queue page's state that only \<open>handleCopy\<close> and its timers
  touch: \<open>copiedId\<close>, the clipboard writes, and the pending
  \<open>setTimeout(() => setCopiedId(null), 2000)\<close> callbacks by due time. All
  timers have the same delay, so they fire in the order they were set.
\<close>

record copy_badge =
  copiedId :: "string option"
  clipboard :: "string list"
  copy_timers :: "int list"

datatype copy_event = CopyClick int lead | CopyTimerFires

definition copy_init :: copy_badge where
  "copy_init = \<lparr>copiedId = None, clipboard = [], copy_timers = []\<rparr>"

definition handleCopy :: "int \<Rightarrow> lead \<Rightarrow> copy_badge \<Rightarrow> copy_badge" where
  "handleCopy now l s =
     (case lister_phone l of
        None \<Rightarrow> s
      | Some ph \<Rightarrow>
          if ph = [] then s
          else s\<lparr>clipboard := clipboard s @ [ph], copiedId := Some (property_id l),
                 copy_timers := copy_timers s @ [now + 2000]\<rparr>)"

definition copy_step :: "copy_badge \<Rightarrow> copy_event \<Rightarrow> copy_badge" where
  "copy_step s e =
     (case e of
        CopyClick now l \<Rightarrow> handleCopy now l s
      | CopyTimerFires \<Rightarrow>
          (case copy_timers s of
             [] \<Rightarrow> s
           | _ # ts \<Rightarrow> s\<lparr>copiedId := None, copy_timers := ts\<rparr>))"

definition copy_run :: "copy_badge \<Rightarrow> copy_event list \<Rightarrow> copy_badge" where
  "copy_run = foldl copy_step"

text \<open>The button is rendered only for a truthy phone; its label.\<close>

definition copy_label :: "copy_badge \<Rightarrow> lead \<Rightarrow> string option" where
  "copy_label s l =
     (case lister_phone l of
        None \<Rightarrow> None
      | Some ph \<Rightarrow>
          if ph = [] then None
          else Some (if copiedId s = Some (property_id l) then ''Copied'' else ''Copy''))"


section \<open>Example inputs\<close>

text \<open>A jar with a script-visible session token, and two leads with phones.\<close>

definition ex_jar :: "cookie list" where
  "ex_jar = [\<lparr>ck_name = ''theme'', ck_value = ''dark'', ck_httpOnly = False\<rparr>,
             \<lparr>ck_name = ''crmrebs_token'', ck_value = ''a.eyJleHAiOjF9.s'', ck_httpOnly = False\<rparr>]"

definition ex_phone_a :: lead where
  "ex_phone_a = ex_lead_p1\<lparr>property_id := ''a'', lister_phone := Some ''0711''\<rparr>"

definition ex_phone_b :: lead where
  "ex_phone_b = ex_lead_p1\<lparr>property_id := ''b'', lister_phone := Some ''0722''\<rparr>"


section \<open>Reading and clearing the session cookie\<close>

text \<open>
  Splitting \<open>document.cookie\<close> at \<open>"; "\<close> recovers the \<open>name=value\<close> parts when
  no name or value contains a semicolon, so the login page sees the token
  exactly when a script-visible \<open>crmrebs_token\<close> cookie is in the jar.
\<close>

lemma split_seq_aux_no_sep:
  "CHR '';'' \<notin> set w \<Longrightarrow> split_seq_aux ''; '' (w @ rest) cur = split_seq_aux ''; '' rest (rev w @ cur)"
proof (induction w arbitrary: cur)
  case (Cons c w)
  then have "\<not> prefix ''; '' (c # w @ rest)" by auto
  then show ?case using Cons by simp
qed simp

lemma split_seq_aux_sep: "split_seq_aux ''; '' (''; '' @ rest) cur = rev cur # split_seq_aux ''; '' rest []"
  by simp

lemma split_join_seq:
  "ws \<noteq> [] \<Longrightarrow> list_all (\<lambda>w. CHR '';'' \<notin> set w) ws \<Longrightarrow> split_seq_aux ''; '' (join_seq ''; '' ws) [] = ws"
proof (induction "''; ''" ws rule: join_seq.induct)
  case (2 w)
  then show ?case using split_seq_aux_no_sep [of w "[]" "[]"] by simp
next
  case (3 w v vs)
  have "split_seq_aux ''; '' (w @ ''; '' @ join_seq ''; '' (v # vs)) []
        = split_seq_aux ''; '' (''; '' @ join_seq ''; '' (v # vs)) (rev w)"
    using 3(3) split_seq_aux_no_sep [of w] by simp
  also have "\<dots> = w # split_seq_aux ''; '' (join_seq ''; '' (v # vs)) []"
    by (simp only: split_seq_aux_sep rev_rev_ident)
  finally show ?case using 3 by simp
qed simp

lemma prefix_name_eq:
  "CHR ''='' \<notin> set a \<Longrightarrow> CHR ''='' \<notin> set n \<Longrightarrow> prefix (a @ ''='') (n @ ''='' @ v) \<Longrightarrow> n = a"
proof (induction a arbitrary: n)
  case Nil
  then show ?case by (cases n) auto
next
  case (Cons x a)
  then show ?case by (cases n) auto
qed

lemma AUTH_COOKIE_no_eq: "CHR ''='' \<notin> set AUTH_COOKIE"
  by (simp add: AUTH_COOKIE_def)

lemma document_cookie_has_token:
  assumes "list_all cookie_ok jar"
  shows "cookie_has_token (document_cookie jar) \<longleftrightarrow> list_ex (\<lambda>c. ck_name c = AUTH_COOKIE \<and> \<not> ck_httpOnly c) jar"
proof (cases "filter (\<lambda>c. \<not> ck_httpOnly c) jar = []")
  case True
  then have "\<not> list_ex (\<lambda>c. ck_name c = AUTH_COOKIE \<and> \<not> ck_httpOnly c) jar"
    by (auto simp: list_ex_iff filter_empty_conv)
  with True show ?thesis
    by (simp add: document_cookie_def cookie_has_token_def AUTH_COOKIE_def)
next
  case False
  let ?ws = "map (\<lambda>c. ck_name c @ ''='' @ ck_value c) (filter (\<lambda>c. \<not> ck_httpOnly c) jar)"
  have "list_all (\<lambda>w. CHR '';'' \<notin> set w) ?ws"
    using assms by (auto simp: list_all_iff cookie_ok_def)
  then have split: "split_seq_aux ''; '' (document_cookie jar) [] = ?ws"
    using False split_join_seq [of ?ws] by (simp add: document_cookie_def)
  have "prefix (AUTH_COOKIE @ ''='') (ck_name c @ ''='' @ ck_value c) \<longleftrightarrow> ck_name c = AUTH_COOKIE"
    if "c \<in> set jar" for c
    using that assms prefix_name_eq [OF AUTH_COOKIE_no_eq, of "ck_name c" "ck_value c"]
    by (auto simp: list_all_iff cookie_ok_def)
  then show ?thesis
    unfolding cookie_has_token_def split by (auto simp: list_ex_iff)
qed

lemma request_cookie_expired:
  "\<not> list_ex (\<lambda>c. ck_name c = n \<and> ck_httpOnly c) jar \<Longrightarrow> request_cookie n (expire_cookie n jar) = None"
  by (auto simp: request_cookie_def expire_cookie_def find_None_iff list_ex_iff)

lemma expire_cookie_ok: "list_all cookie_ok jar \<Longrightarrow> list_all cookie_ok (expire_cookie n jar)"
  by (simp add: expire_cookie_def list_all_iff)

lemma expire_cookie_no_visible: "\<not> list_ex (\<lambda>c. ck_name c = n \<and> \<not> ck_httpOnly c) (expire_cookie n jar)"
  by (simp add: expire_cookie_def list_ex_iff)

text \<open>
  Claim C22 (safety). "Log out" signs the user out when the session cookie is
  script-visible (as the login page, which reads it through
  \<open>document.cookie\<close>, assumes): the browser goes to \<open>/login\<close>, the login page's
  mount effect finds no token and stays, the middleware serves \<open>/login\<close>, and
  every navigation target redirects to \<open>/login\<close> whatever the clock and the
  decoder.
\<close>

theorem logout_signs_out:
  assumes "list_all cookie_ok jar" and "\<not> list_ex (\<lambda>c. ck_name c = AUTH_COOKIE \<and> ck_httpOnly c) jar"
  shows "snd (logout jar) = ''/login''
     \<and> login_nav (login_mount (document_cookie (fst (logout jar)))) = None
     \<and> middleware decode now ''/login'' (request_cookie AUTH_COOKIE (fst (logout jar))) = MwNext
     \<and> list_all (\<lambda>(href, _). middleware decode now href (request_cookie AUTH_COOKIE (fst (logout jar)))
                              = MwRedirect ''/login'' False) NAV_ITEMS"
proof -
  have tok: "request_cookie AUTH_COOKIE (fst (logout jar)) = None"
    using request_cookie_expired [OF assms(2)] by (simp add: logout_def)
  have "\<not> cookie_has_token (document_cookie (fst (logout jar)))"
    using document_cookie_has_token [OF expire_cookie_ok [OF assms(1)]] expire_cookie_no_visible
    by (simp add: logout_def)
  then show ?thesis using tok
    by (simp add: logout_def login_mount_def middleware_login_no_token NAV_ITEMS_def middleware_def
        PUBLIC_PATHS_def bypassed_def public_file_def)
qed

theorem logout_signs_out_witness:
  "list_all cookie_ok ex_jar \<and> \<not> list_ex (\<lambda>c. ck_name c = AUTH_COOKIE \<and> ck_httpOnly c) ex_jar
   \<and> cookie_has_token (document_cookie ex_jar)
   \<and> login_nav (login_mount (document_cookie (fst (logout ex_jar)))) = None"
proof -
  have h: "list_all cookie_ok ex_jar" "\<not> list_ex (\<lambda>c. ck_name c = AUTH_COOKIE \<and> ck_httpOnly c) ex_jar"
    by (simp_all add: ex_jar_def cookie_ok_def AUTH_COOKIE_def)
  have t: "cookie_has_token (document_cookie ex_jar)"
    by (simp add: ex_jar_def document_cookie_def cookie_has_token_def AUTH_COOKIE_def)
  show ?thesis using h t logout_signs_out [OF h, of "\<lambda>_. None" 0] by simp
qed

section \<open>Navigation, notices and the copy button\<close>

lemma nav_at_most_one_active:
  "length (filter (\<lambda>(_, _, active). active) (sv_nav (PageShell ttl sub acts pathname))) \<le> 1"
  by (simp add: PageShell_def NAV_ITEMS_def nav_isActive_def)

lemma nav_queue_active_iff:
  "(''/'', ''Queue'', True) \<in> set (sv_nav (PageShell ttl sub acts p)) \<longleftrightarrow> p = ''/'' \<or> p = []"
  by (simp add: PageShell_def NAV_ITEMS_def nav_isActive_def)

lemma history_lands_on_chats:
  "sv_nav (PageShell ttl sub acts (destination history_getServerSideProps))
     = [(''/'', ''Queue'', False), (''/chats'', ''Chats'', True)]
   \<and> \<not> permanent history_getServerSideProps"
  by (simp add: PageShell_def NAV_ITEMS_def nav_isActive_def history_getServerSideProps_def)

lemma InlineNotice_desc_shown: "nv_desc (InlineNotice t ttl d) \<noteq> None \<longleftrightarrow> d \<noteq> []"
  by (simp add: InlineNotice_def)

lemma queue_error_notice:
  "banner s = None \<Longrightarrow> \<not> isLoading s \<Longrightarrow> fetch_error s = Some (ApiError st m) \<Longrightarrow>
     queue_notices s = [InlineNotice Error
        (''We couldn'' @ utf8 [195, 162, 226, 130, 172, 226, 132, 162] @ ''t load the queue.'') m]"
  by (simp add: queue_notices_def api_error_message_def)

lemma queue_error_no_fallback:
  "banner s = None \<Longrightarrow> \<not> isLoading s \<Longrightarrow> fetch_error s = Some (ApiError st []) \<Longrightarrow>
     map nv_desc (queue_notices s) = [None]"
  by (simp add: queue_notices_def api_error_message_def InlineNotice_def)

lemma chats_error_no_fallback:
  "\<not> chats_loading s \<Longrightarrow> chats_error s = Some (ApiError st []) \<Longrightarrow> map nv_desc (chats_notices s) = [None]"
  by (simp add: chats_notices_def api_error_message_def InlineNotice_def)

lemma queue_loading_mis_encoded:
  "isLoading s \<Longrightarrow> banner s = None \<Longrightarrow>
     map nv_desc (queue_notices s) = [Some ([], ''Checking for new leads'' @ utf8 [195, 162, 226, 130, 172, 194, 166])]
   \<and> utf8 [195, 162, 226, 130, 172, 194, 166] \<noteq> utf8 [226, 128, 166]"
  by (simp add: queue_notices_def InlineNotice_def utf8_def split: option.split)

text \<open>
  Two copies within two seconds: the first copy's timer clears the badge of the
  second after 1.5 s instead of 2 s (\<open>setCopiedId(null)\<close> does not check which
  lead it was set for).
\<close>

lemma copy_badge_cleared_early:
  "copy_label (copy_run copy_init [CopyClick 0 ex_phone_a, CopyClick 1500 ex_phone_b]) ex_phone_b = Some ''Copied''
   \<and> copy_label (copy_run copy_init [CopyClick 0 ex_phone_a, CopyClick 1500 ex_phone_b, CopyTimerFires]) ex_phone_b
       = Some ''Copy''
   \<and> copy_timers (copy_run copy_init [CopyClick 0 ex_phone_a, CopyClick 1500 ex_phone_b, CopyTimerFires]) = [3500]
   \<and> clipboard (copy_run copy_init [CopyClick 0 ex_phone_a, CopyClick 1500 ex_phone_b]) = [''0711'', ''0722'']"
  by (simp add: copy_run_def copy_step_def handleCopy_def copy_init_def copy_label_def ex_phone_a_def ex_phone_b_def)

lemma handleCopy_no_phone:
  "\<not> js_truthy (map_option JStr (lister_phone l)) \<Longrightarrow> handleCopy now l s = s \<and> copy_label s l = None"
  by (cases "lister_phone l") (auto simp: handleCopy_def copy_label_def)


lemma logout_httpOnly_kept:
  assumes "find (\<lambda>c. ck_name c = AUTH_COOKIE) jar = Some c" and "ck_httpOnly c" and "ck_value c \<noteq> []"
    and "\<not> isJwtExpired decode now (ck_value c)"
  shows "middleware decode now ''/login'' (request_cookie AUTH_COOKIE (fst (logout jar))) = MwRedirect ''/'' False"
proof -
  have "find (\<lambda>c. ck_name c = AUTH_COOKIE) (expire_cookie AUTH_COOKIE jar) = Some c"
    using assms(1,2) unfolding expire_cookie_def
    by (induction jar) (auto split: if_splits)
  then show ?thesis using assms(3,4)
    by (simp add: logout_def request_cookie_def middleware_def PUBLIC_PATHS_def)
qed

end
