(* ===== verification/Initials.thy ===== *)
theory Initials
  imports Unicode_Text Grouping
begin

text \<open>
  \<open>getInitials\<close> of \<open>pages/chats.tsx\<close> (lines 41-51), the avatar text of a chat
  row, over the UTF-16 code units of the lead's name (\<open>Unicode_Text\<close>). The
  expression \<open>words[0][0] + words[1][0]\<close> is modelled with JavaScript's
  semantics for an index out of range (\<open>undefined\<close>) and for \<open>+\<close> on it, so that
  the \<open>TypeError\<close> of \<open>toUpperCase\<close> on \<open>NaN\<close> is a branch of the model; the lemmas
  show that branch and the \<open>"L"\<close> fallback are never taken.
\<close>

section \<open>Definitions\<close>

text \<open>\<open>lead.lister_name || lead.title || lead.display_id || ""\<close> (line 42).\<close>

definition name_source :: "lead \<Rightarrow> string" where
  "name_source l =
     (if lister_name l \<noteq> [] then lister_name l else if title l \<noteq> [] then title l else display_id l)"

text \<open>\<open>w[0]\<close>: the first code unit, or \<open>undefined\<close> on the empty string.\<close>

definition js_index0 :: "nat list \<Rightarrow> nat option" where
  "js_index0 w = (case w of [] \<Rightarrow> None | u # _ \<Rightarrow> Some u)"

definition undefined_units :: "nat list" where
  "undefined_units = map of_char ''undefined''"

text \<open>
  \<open>a + b\<close> on two such values: string concatenation, \<open>"undefined"\<close> for an
  undefined operand next to a string, and the number \<open>NaN\<close> (no string) for two.
\<close>

definition js_plus_units :: "nat option \<Rightarrow> nat option \<Rightarrow> nat list option" where
  "js_plus_units a b =
     (case (a, b) of
        (Some x, Some y) \<Rightarrow> Some [x, y]
      | (Some x, None) \<Rightarrow> Some (x # undefined_units)
      | (None, Some y) \<Rightarrow> Some (undefined_units @ [y])
      | (None, None) \<Rightarrow> None)"

definition getInitials_units :: "(nat \<Rightarrow> nat list) \<Rightarrow> nat list \<Rightarrow> js_error + nat list" where
  "getInitials_units cu src =
     (let words = split_ws (units_trim src) in
      if length words = 0 then Inr [76]
      else if length words = 1 then Inr (js_toUpperCase cu (take 2 (words ! 0)))
      else (case js_plus_units (js_index0 (words ! 0)) (js_index0 (words ! 1)) of
              Some s \<Rightarrow> Inr (js_toUpperCase cu s)
            | None \<Rightarrow> Inl (TypeError ''toUpperCase is not a function'')))"

text \<open>
  \<open>getInitials(lead)\<close>: the initials of the name's JavaScript string, for a name
  whose bytes are UTF-8 (\<open>None\<close> otherwise: no JavaScript string has them).
\<close>

definition getInitials :: "(nat \<Rightarrow> nat list) \<Rightarrow> lead \<Rightarrow> (js_error + nat list) option" where
  "getInitials cu l = map_option (getInitials_units cu) (js_units (name_source l))"

section \<open>Lemmas\<close>

text \<open>
  On every input the words of the trimmed name are one word, or at least two
  whose first units are the name's first unit and the first unit after its first
  white-space run; so neither the \<open>"L"\<close> fallback nor the \<open>TypeError\<close> is reached.
\<close>

lemma getInitials_units_eq:
  "getInitials_units cu us =
     Inr (js_toUpperCase cu
       (let t = units_trim us in
        if list_ex is_es_space t
        then [hd t, hd (dropWhile is_es_space (dropWhile (\<lambda>u. \<not> is_es_space u) t))]
        else take 2 t))"
proof (cases "list_ex is_es_space (units_trim us)")
  case True
  then have ne: "units_trim us \<noteq> []" by auto
  obtain w0 w1 ws where s: "split_ws (units_trim us) = w0 # w1 # ws" and "w0 \<noteq> []"
    and "hd w0 = hd (units_trim us)" and "w1 \<noteq> []"
    and "hd w1 = hd (dropWhile is_es_space (dropWhile (\<lambda>u. \<not> is_es_space u) (units_trim us)))"
    using split_ws_two [OF ne _ _ True] units_trim_ends [OF ne] by blast
  then have "js_index0 w0 = Some (hd (units_trim us))"
    and "js_index0 w1 = Some (hd (dropWhile is_es_space (dropWhile (\<lambda>u. \<not> is_es_space u) (units_trim us))))"
    by (auto simp: js_index0_def neq_Nil_conv)
  then show ?thesis using True s by (simp add: getInitials_units_def js_plus_units_def Let_def)
next
  case False
  then show ?thesis by (simp add: getInitials_units_def split_ws_single Let_def)
qed

lemma utf16_decode_lone_high:
  assumes "list_all valid_cp cps"
  shows "utf16_decode (h # concat (map utf16_units cps)) = h # cps"
proof (cases cps)
  case (Cons c cs)
  have "\<not> is_low (hd (utf16_units c))" and "utf16_units c \<noteq> []"
    using assms Cons by (auto simp: utf16_units_def is_low_def valid_cp_def is_surrogate_def)
  then obtain u r where "utf16_units c = u # r" and "\<not> is_low u" by (cases "utf16_units c") auto
  moreover have "utf16_decode (utf16_units c @ concat (map utf16_units cs)) = c # cs"
    using assms Cons utf16_decode_encode_append [of "c # cs" "[]"] by simp
  ultimately show ?thesis using Cons by simp
qed simp

text \<open>
  Claim C8 (functional). getInitials never throws and never falls back to "L":
  for a name held as a JavaScript string, the initials are the upper-cased first
  two code units of the trimmed name when it has no white space, and otherwise
  its first unit followed by the first unit after its first white-space run.
\<close>

theorem getInitials_spec:
  "getInitials cu l =
     map_option (\<lambda>us. Inr (js_toUpperCase cu
       (let t = units_trim us in
        if list_ex is_es_space t
        then [hd t, hd (dropWhile is_es_space (dropWhile (\<lambda>u. \<not> is_es_space u) t))]
        else take 2 t)))
     (js_units (name_source l))"
  unfolding getInitials_def by (rule option.map_cong0) (rule getInitials_units_eq)



end
