(* ===== verification/Row_Views.thy ===== *)
theory Row_Views
  imports Timestamps Page_Chrome Conversation Initials
begin

text \<open>
  What the three lead views render for each lead or message, down to the values
  the code computes: the queue page's lead cards (\<open>lib/dates.ts\<close>, lines
  366-507), the chats page's rows (\<open>pages/chats.tsx\<close>, \<open>getPreviewText\<close> and
  lines 198-247) and the conversation panel (\<open>pages/login.tsx\<close>, lines
  180-280). A view is a record of the data it shows; every formatter call is the
  one of \<open>Timestamps\<close>, so a view is a value or the error the render throws.
  A chat row's avatar is \<open>getInitials\<close> of \<open>Initials\<close>, over the runtime's case
  mapping \<open>cu\<close>.
\<close>

section \<open>The queue page's lead cards\<close>

text \<open>
  The literal of the sending label is double-encoded in the file, like those of
  \<open>queue_notices\<close>.
\<close>

definition sending_label :: string where
  "sending_label = ''Sending'' @ utf8 [195, 162, 226, 130, 172, 194, 166]"

record queue_card =
  card_checkbox :: "bool option"
  card_display_id :: string
  card_title :: string
  card_added :: string
  card_seller :: string
  card_phone :: string
  card_copy :: "string option"
  card_status :: lead_status
  card_last_message :: "(string \<times> string option) option"
  card_send :: "(string \<times> bool) option"
  card_unread :: "rat option"
  card_hint :: string

text \<open>
  \<open>{lead.last_message_excerpt}\<close> with \<open>{lead.last_message_at ?
  formatMessageTimestamp(lead.last_message_at) : null}\<close>, shown for a truthy
  excerpt.
\<close>

definition card_last_message_of ::
  "host \<Rightarrow> (int \<Rightarrow> string \<Rightarrow> string) \<Rightarrow> int \<Rightarrow> lead \<Rightarrow> js_error + (string \<times> string option) option" where
  "card_last_message_of h fmt now l =
     (case last_message_excerpt l of
        None \<Rightarrow> Inr None
      | Some x \<Rightarrow>
          if x = [] then Inr None
          else (case last_message_at l of
                  None \<Rightarrow> Inr (Some (x, None))
                | Some t \<Rightarrow>
                    if t = [] then Inr (Some (x, None))
                    else (case formatMessageTimestamp h fmt now t of
                            Inl e \<Rightarrow> Inl e
                          | Inr r \<Rightarrow> Inr (Some (x, Some r)))))"

text \<open>
  One card: the checkbox in multi-select mode, the "Added" time
  (\<open>formatFullDateTime(lead.date_added)\<close>, rendered before the last message),
  the phone with its copy button, and the send button outside multi-select
  mode, disabled while this lead is sending, while any send is pending, or
  without a phone.
\<close>

definition queue_card_of ::
  "host \<Rightarrow> (int \<Rightarrow> string \<Rightarrow> string) \<Rightarrow> int \<Rightarrow> queue_page \<Rightarrow> copy_badge \<Rightarrow> lead
     \<Rightarrow> js_error + queue_card" where
  "queue_card_of h fmt now s cb l =
     (let isSelected = property_id l \<in> set (selectedIds s);
          isSending = property_id l \<in> set (pendingIds s)
      in case formatFullDateTime h fmt (date_added l) of
           Inl e \<Rightarrow> Inl e
         | Inr added \<Rightarrow>
             (case card_last_message_of h fmt now l of
                Inl e \<Rightarrow> Inl e
              | Inr lastmsg \<Rightarrow>
                  Inr \<lparr>card_checkbox = (if multiSelectMode s then Some isSelected else None),
                       card_display_id = display_id l,
                       card_title = (if title l = [] then ''Untitled property'' else title l),
                       card_added = added,
                       card_seller = lister_name l,
                       card_phone = (case lister_phone l of None \<Rightarrow> ''Unavailable'' | Some p \<Rightarrow> p),
                       card_copy = copy_label cb l,
                       card_status = status l,
                       card_last_message = lastmsg,
                       card_send =
                         (if multiSelectMode s then None
                          else Some (if isSending then sending_label else ''Send WhatsApp'',
                                     isSending \<or> pendingIds s \<noteq> [] \<or> \<not> has_phone l)),
                       card_unread = (case unread_count l of Some n \<Rightarrow> if n = 0 then None else Some n
                                      | None \<Rightarrow> None),
                       card_hint = (if multiSelectMode s then ''Tap to include in the batch.''
                                    else ''Sends the approved WhatsApp template instantly.'')\<rparr>))"

text \<open>
  The list: \<open>groupByDateAdded(filteredLeads)\<close>, each group's label through
  \<open>toUpperCase\<close> (the parameter \<open>upper\<close>) and its cards.
\<close>

definition queue_render ::
  "(string \<Rightarrow> string) \<Rightarrow> host \<Rightarrow> (int \<Rightarrow> string \<Rightarrow> string) \<Rightarrow> int \<Rightarrow> queue_page \<Rightarrow> copy_badge
     \<Rightarrow> js_error + (string \<times> queue_card list) list" where
  "queue_render upper h fmt now s cb =
     (case groupByDateAdded h (visible_leads h s) of
        Inl e \<Rightarrow> Inl e
      | Inr groups \<Rightarrow>
          render_list
            (\<lambda>g. case render_list (queue_card_of h fmt now s cb) (group_leads g) of
                   Inl e \<Rightarrow> Inl e
                 | Inr cards \<Rightarrow> Inr (upper (group_label g), cards))
            groups)"

section \<open>The chats page's rows\<close>

definition status_text :: "lead_status \<Rightarrow> string" where
  "status_text st = (case st of LEAD \<Rightarrow> ''LEAD'' | REACHED_OUT \<Rightarrow> ''REACHED_OUT'' | ERROR \<Rightarrow> ''ERROR'')"

text \<open>
  \<open>getPreviewText\<close> (lines 52-64): the excerpt, else the last timeline
  entry's note, else the status, each when truthy.
\<close>

definition getPreviewText :: "lead \<Rightarrow> string" where
  "getPreviewText l =
     (let by_status = (if status_text (status l) \<noteq> [] then ''Status: '' @ status_text (status l)
                       else ''No messages yet. Tap to start chatting.'')
      in case last_message_excerpt l of
           Some x \<Rightarrow> if x \<noteq> [] then x else
             (case Option.bind (getLastTimelineEntry l) entry_note of
                Some n \<Rightarrow> if n \<noteq> [] then n else by_status
              | None \<Rightarrow> by_status)
         | None \<Rightarrow>
             (case Option.bind (getLastTimelineEntry l) entry_note of
                Some n \<Rightarrow> if n \<noteq> [] then n else by_status
              | None \<Rightarrow> by_status))"

record chat_row =
  row_active :: bool
  row_initials :: "nat list option"
  row_name :: string
  row_phone :: string
  row_time :: "string option"
  row_preview :: string
  row_unread :: "rat option"

text \<open>
  One row (lines 198-247): highlighted when it is the open chat, the initials
  (\<open>None\<close> for a name whose bytes are not UTF-8), the first truthy of \<open>lister_name\<close>, \<open>title\<close>, \<open>display_id\<close>, the phone or "No phone",
  the time of \<open>chats_row_time\<close> when truthy, the preview and the unread badge.
\<close>

definition chat_row_of ::
  "(nat \<Rightarrow> nat list) \<Rightarrow> host \<Rightarrow> (int \<Rightarrow> string \<Rightarrow> string) \<Rightarrow> int \<Rightarrow> lead option \<Rightarrow> lead
     \<Rightarrow> js_error + chat_row" where
  "chat_row_of cu h fmt now active l =
     (case chats_row_time h fmt now l of
        Inl e \<Rightarrow> Inl e
      | Inr t \<Rightarrow>
        (case getInitials cu l of
           Some (Inl e) \<Rightarrow> Inl e
         | ini \<Rightarrow>
          Inr \<lparr>row_active = (case active of Some a \<Rightarrow> property_id l = property_id a | None \<Rightarrow> False),
               row_initials = (case ini of Some (Inr i) \<Rightarrow> Some i | _ \<Rightarrow> None),
               row_name = name_source l,
               row_phone = (case lister_phone l of None \<Rightarrow> ''No phone'' | Some p \<Rightarrow> p),
               row_time = (case t of Some r \<Rightarrow> if r = [] then None else Some r | None \<Rightarrow> None),
               row_preview = getPreviewText l,
               row_unread = (case unread_count l of Some n \<Rightarrow> if n = 0 then None else Some n
                             | None \<Rightarrow> None)\<rparr>))"

definition chats_render_rows ::
  "(nat \<Rightarrow> nat list) \<Rightarrow> (string \<Rightarrow> string) \<Rightarrow> host \<Rightarrow> (int \<Rightarrow> string \<Rightarrow> string) \<Rightarrow> int
     \<Rightarrow> chats_page \<Rightarrow> js_error + chat_row list" where
  "chats_render_rows cu lower h fmt now s =
     render_list (chat_row_of cu h fmt now (activeLead s)) (chats_rows lower h s)"

section \<open>The conversation panel\<close>

record bubble =
  bubble_outbound :: bool
  bubble_text :: string
  bubble_time :: string
  bubble_status :: "string option"

definition bubble_of ::
  "host \<Rightarrow> (int \<Rightarrow> string \<Rightarrow> string) \<Rightarrow> int \<Rightarrow> conversation_message \<Rightarrow> js_error + bubble" where
  "bubble_of h fmt now msg =
     (case formatMessageTimestamp h fmt now (timestamp msg) of
        Inl e \<Rightarrow> Inl e
      | Inr t \<Rightarrow>
          Inr \<lparr>bubble_outbound = (msg_direction msg = Outbound), bubble_text = message msg,
               bubble_time = t,
               bubble_status = (case msg_status msg of Some st \<Rightarrow> if st = [] then None else Some st
                                | None \<Rightarrow> None)\<rparr>)"

record conv_view =
  cv_display_id :: string
  cv_title :: string
  cv_contact :: string
  cv_notices :: "notice_view list"
  cv_bubbles :: "bubble list"
  cv_updating :: bool
  cv_send_error :: "notice_view option"
  cv_send_disabled :: bool

text \<open>
  The panel (lines 180-280): the header, the load-error and empty notices, a
  bubble per message of \<open>data?.messages ?? []\<close>, "Updating..." while a request
  is in flight over a non-empty list, the send error, and the send button
  disabled for a blank draft.
\<close>

definition conv_view_of ::
  "host \<Rightarrow> (int \<Rightarrow> string \<Rightarrow> string) \<Rightarrow> int \<Rightarrow> lead \<Rightarrow> conv_panel \<Rightarrow> js_error + conv_view" where
  "conv_view_of h fmt now l s =
     (let msgs = (case msgs_data s of None \<Rightarrow> [] | Some ms \<Rightarrow> ms)
      in case render_list (bubble_of h fmt now) msgs of
           Inl e \<Rightarrow> Inl e
         | Inr bs \<Rightarrow>
             Inr \<lparr>cv_display_id = display_id l,
                  cv_title = (if title l = [] then ''Untitled property'' else title l),
                  cv_contact = lister_name l @ '' '' @ utf8 [194, 183] @ '' ''
                               @ (case lister_phone l of None \<Rightarrow> ''No phone'' | Some p \<Rightarrow> p),
                  cv_notices =
                    (if msgs_error s \<noteq> None
                     then [InlineNotice Error [] (''We couldn'' @ utf8 [226, 128, 153] @ ''t load this conversation.'')]
                     else [])
                    @ (if msgs = [] \<and> msgs_error s = None
                       then [InlineNotice Info [] ''No messages yet. Start the conversation below.'']
                       else []),
                  cv_bubbles = bs,
                  cv_updating = (msgs_inflight s \<noteq> [] \<and> msgs \<noteq> []),
                  cv_send_error = (case sendError s of Some m \<Rightarrow> if m = [] then None
                                                                   else Some (InlineNotice Error [] m)
                                   | None \<Rightarrow> None),
                  cv_send_disabled = (js_trim (draft s) = [])\<rparr>)"


section \<open>The chats page\<close>

text \<open>
  The chats page (lines 123-262): the shell, the search box, the filter toggle
  and panel, the result count, "Clear search", the notices, the empty state,
  the rows (rendered only when there are rows, so their error aborts the page)
  and the conversation panel of the active lead.
\<close>

record chats_view =
  cpv_shell :: shell_view
  cpv_search :: string
  cpv_toggle :: string
  cpv_panel :: "(lead list \<times> lead_filters) option"
  cpv_results :: string
  cpv_clear_search :: bool
  cpv_notices :: "notice_view list"
  cpv_empty :: bool
  cpv_rows :: "chat_row list option"
  cpv_conversation :: "lead option"

definition chats_view ::
  "(nat \<Rightarrow> nat list) \<Rightarrow> (string \<Rightarrow> string) \<Rightarrow> host \<Rightarrow> (int \<Rightarrow> string \<Rightarrow> string) \<Rightarrow> int
     \<Rightarrow> chats_page \<Rightarrow> js_error + chats_view" where
  "chats_view cu lower h fmt now s =
     (let rows = chats_rows lower h s; hasLeads = rows \<noteq> [] in
      case (if hasLeads then map_sum id Some (chats_render_rows cu lower h fmt now s) else Inr None) of
        Inl e \<Rightarrow> Inl e
      | Inr rs \<Rightarrow>
          Inr \<lparr>cpv_shell = PageShell ''Chats'' ''Stay on top of every conversation with sellers.'' False ''/chats'',
               cpv_search = searchTerm s,
               cpv_toggle = (if showFilters s then ''Hide filters'' else ''Show filters''),
               cpv_panel = (if showFilters s
                            then Some (case chats_data s of None \<Rightarrow> [] | Some ls \<Rightarrow> ls, chats_appliedFilters s)
                            else None),
               cpv_results = ''Rezultate: '' @ nat_to_string (length rows),
               cpv_clear_search = (searchTerm s \<noteq> []),
               cpv_notices = chats_notices s,
               cpv_empty = (\<not> chats_loading s \<and> chats_error s = None \<and> \<not> hasLeads),
               cpv_rows = rs,
               cpv_conversation = activeLead s\<rparr>)"

text \<open>A loaded page with one lead and a search that matches nothing.\<close>

definition ex_chats_no_match :: chats_page where
  "ex_chats_no_match =
     chats_init\<lparr>chats_data := Some [ex_lead_p1], chats_validating := False, searchTerm := ''zzz''\<rparr>"


section \<open>Lemmas\<close>

lemma render_list_Inr:
  "render_list f xs = Inr ys \<Longrightarrow> list_all2 (\<lambda>x y. f x = Inr y) xs ys"
  by (induction xs arbitrary: ys) (auto split: sum.splits)

lemma render_list_isl_cong:
  "(\<And>x. x \<in> set xs \<Longrightarrow> isl (f x) = isl (g x)) \<Longrightarrow> isl (render_list f xs) = isl (render_list g xs)"
proof (induction xs)
  case (Cons x xs)
  have ih: "isl (render_list f xs) = isl (render_list g xs)" using Cons by simp
  have hx: "isl (f x) = isl (g x)" using Cons.prems by simp
  show ?case
    using ih hx by (cases "f x"; cases "g x"; cases "render_list f xs"; cases "render_list g xs") auto
qed simp

lemma getInitials_not_isl: "getInitials cu l \<noteq> Some (Inl e)"
  by (cases "js_units (name_source l)") (simp_all add: getInitials_def getInitials_units_eq)

lemma chat_row_of_isl: "isl (chat_row_of cu h fmt now a l) = isl (chats_row_time h fmt now l)"
  using getInitials_not_isl [of cu l]
  by (simp add: chat_row_of_def split: sum.split option.split)

text \<open>The full chat rows throw exactly when their times do.\<close>

lemma chats_render_rows_isl:
  "isl (chats_render_rows cu lower h fmt now s) = isl (chats_render_times lower h fmt now s)"
  unfolding chats_render_rows_def chats_render_times_def
  by (rule render_list_isl_cong) (rule chat_row_of_isl)

lemma groupByDateAdded_member:
  assumes "groupByDateAdded h leads = Inr gs" and "l \<in> set leads"
  shows "\<exists>g \<in> set gs. l \<in> set (group_leads g)"
proof -
  let ?cmp = "\<lambda>a b. time_desc (parse_iso h) (date_added a) (date_added b)"
  let ?lab = "\<lambda>l. projr (formatDayHeader h (date_added l))"
  have "gs = to_groups (group_spec ?lab (js_sort ?cmp leads))"
    using assms(1) by (intro grouping_Inr) (simp add: groupByDateAdded_def)
  then have "mset (concat (map group_leads gs)) = mset leads"
    by (simp add: to_groups_fields mset_group_spec)
  then have "l \<in> set (concat (map group_leads gs))"
    using assms(2) by (metis set_mset_mset)
  then show ?thesis by auto
qed

lemma queue_card_of_bad_message_time:
  assumes "last_message_excerpt l = Some x" and "x \<noteq> []" and "last_message_at l = Some t"
    and "t \<noteq> []" and "parse_iso h t = None"
  shows "\<exists>e. queue_card_of h fmt now s cb l = Inl e"
proof -
  have "card_last_message_of h fmt now l = Inl (RangeError ''Invalid time value'')"
    using assms by (simp add: card_last_message_of_def formatMessageTimestamp_def ensureDate_def)
  then show ?thesis by (auto simp: queue_card_of_def Let_def split: sum.split)
qed

text \<open>
  The queue page does not render when a listed lead has a truthy excerpt and a
  non-empty \<open>last_message_at\<close> that \<open>parseISO\<close> rejects (line 459), even
  when its \<open>date_added\<close> is valid and the grouping succeeds.
\<close>

theorem queue_render_throws:
  assumes "groupByDateAdded h (visible_leads h s) = Inr gs" and "l \<in> set (visible_leads h s)"
    and "last_message_excerpt l = Some x" and "x \<noteq> []" and "last_message_at l = Some t"
    and "t \<noteq> []" and "parse_iso h t = None"
  shows "\<exists>e. queue_render upper h fmt now s cb = Inl e"
proof -
  obtain g where g: "g \<in> set gs" "l \<in> set (group_leads g)"
    using groupByDateAdded_member [OF assms(1,2)] by blast
  obtain e where "queue_card_of h fmt now s cb l = Inl e"
    using queue_card_of_bad_message_time [OF assms(3-7)] by blast
  then obtain e' where "render_list (queue_card_of h fmt now s cb) (group_leads g) = Inl e'"
    using render_list_Inl [OF g(2)] by blast
  then have "\<exists>e''. render_list (\<lambda>g. case render_list (queue_card_of h fmt now s cb) (group_leads g) of
                   Inl e \<Rightarrow> Inl e | Inr cards \<Rightarrow> Inr (upper (group_label g), cards)) gs = Inl e''"
    using render_list_Inl [OF g(1), of "\<lambda>g. case render_list (queue_card_of h fmt now s cb) (group_leads g) of
                   Inl e \<Rightarrow> Inl e | Inr cards \<Rightarrow> Inr (upper (group_label g), cards)"] by simp
  then show ?thesis using assms(1) by (simp add: queue_render_def)
qed

lemma queue_card_send:
  "queue_card_of h fmt now s cb l = Inr c \<Longrightarrow> \<not> multiSelectMode s \<Longrightarrow>
     card_send c = Some (if property_id l \<in> set (pendingIds s) then sending_label else ''Send WhatsApp'',
                          property_id l \<in> set (pendingIds s) \<or> pendingIds s \<noteq> [] \<or> \<not> has_phone l)"
  by (auto simp: queue_card_of_def Let_def split: sum.splits)

text \<open>While any send is pending every card's send button is disabled.\<close>

lemma queue_render_disabled_while_pending:
  assumes "queue_render upper h fmt now s cb = Inr gcs" and "pendingIds s \<noteq> []" and "\<not> multiSelectMode s"
  shows "list_all (\<lambda>gc. list_all (\<lambda>c. snd (the (card_send c))) (snd gc)) gcs"
proof -
  obtain gs where gs: "groupByDateAdded h (visible_leads h s) = Inr gs"
    and r: "render_list (\<lambda>g. case render_list (queue_card_of h fmt now s cb) (group_leads g) of
                   Inl e \<Rightarrow> Inl e | Inr cards \<Rightarrow> Inr (upper (group_label g), cards)) gs = Inr gcs"
    using assms(1) by (auto simp: queue_render_def split: sum.splits)
  have "list_all2 (\<lambda>g gc. (case render_list (queue_card_of h fmt now s cb) (group_leads g) of
                   Inl e \<Rightarrow> Inl e | Inr cards \<Rightarrow> Inr (upper (group_label g), cards)) = Inr gc) gs gcs"
    using render_list_Inr [OF r] .
  then show ?thesis
  proof (induction rule: list_all2_induct)
    case (Cons g gs' gc gcs')
    obtain cards where cards: "render_list (queue_card_of h fmt now s cb) (group_leads g) = Inr cards"
      and gc: "gc = (upper (group_label g), cards)"
      using Cons.hyps(1) by (auto split: sum.splits)
    have "list_all2 (\<lambda>l c. queue_card_of h fmt now s cb l = Inr c) (group_leads g) cards"
      using render_list_Inr [OF cards] .
    then have "list_all (\<lambda>c. snd (the (card_send c))) cards"
      using assms(2,3) queue_card_send
      by (induction rule: list_all2_induct) fastforce+
    then show ?case using Cons.IH gc by simp
  qed simp
qed

lemma getPreviewText_status:
  "(case last_message_excerpt l of Some x \<Rightarrow> x = [] | None \<Rightarrow> True) \<Longrightarrow>
   (case Option.bind (getLastTimelineEntry l) entry_note of Some n \<Rightarrow> n = [] | None \<Rightarrow> True) \<Longrightarrow>
     getPreviewText l = ''Status: '' @ status_text (status l)"
  by (auto simp: getPreviewText_def status_text_def split: option.splits lead_status.split)

text \<open>One message whose timestamp \<open>parseISO\<close> rejects makes the panel throw.\<close>

lemma conv_view_throws:
  assumes "msgs_data s = Some ms" and "msg \<in> set ms" and "timestamp msg \<noteq> []"
    and "parse_iso h (timestamp msg) = None"
  shows "\<exists>e. conv_view_of h fmt now l s = Inl e"
proof -
  have "bubble_of h fmt now msg = Inl (RangeError ''Invalid time value'')"
    using assms(3,4) by (simp add: bubble_of_def formatMessageTimestamp_def ensureDate_def)
  from render_list_Inl [of msg _ "bubble_of h fmt now", OF assms(2) this] obtain e where "render_list (bubble_of h fmt now) ms = Inl e"
    by blast
  then show ?thesis using assms(1) by (simp add: conv_view_of_def)
qed

lemma sublist_set: "sublist xs ys \<Longrightarrow> set xs \<subseteq> set ys"
  by (auto simp: sublist_def)

lemma chats_view_rows:
  assumes v: "chats_view cu lower h fmt now s = Inr v" and ne: "chats_rows lower h s \<noteq> []"
  shows "\<exists>rs. cpv_rows v = Some rs \<and> length rs = length (chats_rows lower h s)
           \<and> cpv_results v = ''Rezultate: '' @ nat_to_string (length rs)"
proof (cases "chats_render_rows cu lower h fmt now s")
  case (Inl e)
  then show ?thesis using v ne by (simp add: chats_view_def Let_def)
next
  case (Inr rs)
  then have "length rs = length (chats_rows lower h s)"
    by (auto simp: chats_render_rows_def dest!: render_list_Inr list_all2_lengthD)
  moreover have "cpv_rows v = Some rs \<and> cpv_results v = ''Rezultate: '' @ nat_to_string (length (chats_rows lower h s))"
    using v ne Inr by (auto simp: chats_view_def Let_def simp del: nat_to_string.simps)
  ultimately show ?thesis by simp
qed

text \<open>
  When the search or the filters exclude every lead, the page shows the message
  for an empty inbox ("No conversations yet"), with zero results and no rows.
\<close>

lemma chats_view_no_match:
  assumes "chats_data s = Some ls" and "chats_error s = None" and "chats_rows lower h s = []"
  shows "\<exists>v. chats_view cu lower h fmt now s = Inr v \<and> cpv_empty v \<and> cpv_rows v = None
           \<and> cpv_results v = ''Rezultate: 0''"
  using assms by (simp add: chats_view_def chats_loading_def nat_to_string_zero del: nat_to_string.simps)

lemma chats_no_match_example:
  "chats_data ex_chats_no_match = Some [ex_lead_p1] \<and> chats_rows id ex_host ex_chats_no_match = []"
proof -
  have "\<not> matchesSearch id ex_lead_p1 ''zzz''"
    by (auto simp: matchesSearch_def search_values_def ex_lead_p1_def dest!: sublist_set)
  then show ?thesis
    by (simp add: ex_chats_no_match_def chats_init_def chats_rows_def chats_sorted_def
                  chats_searched_def applyLeadFilters_def js_sort_def)
qed

end
