(* ===== verification/Queue_View.thy ===== *)
theory Queue_View
  imports Row_Views
begin

text \<open>
  The queue page as a whole (\<open>lib/dates.ts\<close>, second module): the state slice
  that only its markup touches (\<open>showFilters\<close>, \<open>activeLead\<close> and the effect of
  lines 160-168 that keeps the open lead in step with the list), its composition
  with the page's step function \<open>queue_step\<close>, and what the page renders
  (lines 270-335 and 337-518): the shell with its actions, the result count,
  the filter panel, the notices, the empty state, the grouped cards and the
  conversation panel.
\<close>

section \<open>The markup state\<close>

record queue_ui =
  q_showFilters :: bool
  q_activeLead :: "lead option"

datatype queue_ui_event = QToggleFilters | QOpenConversation lead | QCloseConversation

text \<open>
  Lines 160-168: when the list changes, the open lead is replaced by the listed
  lead with its id, if there is one; otherwise it stays as it was.
\<close>

definition active_lead_sync :: "lead list \<Rightarrow> lead option \<Rightarrow> lead option" where
  "active_lead_sync filtered a =
     (case a of
        None \<Rightarrow> None
      | Some l \<Rightarrow>
          (case find (\<lambda>x. property_id x = property_id l) filtered of
             Some u \<Rightarrow> Some u
           | None \<Rightarrow> Some l))"

text \<open>
  The toggle button (line 318), "Open conversation" on a rendered card
  (line 485) and the panel's close (line 512).
\<close>

definition queue_ui_step :: "host \<Rightarrow> queue_page \<Rightarrow> queue_ui \<Rightarrow> queue_ui_event \<Rightarrow> queue_ui" where
  "queue_ui_step h s ui e =
     (case e of
        QToggleFilters \<Rightarrow> ui\<lparr>q_showFilters := \<not> q_showFilters ui\<rparr>
      | QOpenConversation l \<Rightarrow>
          if l \<in> set (visible_leads h s) then ui\<lparr>q_activeLead := Some l\<rparr> else ui
      | QCloseConversation \<Rightarrow> ui\<lparr>q_activeLead := None\<rparr>)"

text \<open>
  The page: an event of \<open>queue_step\<close> or of the markup, then the sync effect. The
  filter panel's apply and reset exist only while the panel is shown.
\<close>

definition queue_page_step ::
  "host \<Rightarrow> queue_page \<times> queue_ui \<Rightarrow> queue_event + queue_ui_event \<Rightarrow> queue_page \<times> queue_ui" where
  "queue_page_step h su e =
     (let (s, ui) = su;
          (s', ui') =
            (case e of
               Inl qe \<Rightarrow>
                 (case qe of
                    ApplyFilters _ \<Rightarrow> if q_showFilters ui then queue_step h s qe else s
                  | ResetFilters \<Rightarrow> if q_showFilters ui then queue_step h s qe else s
                  | _ \<Rightarrow> queue_step h s qe, ui)
             | Inr ue \<Rightarrow> (s, queue_ui_step h s ui ue))
      in (s', ui'\<lparr>q_activeLead := active_lead_sync (visible_leads h s') (q_activeLead ui')\<rparr>))"

definition queue_page_run ::
  "host \<Rightarrow> queue_page \<times> queue_ui \<Rightarrow> (queue_event + queue_ui_event) list \<Rightarrow> queue_page \<times> queue_ui" where
  "queue_page_run h = foldl (queue_page_step h)"

section \<open>The rendered page\<close>

text \<open>
  The shell's actions (lines 272-299): in multi-select mode the bulk button
  with its label and disabled state (and "Cancel selection"), otherwise
  "Select multiple" with its disabled state; passed only when there are leads.
\<close>

datatype queue_actions = BulkActions string bool | SelectMultipleAction bool

record queue_view =
  qv_shell :: shell_view
  qv_actions :: "queue_actions option"
  qv_results :: string
  qv_toggle :: string
  qv_panel :: "(lead list \<times> lead_filters) option"
  qv_notices :: "notice_view list"
  qv_empty :: bool
  qv_groups :: "(string \<times> queue_card list) list"
  qv_conversation :: "lead option"

definition queue_view ::
  "(string \<Rightarrow> string) \<Rightarrow> host \<Rightarrow> (int \<Rightarrow> string \<Rightarrow> string) \<Rightarrow> int \<Rightarrow> queue_page \<Rightarrow> queue_ui
     \<Rightarrow> copy_badge \<Rightarrow> js_error + queue_view" where
  "queue_view upper h fmt now s ui cb =
     (let leads = visible_leads h s; hasLeads = leads \<noteq> [] in
      case queue_render upper h fmt now s cb of
        Inl e \<Rightarrow> Inl e
      | Inr gs \<Rightarrow>
          Inr \<lparr>qv_shell = PageShell ''Lead Queue'' ''Review the newest properties and reach out instantly.''
                            hasLeads ''/'',
               qv_actions =
                 (if hasLeads then
                    Some (if multiSelectMode s
                          then BulkActions (''Send WhatsApp to Selected ('' @ nat_to_string (length (selectedIds s)) @ '')'')
                                 (selectedIds s = [] \<or> pendingIds s \<noteq> [])
                          else SelectMultipleAction (\<not> hasLeads))
                  else None),
               qv_results = ''Rezultate: '' @ nat_to_string (length leads),
               qv_toggle = (if q_showFilters ui then ''Hide filters'' else ''Show filters''),
               qv_panel = (if q_showFilters ui
                           then (case leads_data s of Some ls \<Rightarrow> Some (ls, appliedFilters s) | None \<Rightarrow> None)
                           else None),
               qv_notices = queue_notices s,
               qv_empty = (\<not> isLoading s \<and> fetch_error s = None \<and> \<not> hasLeads),
               qv_groups = gs,
               qv_conversation = q_activeLead ui\<rparr>)"

section \<open>Lemmas\<close>

text \<open>
  The bulk button is enabled exactly when \<open>queue_step\<close> acts on its click: the
  guard of the model is the button's \<open>disabled\<close> attribute and its presence.
\<close>

lemma queue_view_bulk_enabled:
  assumes "queue_view upper h fmt now s ui cb = Inr v"
  shows "(\<exists>lbl. qv_actions v = Some (BulkActions lbl False)) \<longleftrightarrow>
           multiSelectMode s \<and> visible_leads h s \<noteq> [] \<and> selectedIds s \<noteq> [] \<and> pendingIds s = []"
  using assms by (auto simp: queue_view_def Let_def split: sum.splits if_splits simp del: nat_to_string.simps)

lemma queue_view_bulk_click:
  assumes "queue_view upper h fmt now s ui cb = Inr v" and "\<not> (\<exists>lbl. qv_actions v = Some (BulkActions lbl False))"
  shows "queue_step h s ClickBulkSend = s"
  using assms by (auto simp: queue_view_def Let_def queue_step_def split: sum.splits if_splits simp del: nat_to_string.simps)

text \<open>"Select multiple" is shown only with leads, so its \<open>disabled={!hasLeads}\<close> never holds.\<close>

lemma queue_view_select_multiple_enabled:
  "queue_view upper h fmt now s ui cb = Inr v \<Longrightarrow> qv_actions v \<noteq> Some (SelectMultipleAction True)"
  by (auto simp: queue_view_def Let_def split: sum.splits if_splits simp del: nat_to_string.simps)

text \<open>The open lead follows a refresh of the list and stays open when it leaves the list.\<close>

lemma active_lead_sync_listed:
  "find (\<lambda>x. property_id x = property_id l) filtered = Some u \<Longrightarrow> active_lead_sync filtered (Some l) = Some u"
  by (simp add: active_lead_sync_def)

lemma active_lead_sync_unlisted:
  assumes "property_id l \<notin> property_id ` set filtered"
  shows "active_lead_sync filtered (Some l) = Some l"
proof -
  have "find (\<lambda>x. property_id x = property_id l) filtered = None"
    using assms by (auto simp: find_None_iff image_iff)
  then show ?thesis by (simp add: active_lead_sync_def)
qed

lemma queue_page_step_filters_hidden:
  "\<not> q_showFilters ui \<Longrightarrow> fst (queue_page_step h (s, ui) (Inl (ApplyFilters f))) = s"
  by (simp add: queue_page_step_def)

lemma groupByDateAdded_length:
  assumes "groupByDateAdded h leads = Inr gs"
  shows "length (concat (map group_leads gs)) = length leads"
proof -
  let ?cmp = "\<lambda>a b. time_desc (parse_iso h) (date_added a) (date_added b)"
  let ?lab = "\<lambda>l. projr (formatDayHeader h (date_added l))"
  have "gs = to_groups (group_spec ?lab (js_sort ?cmp leads))"
    using assms by (intro grouping_Inr) (simp add: groupByDateAdded_def)
  then have "mset (concat (map group_leads gs)) = mset leads"
    by (simp add: to_groups_fields mset_group_spec)
  then show ?thesis by (metis size_mset)
qed

lemma queue_render_count:
  assumes "queue_render upper h fmt now s cb = Inr rs"
  shows "sum_list (map (length \<circ> snd) rs) = length (visible_leads h s)"
proof -
  obtain gs where g: "groupByDateAdded h (visible_leads h s) = Inr gs"
    and r: "render_list (\<lambda>g. case render_list (queue_card_of h fmt now s cb) (group_leads g) of
                   Inl e \<Rightarrow> Inl e | Inr cards \<Rightarrow> Inr (upper (group_label g), cards)) gs = Inr rs"
    using assms by (auto simp: queue_render_def split: sum.splits)
  have "map (length \<circ> snd) rs = map (length \<circ> group_leads) gs"
    using render_list_Inr [OF r]
  proof (induction rule: list_all2_induct)
    case (Cons g gs r rs)
    then show ?case
      by (auto split: sum.splits dest!: render_list_Inr list_all2_lengthD)
  qed simp
  then have "sum_list (map (length \<circ> snd) rs) = length (concat (map group_leads gs))"
    by (simp add: length_concat)
  then show ?thesis using groupByDateAdded_length [OF g] by simp
qed

text \<open>The result count the page shows is the number of cards it renders.\<close>

lemma queue_view_count:
  assumes "queue_view upper h fmt now s ui cb = Inr v"
  shows "qv_results v = ''Rezultate: '' @ nat_to_string (sum_list (map (length \<circ> snd) (qv_groups v)))"
proof -
  obtain rs where r: "queue_render upper h fmt now s cb = Inr rs" and "qv_groups v = rs"
    and "qv_results v = ''Rezultate: '' @ nat_to_string (length (visible_leads h s))"
    using assms by (auto simp: queue_view_def Let_def split: sum.splits simp del: nat_to_string.simps)
  then show ?thesis using queue_render_count [OF r] by simp
qed

end
