(* ===== verification/Chats_Composition.thy ===== *)
theory Chats_Composition
  imports Row_Views Filters_Panel
begin

text \<open>
  The chats page with its filter panel (\<open>pages/chats.tsx\<close>, lines 153-160):
  \<open>LeadFiltersPanel\<close> is mounted while \<open>showFilters\<close> holds, its \<open>onApply\<close> and
  \<open>onReset\<close> are the page's \<open>ApplyChatFilters\<close> and \<open>ResetChatFilters\<close>, and the
  page's \<open>appliedFilters\<close> flows back into the panel's effect. The two step
  functions \<open>chats_step\<close> and \<open>panel_step\<close> are composed, the callbacks a panel
  event emits being run on the page in order.
\<close>

section \<open>The composed page\<close>

record chats_with_panel =
  cwp_page :: chats_page
  cwp_panel :: "filters_panel option"

datatype cwp_event = PageEvent chats_event | PanelEvent panel_event

definition panel_output_event :: "panel_output \<Rightarrow> chats_event" where
  "panel_output_event out = (case out of OnApply f \<Rightarrow> ApplyChatFilters f | OnReset \<Rightarrow> ResetChatFilters)"

text \<open>
  A page event, then the panel mounted, kept (with the new \<open>appliedFilters\<close>)
  or unmounted as \<open>showFilters\<close> says; a panel event, then the callbacks it
  emitted, then the new \<open>appliedFilters\<close> passed back to the panel.
\<close>

definition cwp_step ::
  "(string \<Rightarrow> string) \<Rightarrow> host \<Rightarrow> chats_with_panel \<Rightarrow> cwp_event \<Rightarrow> chats_with_panel" where
  "cwp_step lower h st e =
     (case e of
        PageEvent pe \<Rightarrow>
          (let page' = chats_step lower h (cwp_page st) pe in
           \<lparr>cwp_page = page',
            cwp_panel =
              (if showFilters page' then
                 (case cwp_panel st of
                    Some p \<Rightarrow> Some (panel_step p (AppliedChanged (chats_appliedFilters page')))
                  | None \<Rightarrow> Some (panel_mount (chats_appliedFilters page')))
               else None)\<rparr>)
      | PanelEvent ev \<Rightarrow>
          (case cwp_panel st of
             None \<Rightarrow> st
           | Some p \<Rightarrow>
               (let p1 = panel_step p ev;
                    outs = drop (length (fp_emitted p)) (fp_emitted p1);
                    page' = foldl (chats_step lower h) (cwp_page st) (map panel_output_event outs)
                in \<lparr>cwp_page = page',
                    cwp_panel = Some (panel_step p1 (AppliedChanged (chats_appliedFilters page')))\<rparr>)))"

definition cwp_init :: chats_with_panel where
  "cwp_init = \<lparr>cwp_page = chats_init, cwp_panel = None\<rparr>"

definition cwp_run ::
  "(string \<Rightarrow> string) \<Rightarrow> host \<Rightarrow> chats_with_panel \<Rightarrow> cwp_event list \<Rightarrow> chats_with_panel" where
  "cwp_run lower h = foldl (cwp_step lower h)"

text \<open>A fetch of one lead, then the panel shown.\<close>

definition ex_cwp_events :: "cwp_event list" where
  "ex_cwp_events = [PageEvent (ChatsFetchSettles (FetchOk [ex_lead_p1])), PageEvent ToggleFilters]"

text \<open>The panel is mounted exactly while the filters are shown, and it holds the page's filters.\<close>

definition cwp_inv :: "chats_with_panel \<Rightarrow> bool" where
  "cwp_inv st \<longleftrightarrow>
     (case cwp_panel st of
        None \<Rightarrow> \<not> showFilters (cwp_page st)
      | Some p \<Rightarrow> showFilters (cwp_page st) \<and> fp_applied p = chats_appliedFilters (cwp_page st))"

section \<open>Lemmas\<close>

lemma panel_step_applied: "fp_applied (panel_step p (AppliedChanged f)) = f"
  by (simp add: panel_step_def)

lemma panel_step_applied_same:
  "fp_applied p = f \<Longrightarrow> panel_step p (AppliedChanged f) = p"
  by (simp add: panel_step_def)

lemma chats_step_outputs_showFilters:
  "showFilters (foldl (chats_step lower h) s (map panel_output_event outs)) = showFilters s"
  by (induction outs arbitrary: s) (simp_all add: chats_step_def panel_output_event_def split: panel_output.split)

lemma cwp_inv_init: "cwp_inv cwp_init"
  by (simp add: cwp_inv_def cwp_init_def chats_init_def)

lemma cwp_step_inv: "cwp_inv st \<Longrightarrow> cwp_inv (cwp_step lower h st e)"
proof (cases e)
  case (PageEvent pe)
  then show ?thesis
    by (auto simp: cwp_step_def cwp_inv_def Let_def panel_step_applied panel_mount_def
             split: option.splits)
next
  case (PanelEvent ev)
  assume "cwp_inv st"
  then show ?thesis using PanelEvent chats_step_outputs_showFilters
    by (auto simp: cwp_step_def cwp_inv_def Let_def panel_step_applied split: option.splits)
qed

lemma cwp_run_inv: "cwp_inv st \<Longrightarrow> cwp_inv (cwp_run lower h st es)"
  by (induction es arbitrary: st) (simp_all add: cwp_run_def cwp_step_inv)

text \<open>
  Apply: the page's filters become the panel's draft, the list is filtered by
  it, and the panel keeps it.
\<close>

lemma cwp_apply:
  assumes "cwp_inv st" and "cwp_panel st = Some p"
  shows "chats_appliedFilters (cwp_page (cwp_step lower h st (PanelEvent SubmitApply)))
           = fp_draft p
       \<and> chats_rows lower h (cwp_page (cwp_step lower h st (PanelEvent SubmitApply)))
           = chats_sorted lower h (case chats_data (cwp_page st) of None \<Rightarrow> [] | Some ls \<Rightarrow> ls)
               (fp_draft p) (searchTerm (cwp_page st))
       \<and> map_option fp_draft (cwp_panel (cwp_step lower h st (PanelEvent SubmitApply)))
           = Some (fp_draft p)"
  using assms
  by (simp add: cwp_step_def cwp_inv_def Let_def panel_step_def panel_output_event_def
                chats_step_def chats_rows_def)

text \<open>Reset: the page's filters and the draft are the defaults, the searches are cleared.\<close>

lemma cwp_reset:
  assumes "cwp_inv st" and "cwp_panel st = Some p"
  shows "chats_appliedFilters (cwp_page (cwp_step lower h st (PanelEvent ClickReset)))
           = DEFAULT_LEAD_FILTERS
       \<and> map_option (\<lambda>q. (fp_draft q, regionQuery q, zoneQuery q))
           (cwp_panel (cwp_step lower h st (PanelEvent ClickReset)))
           = Some (DEFAULT_LEAD_FILTERS, [], [])"
  using assms
  by (simp add: cwp_step_def cwp_inv_def Let_def panel_step_def handleReset_def
                panel_output_event_def chats_step_def)

text \<open>
  Hiding the panel unmounts it: an edit that was not applied is lost, and the
  panel shown again starts from the applied filters.
\<close>

lemma cwp_hide_show_discards_draft:
  assumes "cwp_inv st" and "cwp_panel st = Some p"
  shows "map_option fp_draft
           (cwp_panel (cwp_run lower h st [PageEvent ToggleFilters, PageEvent ToggleFilters]))
         = Some (chats_appliedFilters (cwp_page st))"
  using assms
  by (simp add: cwp_run_def cwp_step_def cwp_inv_def Let_def chats_step_def panel_mount_def)

text \<open>
  Claim C14 (functional). On the chats page with its filter panel, in every
  state reached from the initial one in which the panel is shown, submitting
  the panel lists exactly the fetched leads that match the panel's draft and the
  current search, newest activity first (a stable sort), keeps the draft in the
  panel and keeps the panel in step with the page: the panel's \<open>onApply\<close> reaches
  \<open>setAppliedFilters\<close> of the page and the page's list is recomputed from it.
\<close>

theorem cwp_submit_lists_matching:
  assumes "cwp_panel (cwp_run lower h cwp_init es) = Some p"
  shows "let st = cwp_run lower h cwp_init es;
             st' = cwp_step lower h st (PanelEvent SubmitApply);
             ls = (case chats_data (cwp_page st) of None \<Rightarrow> [] | Some ls \<Rightarrow> ls)
         in chats_rows lower h (cwp_page st')
              = sort_key (\<lambda>l. - getActivityValue h l)
                  (filter (\<lambda>l. lead_matches h (fp_draft p) l \<and> matchesSearch lower l (searchTerm (cwp_page st))) ls)
          \<and> map_option fp_draft (cwp_panel st') = Some (fp_draft p)
          \<and> cwp_inv st'"
proof -
  let ?st = "cwp_run lower h cwp_init es"
  have inv: "cwp_inv ?st" by (rule cwp_run_inv [OF cwp_inv_init])
  show ?thesis
    using cwp_apply [OF inv assms, of lower h] cwp_step_inv [OF inv, of lower h "PanelEvent SubmitApply"]
    by (simp add: Let_def chats_sorted_filter)
qed

theorem cwp_submit_lists_matching_witness:
  "cwp_panel (cwp_run id ex_host cwp_init ex_cwp_events) = Some (panel_mount DEFAULT_LEAD_FILTERS)
   \<and> (let st = cwp_run id ex_host cwp_init ex_cwp_events;
           st' = cwp_step id ex_host st (PanelEvent SubmitApply);
           ls = (case chats_data (cwp_page st) of None \<Rightarrow> [] | Some ls \<Rightarrow> ls)
       in chats_rows id ex_host (cwp_page st')
            = sort_key (\<lambda>l. - getActivityValue ex_host l)
                (filter (\<lambda>l. lead_matches ex_host (fp_draft (panel_mount DEFAULT_LEAD_FILTERS)) l
                           \<and> matchesSearch id l (searchTerm (cwp_page st))) ls)
        \<and> map_option fp_draft (cwp_panel st') = Some (fp_draft (panel_mount DEFAULT_LEAD_FILTERS))
        \<and> cwp_inv st')"
proof -
  have h: "cwp_panel (cwp_run id ex_host cwp_init ex_cwp_events) = Some (panel_mount DEFAULT_LEAD_FILTERS)"
    by (simp add: cwp_run_def ex_cwp_events_def cwp_step_def cwp_init_def chats_step_def chats_init_def
                  chats_settle_def chats_auth_effect_def Let_def)
  show ?thesis using h cwp_submit_lists_matching [OF h] by simp
qed

end
