(* ===== verification/Spec2Isabelle.thy ===== *)
theory Spec2Isabelle
  imports Filter_Predicate Filter_Facets Grouping Conversation Chats_Page Filters_Panel Api_Login Timestamps Page_Chrome Row_Views Queue_View Chats_Composition
begin

text \<open>
  A verification development for the CRMREBS lead console
  (\<open>src/frontend\<close>): the lead synchronisation, filtering, grouping and outreach
  logic of a Next.js front end that polls a backend for sales leads.

  \<^bold>\<open>Layout.\<close>
  \<^item> \<open>Prelude\<close>: named collections of evaluation rules and list lemmas for
    insertion-ordered sets (JavaScript \<open>Set\<close>/\<open>Map\<close> key order).
  \<^item> \<open>Unicode_Text\<close>: the text layer of the runtime: strict UTF-8 decoding
    (\<open>utf8_decode\<close>, a \<open>function\<close> terminating by the length of its input), the
    UTF-16 code units of a code point and their decoder, the ECMAScript white
    space set, \<open>trim\<close>, \<open>split(/\s+/)\<close> (\<open>split_ws\<close>, terminating by length)
    and \<open>toUpperCase\<close> over a code-point case mapping. Lemmas: decoding inverts
    encoding at both layers, and a string read from UTF-8 is well-formed
    UTF-16 of 16-bit units.
  \<^item> \<open>Js_Values\<close>: the JavaScript runtime the code relies on: JSON values,
    \<open>Number(\<dots>)\<close> (ECMAScript StringToNumber, finiteness), truthiness,
    \<open>trim\<close> (decode the UTF-8, trim the ECMAScript white space, encode; on a
    UTF-8 string it is \<open>trim\<close> on the UTF-16 units, \<open>js_trim_units\<close>), \<open>Number.prototype.toString\<close>, \<open>Array.prototype.sort\<close> as the stable
    insertion sort. Numbers are exact rationals with the double overflow bound
    written out; rounding to 53 bits is not modelled. Every number the
    conversions return is finite (\<open>pred_string_to_number\<close>,
    \<open>pred_js_to_number\<close>).
  \<^item> \<open>Lead_Model\<close>: \<open>src/frontend/src/types/leads.ts\<close> (\<open>Lead\<close>,
    \<open>ConversationMessage\<close>) and the data of \<open>src/frontend/src/lib/leads.ts\<close>
    (\<open>LeadFilters\<close>, \<open>DEFAULT_LEAD_FILTERS\<close>, \<open>PROPERTY_TYPE_OPTIONS\<close>,
    \<open>toNumber\<close>, \<open>getFromRaw\<close>, \<open>extractLabel\<close>), and the \<open>host\<close> record: the
    interface to date-fns (\<open>parseISO\<close>, calendar days, \<open>format\<close>), \<open>new Date\<close>,
    the load-time clock \<open>TODAY\<close> and \<open>localeCompare\<close>, which the repository
    calls and does not implement.
  \<^item> \<open>Filter_Predicate\<close>: \<open>applyLeadFilters\<close> (\<open>lib/leads.ts\<close> lines
    156-295), one definition per clause of the filter callback, the contract of
    spec section 4.2 as \<open>spec_matches\<close>, and the refinement between them
    (claims C1, C2, C4; C5 below runs the spec's scenario).
  \<^item> \<open>Filter_Facets\<close>: \<open>deriveFilterOptions\<close> (\<open>lib/leads.ts\<close> lines 105-154):
    the \<open>forEach\<close> is a left fold of \<open>facet_step\<close> over a record holding the
    \<open>Set\<close> of property types and the two insertion-ordered \<open>Map\<close>s; the first
    label seen for a region or zone is kept; \<open>mapToOptions\<close> sorts with the
    host's \<open>localeCompare\<close> (C6, C7, C9). C33 is the typing of the result: every
    option has a finite value and a non-empty label.
  \<^item> \<open>Grouping\<close>: \<open>groupByDateAdded\<close>, \<open>groupByLastOutreach\<close> (\<open>lib/leads.ts\<close>)
    and \<open>formatDayHeader\<close>, \<open>ensureDate\<close> (\<open>lib/dates.ts\<close>, first module);
    a thrown \<open>RangeError\<close> is the left value of a sum; the abstract grouping
    \<open>group_spec\<close> (buckets in order of first occurrence) and the refinement,
    partition and ordering theorems (C10-C13); a lemma shows that without
    outreach history \<open>groupByLastOutreach\<close> is \<open>groupByDateAdded\<close>.
  \<^item> \<open>Queue_Page\<close>: the queue page \<open>DashboardPage\<close> (\<open>lib/dates.ts\<close>, second
    module): SyncStore and BulkActionCoordinator. State is the record
    \<open>queue_page\<close>; \<open>queue_step\<close> is its reaction to one event (a click, a
    timer or focus revalidation, a network response), with the handlers
    \<open>handleSingleSend\<close>, \<open>handleBulkSend\<close> split at their awaits into
    \<open>task\<close>s and the React effects (pending reset, selection pruning, 401
    redirect) applied after each fetch. The invariant \<open>queue_inv\<close> holds in
    every run (C15-C17); C18 exhibits a duplicate send; C19, C20 give the bulk
    loop and the refresh semantics.
  \<^item> \<open>Conversation\<close>: the conversation panel \<open>ConversationPanel\<close>
    (\<open>pages/login.tsx\<close>, second module): ConversationSync. State is the record
    \<open>conv_panel\<close>; \<open>conv_step\<close> handles typing, send clicks, poll ticks,
    parent renders, close and responses; \<open>handleSend\<close> and the mark-read effect
    are split at their awaits; a draft of any ECMAScript white space, a
    no-break space included, sends nothing (\<open>handleSend_nbsp_noop\<close>). The
    stale-result guard, the invariant
    \<open>conv_inv\<close>, the reply paths and two defects of the mark-read effect are
    C21, C23, C24, C26-C30. C32 is termination: every continuation suspended at
    \<open>await mutate()\<close> is resumed once the requests in flight settle, in any
    order; the measure is the number of requests in flight.
  \<^item> \<open>Chats_Page\<close>: the chats page \<open>ChatsPage\<close> (\<open>pages/chats.tsx\<close>): the
    activity key (\<open>getActivityTimestamp\<close>, \<open>getActivityValue\<close>), the search
    \<open>matchesSearch\<close>, the filtered, searched and sorted lists, and the page
    state as the step function \<open>chats_step\<close>. C34 shows the list is the stable
    sort by descending activity; a lemma shows a longer query only narrows it.
  \<^item> \<open>Chats_Composition\<close>: the chats page composed with its filter panel
    (\<open>cwp_step\<close>): the panel is mounted exactly while the filters are shown
    and holds the page's filters (\<open>cwp_inv\<close>, preserved by every step); Apply
    filters the list by the draft, Reset restores the defaults, and hiding the
    panel discards an edit that was not applied. C14: in every reachable state
    with the panel shown, submitting it lists exactly the fetched leads that
    match the draft and the search, newest activity first.
  \<^item> \<open>Middleware\<close>: \<open>middleware.ts\<close>: \<open>isJwtExpired\<close> (split, base64url
    rewrite, padding, the \<open>exp\<close> test) and the decision \<open>middleware\<close>;
    \<open>mw_settles\<close> follows redirects; \<open>config_matcher\<close> is \<open>config.matcher\<close>, and
    \<open>mw_entry\<close> the function behind it, which agrees with \<open>middleware\<close> on the
    app's routes (\<open>mw_entry_middleware\<close>). C36 (no redirect loop: at most three
    requests), C37 (a protected page needs an unexpired token), C38 (malformed
    tokens), C40 (padding bounds).
  \<^item> \<open>Filters_Panel\<close>: \<open>components/LeadFilters.tsx\<close>: the draft, the region and
    zone search boxes and every control as \<open>panel_step\<close>, the effect that copies
    \<open>appliedFilters\<close> into the draft, and the option a controlled select
    shows. C31 exhibits a selected region hidden by the search box; C39 is the
    round trip \<open>Number(String(k)) = k\<close> on integer ids, proved from the
    parsing lemmas of \<open>Js_Values\<close>. The select options (\<open>formatOptionLabel\<close>, \<open>ROOMS_OPTIONS\<close>) and
    each input's handler are definitions; a lemma shows that choosing a listed
    region selects exactly its id. \<open>panel_view\<close> is the rendered form: a
    checkbox click flips exactly its checkbox, and the checkboxes list the
    static catalog, not the derived property types.
  \<^item> \<open>Api_Login\<close>: the transport \<open>request\<close> of \<open>lib/api.ts\<close> (network error,
    non-2xx response as an \<open>ApiError\<close> with status and message, 204, JSON body)
    and the login page \<open>LoginPage\<close> (\<open>pages/login.tsx\<close>, first module): the
    cookie redirect on mount and the submit as \<open>login_step\<close>. The endpoint
    wrappers are \<open>api_request\<close>: distinct operations send distinct requests
    when property ids are free of \<open>/\<close>, \<open>?\<close> and \<open>#\<close>. \<open>api_rewrite\<close> is the \<open>/api\<close> rewrite of
    \<open>next.config.mjs\<close>: the browser's relative requests reach the URLs the
    server requests directly. C35 shows that a
    rejected login with an empty status text shows no error at all.
  \<^item> \<open>Timestamps\<close>: \<open>formatFullDateTime\<close>, \<open>formatMessageTimestamp\<close>
    (\<open>lib/dates.ts\<close> lines 37-59) and the chats page's row times; the
    rendering of a list (\<open>render_list\<close>) aborts at the first row that throws.
    C3: one chat whose timestamp \<open>Date.parse\<close> accepts and \<open>parseISO\<close> rejects
    makes the chats page throw.
  \<^item> \<open>Page_Chrome\<close>: \<open>PageShell\<close> (\<open>src/unnamed/part_002\<close>: navigation,
    "Log out"), \<open>InlineNotice\<close> (\<open>src/unnamed/part_003\<close>) and the notices of
    the queue and chats pages, the \<open>/history\<close> redirect, and the queue page's
    copy button (\<open>copiedId\<close>, \<open>handleCopy\<close>). The log-out acts on a model
    of the browser cookie jar; C22 composes it with the login page's token check
    and the middleware: with a script-visible cookie the user is signed out.
    Lemmas show the dead message fallback of the error notices, the
    double-encoded literals of the queue page and a copy badge cleared early.
  \<^item> \<open>Initials\<close>: \<open>getInitials\<close> (\<open>pages/chats.tsx\<close> lines 41-51) over the
    code units of the name, with \<open>undefined\<close> for an index out of range and the
    \<open>TypeError\<close> of \<open>toUpperCase\<close> on \<open>NaN\<close> as a branch. C8 gives its closed
    form: it never throws and never reaches the \<open>"L"\<close> fallback; C25 shows a
    name starting with an emoji yields a lone surrogate.
  \<^item> \<open>Row_Views\<close>: what the queue page's lead cards, the chats page's rows and
    the conversation panel show, each a record computed from the page state
    with the formatters of \<open>Timestamps\<close> and the initials of \<open>Initials\<close>;
    \<open>render_list\<close> is characterised
    by \<open>render_list_Inr\<close> and \<open>render_list_Inl\<close>. Theorems show the queue page
    and the conversation panel throw on one unparseable message time, the
    full chat rows throw exactly when their times do, and every send button is
    disabled while a send is pending. \<open>chats_view\<close> is the whole chats page:
    its row count is the result count, and a search that matches nothing shows
    the empty-inbox message.
  \<^item> \<open>Queue_View\<close>: the rest of the queue page: the markup state
    (\<open>showFilters\<close>, \<open>activeLead\<close>) and the effect that refreshes the open
    lead, composed with \<open>queue_step\<close> as \<open>queue_page_step\<close>, and the rendered
    page \<open>queue_view\<close>. Lemmas: the bulk button is enabled exactly when
    \<open>queue_step\<close> acts on its click, "Select multiple" is never disabled, the
    open lead follows the list and stays open when it leaves it, and the
    result count is the number of cards rendered (\<open>queue_view_count\<close>).

  \<^bold>\<open>External collaborators.\<close> The SWR cache (\<open>useSWR\<close>) is a library: its
  de-duplication, numbered requests and issue-order guard are modelled from
  spec sections 4.4, 4.6 and 5 (\<open>swr_revalidate\<close>, \<open>swr_settle\<close>,
  \<open>msgs_request\<close>, \<open>msgs_poll\<close>, \<open>msgs_apply\<close>, \<open>msgs_settle\<close>). The network is
  the sequence of events: every call the pages issue is recorded in a list, and
  its outcome arrives as a later event, so every interleaving of responses is a
  run. date-fns and \<open>localeCompare\<close> are fields of the \<open>host\<close> record, and
  the theorems hold for every host or name the host properties they need.
  \<open>String.prototype.toLowerCase\<close> is a parameter \<open>lower\<close> of the chats page
  and the filter panel (the search-narrowing lemma assumes it maps characters
  one by one), and
  \<open>atob\<close> followed by \<open>JSON.parse\<close> is the parameter \<open>decode\<close> of the
  middleware. Redirects are followed by \<open>mw_settles\<close>, and
  \<open>document.cookie\<close> is read and written through \<open>document_cookie\<close> and
  \<open>expire_cookie\<close>, models of the browser. date-fns \<open>format\<close> with a pattern
  and \<open>new Date()\<close> at render time are parameters of the formatters.

  \<^bold>\<open>Bounds and termination.\<close> Every definition is total and executable:
  loops over leads, ids and events are structural recursion or folds, so no
  fuel is needed; the two text scanners \<open>utf8_decode\<close> and \<open>split_ws\<close> are
  \<open>function\<close>s with a length measure. The one unbounded wait of the program, \<open>await mutate()\<close>
  in \<open>handleSend\<close>, is proved to end (C32) by induction on the settled
  requests. Numbers are exact rationals with the IEEE overflow bound
  \<open>2^1024 - 2^970\<close>; an overflowing literal is NaN/Infinity (\<open>None\<close>).
  Rounding of non-integral decimals to 53 bits is not modelled; no theorem
  depends on it because the filters only compare numbers.

  \<^bold>\<open>Not modelled.\<close> Markup and styling beyond what data decides
  (class names), the browser's replacement of ill-formed UTF-8 by U+FFFD (a
  name whose bytes are not UTF-8 has no initials in the model), the Unicode
  case tables (the parameter \<open>cu\<close>), and the duplicate module copies under
  \<open>src/unnamed\<close>: \<open>part_000\<close> is an older \<open>lib/api.ts\<close> that differs only in
  its \<open>BASE_URL\<close> literal, \<open>part_001\<close> the login page with other class names;
  their logic is the one modelled for the originals. The response types of
  \<open>types/leads.ts\<close> (\<open>LeadsResponse\<close>, \<open>MessagesResponse\<close>, \<open>Template\<close>) are
  compile-time casts of the JSON body: the page models receive the outcome of
  \<open>request\<close> as events, so they hold for whatever the network returns.
\<close>

section \<open>Cross-component properties\<close>


end
